theory Spec2Isabelle
  imports Main "HOL-Library.Word" "HOL-Library.Monad_Syntax"
begin

section \<open>Slots, subcarrier spacings and contract violations\<close>

text \<open>
  Modelled from the spec: \<^verbatim>\<open>slot_point\<close> (srsran/ran/slot_point.h is not among the
  sources). The spec's data model calls it "an absolute slot index parameterized by
  numerology" in \<open>{0..4}\<close>, to which slots are added and which is compared. The model keeps
  the numerology and the absolute count; \<^verbatim>\<open>slot_index()\<close> is the index of the slot
  within its radio frame of ten subframes, each of \<open>2 ^ numerology\<close> slots. The
  wrap-around of the count at the hyper-frame is not unfolded: counts are absolute.
\<close>

record slot_point =
  numerology :: nat
  count_val :: nat

definition nof_slots_per_frame :: "slot_point \<Rightarrow> nat" where
  "nof_slots_per_frame sl = 10 * 2 ^ numerology sl"

definition slot_index :: "slot_point \<Rightarrow> 32 word" where
  "slot_index sl = of_nat (count_val sl mod nof_slots_per_frame sl)"

definition slot_add :: "slot_point \<Rightarrow> nat \<Rightarrow> slot_point" where
  "slot_add sl n = sl\<lparr>count_val := count_val sl + n\<rparr>"


definition slot_lt :: "slot_point \<Rightarrow> slot_point \<Rightarrow> bool" where
  "slot_lt a b = (count_val a < count_val b)"

definition slot_le :: "slot_point \<Rightarrow> slot_point \<Rightarrow> bool" where
  "slot_le a b = (a = b \<or> slot_lt a b)"

definition slot_ge :: "slot_point \<Rightarrow> slot_point \<Rightarrow> bool" where
  "slot_ge a b = (\<not> slot_lt a b)"

text \<open>
  \<^verbatim>\<open>subcarrier_spacing\<close> and \<^verbatim>\<open>to_numerology_value\<close> (declared in a header that is
  not among the sources): the five spacings \<open>15 * 2 ^ \<mu>\<close> kHz of the spec, \<open>\<mu>\<close> in
  \<open>{0..4}\<close>.
\<close>

datatype subcarrier_spacing = kHz15 | kHz30 | kHz60 | kHz120 | kHz240

fun to_numerology_value :: "subcarrier_spacing \<Rightarrow> nat" where
  "to_numerology_value kHz15 = 0"
| "to_numerology_value kHz30 = 1"
| "to_numerology_value kHz60 = 2"
| "to_numerology_value kHz120 = 3"
| "to_numerology_value kHz240 = 4"

text \<open>
  A failed \<^verbatim>\<open>srsgnb_sanity_check\<close> / \<^verbatim>\<open>srsgnb_assert\<close> aborts the call with its
  message; a read of a \<^verbatim>\<open>std::array\<close> past its end is kept apart, so that a theorem can
  say that it does not happen.
\<close>

datatype contract_violation =
  sanity_check_failed string
| array_out_of_bounds

definition array_at :: "'a list \<Rightarrow> nat \<Rightarrow> contract_violation + 'a" where
  "array_at xs i = (if i < length xs then Inr (xs ! i) else Inl array_out_of_bounds)"

section \<open>RA scheduler: Msg3 delay and RA-RNTI\<close>

record pusch_time_domain_resource_allocation =
  k2 :: "32 word"
  pusch_symbols :: "nat \<times> nat"

text \<open>Table 6.1.2.1.1-5 of TS 38.214, the \<^verbatim>\<open>std::array<uint8_t, 4>\<close> of the source.\<close>

definition DELTAS :: "8 word list" where
  "DELTAS = [2, 3, 4, 6]"

text \<open>
  \<^verbatim>\<open>get_msg3_delay\<close>: the sanity check on the numerology, then \<open>k2 + DELTAS[\<mu>]\<close> in
  unsigned 32-bit arithmetic.
\<close>

definition get_msg3_delay ::
  "pusch_time_domain_resource_allocation \<Rightarrow> subcarrier_spacing \<Rightarrow> contract_violation + 32 word" where
  "get_msg3_delay pusch_td_res_alloc pusch_scs =
     (if \<not> to_numerology_value pusch_scs \<le> to_numerology_value kHz120
      then Inl (sanity_check_failed ''PUSCH subcarrier spacing not supported for MSG3 delay'')
      else case array_at DELTAS (to_numerology_value pusch_scs) of
             Inl e \<Rightarrow> Inl e
           | Inr d \<Rightarrow> Inr (k2 pusch_td_res_alloc + ucast d))"

text \<open>
  \<^verbatim>\<open>get_ra_rnti\<close>: the sum is computed on \<^verbatim>\<open>unsigned\<close> (32 bits) and stored in a
  \<^verbatim>\<open>uint16_t\<close>, which keeps its low 16 bits.
\<close>

definition get_ra_rnti :: "slot_point \<Rightarrow> 32 word \<Rightarrow> 32 word \<Rightarrow> bool \<Rightarrow> 16 word" where
  "get_ra_rnti sl_rx symbol_index frequency_index is_sul =
     ucast (1 + symbol_index + 14 * slot_index sl_rx + 14 * 80 * frequency_index
            + (14 * 80 * 8 * (if is_sul then 1 else 0)) :: 32 word)"

section \<open>Transmit buffer pool\<close>

text \<open>
  Modelled from the spec: \<^verbatim>\<open>trx_buffer_identifier\<close> (its header is not among the
  sources). The spec's data model gives its values: \<open>invalid\<close> (free), \<open>unknown\<close>
  (anonymous reservation), or a tagged triple of RNTI, HARQ identifier and direction.
\<close>

datatype trx_buffer_identifier =
  invalid
| unknown
| tagged "16 word" "8 word" bool

text \<open>
  Modelled from the spec: \<^verbatim>\<open>tx_buffer_impl\<close> (tx_buffer_impl.h is not among the
  sources). The spec's data model gives a buffer its number of codeblocks and its
  \<open>locked\<close> and \<open>reserved\<close> marks; a locked buffer cannot be reserved again ("HARQ
  already in use"), a reservation can exhaust the codeblocks of the pool ("insufficient
  CBs"), an expiry frees a buffer unless it is still locked, and a unique buffer locks its
  buffer while it lives and unlocks it when destroyed. The codeblocks shared by the
  buffers of a pool are counted by the number still free, passed along with the buffer.
\<close>

datatype buffer_state = available | reserved | locked

datatype tx_buffer_status = successful | already_in_use | insufficient_cb

record tx_buffer_impl =
  current_state :: buffer_state
  codeblock_ids :: nat

definition get_nof_codeblocks :: "tx_buffer_impl \<Rightarrow> nat" where
  "get_nof_codeblocks b = codeblock_ids b"

definition is_free :: "tx_buffer_impl \<Rightarrow> bool" where
  "is_free b = (current_state b = available)"

definition is_locked :: "tx_buffer_impl \<Rightarrow> bool" where
  "is_locked b = (current_state b = locked)"

definition buffer_reserve ::
  "nat \<Rightarrow> tx_buffer_impl \<times> nat \<Rightarrow> tx_buffer_status \<times> tx_buffer_impl \<times> nat" where
  "buffer_reserve nof_codeblocks bc =
     (let b = fst bc; free_cbs = snd bc in
      if current_state b = locked then (already_in_use, b, free_cbs)
      else if nof_codeblocks \<le> codeblock_ids b
      then (successful, b\<lparr>current_state := reserved, codeblock_ids := nof_codeblocks\<rparr>,
            free_cbs + (codeblock_ids b - nof_codeblocks))
      else if nof_codeblocks - codeblock_ids b \<le> free_cbs
      then (successful, b\<lparr>current_state := reserved, codeblock_ids := nof_codeblocks\<rparr>,
            free_cbs - (nof_codeblocks - codeblock_ids b))
      else (insufficient_cb, b\<lparr>codeblock_ids := 0\<rparr>, free_cbs + codeblock_ids b))"

definition buffer_expire :: "tx_buffer_impl \<times> nat \<Rightarrow> bool \<times> tx_buffer_impl \<times> nat" where
  "buffer_expire bc =
     (let b = fst bc; free_cbs = snd bc in
      if current_state b = locked then (False, b, free_cbs)
      else (True, b\<lparr>current_state := available, codeblock_ids := 0\<rparr>, free_cbs + codeblock_ids b))"

definition buffer_lock :: "tx_buffer_impl \<Rightarrow> tx_buffer_impl" where
  "buffer_lock b = b\<lparr>current_state := locked\<rparr>"

definition buffer_unlock :: "tx_buffer_impl \<Rightarrow> tx_buffer_impl" where
  "buffer_unlock b = (if current_state b = locked then b\<lparr>current_state := reserved\<rparr> else b)"

text \<open>
  The pool (\<^verbatim>\<open>tx_buffer_pool_impl\<close>): the stop flag, the parallel arrays of identifiers,
  expirations and buffers, the free codeblocks and the configured lifetime.
  \<^verbatim>\<open>null_expiration\<close> is \<open>None\<close>.
\<close>

record tx_buffer_pool_impl =
  stopped :: bool
  identifiers :: "trx_buffer_identifier list"
  expirations :: "slot_point option list"
  buffers :: "tx_buffer_impl list"
  codeblock_pool :: nat
  expire_timeout_slots :: nat

text \<open>The arrays of a pool have one entry per buffer (set up by the constructor).\<close>

definition pool_wf :: "tx_buffer_pool_impl \<Rightarrow> bool" where
  "pool_wf p = (length (expirations p) = length (identifiers p)
                \<and> length (buffers p) = length (identifiers p))"

text \<open>
  A failed reservation returns an invalid unique buffer, after a warning that names the
  cause (a stopped pool returns without one); a successful one returns a unique buffer
  for the buffer of the given index.
\<close>

datatype reserve_failure =
  pool_stopped
| retx_identifier_not_found
| insufficient_buffers
| codeblocks_do_not_match
| harq_already_in_use
| insufficient_cbs

type_synonym unique_tx_buffer = "reserve_failure + nat"

definition is_valid :: "unique_tx_buffer \<Rightarrow> bool" where
  "is_valid u = (case u of Inl _ \<Rightarrow> False | Inr _ \<Rightarrow> True)"

text \<open>\<^verbatim>\<open>std::find\<close> and \<^verbatim>\<open>std::find_if\<close>: the first position that matches, or the length.\<close>

fun std_find_if :: "('a \<Rightarrow> bool) \<Rightarrow> 'a list \<Rightarrow> nat" where
  "std_find_if P [] = 0"
| "std_find_if P (x # xs) = (if P x then 0 else Suc (std_find_if P xs))"

definition std_find :: "'a list \<Rightarrow> 'a \<Rightarrow> nat" where
  "std_find xs v = std_find_if (\<lambda>x. x = v) xs"

definition std_find_if_from :: "('a \<Rightarrow> bool) \<Rightarrow> 'a list \<Rightarrow> nat \<Rightarrow> nat" where
  "std_find_if_from P xs first = first + std_find_if P (drop first xs)"

definition failure_of_status :: "tx_buffer_status \<Rightarrow> reserve_failure" where
  "failure_of_status status = (if status = already_in_use then harq_already_in_use else insufficient_cbs)"

text \<open>\<^verbatim>\<open>tx_buffer_pool_impl::reserve\<close> with an identifier.\<close>

definition reserve ::
  "slot_point \<Rightarrow> trx_buffer_identifier \<Rightarrow> nat \<Rightarrow> bool \<Rightarrow> tx_buffer_pool_impl
     \<Rightarrow> unique_tx_buffer \<times> tx_buffer_pool_impl" where
  "reserve slot ident nof_codeblocks new_data p =
     (if stopped p then (Inl pool_stopped, p)
      else
        let id_found = std_find (identifiers p) ident in
        if id_found = length (identifiers p) \<and> \<not> new_data then (Inl retx_identifier_not_found, p)
        else
          let id_found = (if id_found = length (identifiers p)
                          then std_find (identifiers p) invalid else id_found) in
          if id_found = length (identifiers p) then (Inl insufficient_buffers, p)
          else
            let i_buffer = id_found;
                buffer = buffers p ! i_buffer in
            if \<not> new_data \<and> nof_codeblocks \<noteq> get_nof_codeblocks buffer
            then (Inl codeblocks_do_not_match, p)
            else
              let r = buffer_reserve nof_codeblocks (buffer, codeblock_pool p);
                  status = fst r;
                  p1 = p\<lparr>buffers := (buffers p)[i_buffer := fst (snd r)],
                         codeblock_pool := snd (snd r)\<rparr> in
              if status \<noteq> successful then (Inl (failure_of_status status), p1)
              else
                (Inr i_buffer,
                 p1\<lparr>identifiers := (identifiers p1)[i_buffer := ident],
                    expirations := (expirations p1)[i_buffer := Some (slot_add slot (expire_timeout_slots p1))],
                    buffers := (buffers p1)[i_buffer := buffer_lock (buffers p1 ! i_buffer)]\<rparr>))"

text \<open>\<^verbatim>\<open>tx_buffer_pool_impl::reserve\<close> without an identifier (system information).\<close>

definition reserve_si ::
  "slot_point \<Rightarrow> nat \<Rightarrow> tx_buffer_pool_impl \<Rightarrow> unique_tx_buffer \<times> tx_buffer_pool_impl" where
  "reserve_si slot nof_codeblocks p =
     (if stopped p then (Inl pool_stopped, p)
      else
        let id_found = std_find (identifiers p) invalid in
        if id_found = length (identifiers p) then (Inl insufficient_buffers, p)
        else
          let i_buffer = id_found;
              buffer = buffers p ! i_buffer;
              r = buffer_reserve nof_codeblocks (buffer, codeblock_pool p);
              status = fst r;
              p1 = p\<lparr>buffers := (buffers p)[i_buffer := fst (snd r)],
                     codeblock_pool := snd (snd r)\<rparr> in
          if status \<noteq> successful then (Inl (failure_of_status status), p1)
          else
            (Inr i_buffer,
             p1\<lparr>identifiers := (identifiers p1)[i_buffer := unknown],
                expirations := (expirations p1)[i_buffer := Some (slot_add slot (expire_timeout_slots p1))],
                buffers := (buffers p1)[i_buffer := buffer_lock (buffers p1 ! i_buffer)]\<rparr>))"

text \<open>
  \<^verbatim>\<open>tx_buffer_pool_impl::run_slot\<close>: the body of the loop for the buffer \<open>i_buffer\<close>, and
  the loop over the reserved identifiers, from one \<^verbatim>\<open>std::find_if\<close> to the next.
\<close>

definition is_expired :: "slot_point option \<Rightarrow> slot_point \<Rightarrow> bool" where
  "is_expired expiration slot = (case expiration of None \<Rightarrow> False | Some e \<Rightarrow> slot_le e slot)"

definition run_slot_body :: "slot_point \<Rightarrow> nat \<Rightarrow> tx_buffer_pool_impl \<Rightarrow> tx_buffer_pool_impl" where
  "run_slot_body slot i_buffer p =
     (let buffer = buffers p ! i_buffer;
          free0 = is_free buffer;
          expired = is_expired (expirations p ! i_buffer) slot;
          r = buffer_expire (buffer, codeblock_pool p);
          free1 = (if expired then fst r else free0);
          p1 = (if expired
                then p\<lparr>buffers := (buffers p)[i_buffer := fst (snd r)], codeblock_pool := snd (snd r)\<rparr>
                else p);
          p2 = (if expired \<and> \<not> free1
                then p1\<lparr>expirations := (expirations p1)[i_buffer := Some (slot_add slot (expire_timeout_slots p1))]\<rparr>
                else p1)
      in if free1
         then p2\<lparr>identifiers := (identifiers p2)[i_buffer := invalid],
                 expirations := (expirations p2)[i_buffer := None]\<rparr>
         else p2)"

definition is_reserved_id :: "trx_buffer_identifier \<Rightarrow> bool" where
  "is_reserved_id ident = (ident \<noteq> invalid)"

lemma length_identifiers_run_slot_body:
  "length (identifiers (run_slot_body slot i p)) = length (identifiers p)"
  by (simp add: run_slot_body_def Let_def)

lemma std_find_if_from_ge: "first \<le> std_find_if_from P xs first"
  by (simp add: std_find_if_from_def)

function run_slot_loop :: "slot_point \<Rightarrow> nat \<Rightarrow> tx_buffer_pool_impl \<Rightarrow> tx_buffer_pool_impl" where
  "run_slot_loop slot it p =
     (if length (identifiers p) \<le> it then p
      else run_slot_loop slot
             (std_find_if_from is_reserved_id (identifiers (run_slot_body slot it p)) (Suc it))
             (run_slot_body slot it p))"
  by pat_completeness auto
termination
proof (relation "measure (\<lambda>(slot, it, p). length (identifiers p) - it)")
  show "wf (measure (\<lambda>(slot, it, p). length (identifiers p) - it))"
    by simp
next
  fix slot :: slot_point and it :: nat and p :: tx_buffer_pool_impl
  assume a: "\<not> length (identifiers p) \<le> it"
  have "Suc it \<le> std_find_if_from is_reserved_id (identifiers (run_slot_body slot it p)) (Suc it)"
    by (rule std_find_if_from_ge)
  with a show "((slot, std_find_if_from is_reserved_id (identifiers (run_slot_body slot it p)) (Suc it),
                 run_slot_body slot it p), (slot, it, p))
               \<in> measure (\<lambda>(slot, it, p). length (identifiers p) - it)"
    by (simp add: length_identifiers_run_slot_body)
qed

declare run_slot_loop.simps [simp del]

definition run_slot :: "slot_point \<Rightarrow> tx_buffer_pool_impl \<Rightarrow> tx_buffer_pool_impl" where
  "run_slot slot p = run_slot_loop slot (std_find_if_from is_reserved_id (identifiers p) 0) p"

text \<open>
  \<^verbatim>\<open>tx_buffer_pool_impl::stop\<close>. The lock of a buffer is dropped by the thread that holds
  its unique buffer, so the wait is modelled against what those threads do: the list
  gives, for each sleep of the caller in turn, the buffers whose unique buffer is
  destroyed during that sleep. When the list is used up the other threads drop no further
  lock, and the wait for a buffer that is still locked never returns: that is \<open>None\<close>.
\<close>

definition apply_unlocks :: "nat list \<Rightarrow> tx_buffer_impl list \<Rightarrow> tx_buffer_impl list" where
  "apply_unlocks unlocked bufs = fold (\<lambda>i bs. bs[i := buffer_unlock (bs ! i)]) unlocked bufs"

fun wait_unlocked ::
  "nat \<Rightarrow> nat list list \<Rightarrow> tx_buffer_impl list \<Rightarrow> (nat list list \<times> tx_buffer_impl list) option" where
  "wait_unlocked i [] bufs = (if is_locked (bufs ! i) then None else Some ([], bufs))"
| "wait_unlocked i (e # sleeps) bufs =
     (if is_locked (bufs ! i) then wait_unlocked i sleeps (apply_unlocks e bufs)
      else Some (e # sleeps, bufs))"

fun stop_loop ::
  "nat list \<Rightarrow> nat list list \<Rightarrow> tx_buffer_impl list \<Rightarrow> (nat list list \<times> tx_buffer_impl list) option" where
  "stop_loop [] sleeps bufs = Some (sleeps, bufs)"
| "stop_loop (i # rest) sleeps bufs =
     (case wait_unlocked i sleeps bufs of
        None \<Rightarrow> None
      | Some r \<Rightarrow> stop_loop rest (fst r) (snd r))"

definition stop ::
  "nat list list \<Rightarrow> tx_buffer_pool_impl \<Rightarrow> (nat list list \<times> tx_buffer_pool_impl) option" where
  "stop sleeps p =
     (let p1 = p\<lparr>stopped := True\<rparr> in
      case stop_loop [0..<length (buffers p1)] sleeps (buffers p1) of
        None \<Rightarrow> None
      | Some r \<Rightarrow> Some (fst r, p1\<lparr>buffers := snd r\<rparr>))"

text \<open>
  The calls a pool receives, for statements about every later call: the two reservations,
  the slot tick, and the destruction of the unique buffer of a buffer by its holder. The
  run returns the unique buffers of the reservations, in the order of the calls.
\<close>

datatype pool_call =
  call_reserve slot_point trx_buffer_identifier nat bool
| call_reserve_si slot_point nat
| call_run_slot slot_point
| drop_unique_buffer nat

fun run_calls :: "pool_call list \<Rightarrow> tx_buffer_pool_impl \<Rightarrow> unique_tx_buffer list \<times> tx_buffer_pool_impl" where
  "run_calls [] p = ([], p)"
| "run_calls (call_reserve slot ident n new_data # cs) p =
     (let r = reserve slot ident n new_data p; rest = run_calls cs (snd r)
      in (fst r # fst rest, snd rest))"
| "run_calls (call_reserve_si slot n # cs) p =
     (let r = reserve_si slot n p; rest = run_calls cs (snd r)
      in (fst r # fst rest, snd rest))"
| "run_calls (call_run_slot slot # cs) p = run_calls cs (run_slot slot p)"
| "run_calls (drop_unique_buffer i # cs) p =
     run_calls cs (p\<lparr>buffers := apply_unlocks [i] (buffers p)\<rparr>)"

text \<open>
  The effect of one slot tick on one buffer, in the words of the spec: a reserved buffer
  whose expiration has come is freed, unless it is still locked, in which case its
  expiration is put off by the lifetime; a reserved buffer that is not expired is
  released when its buffer is free and left alone otherwise. \<^verbatim>\<open>run_slot\<close> is compared
  with it, entry by entry.
\<close>

definition run_slot_entry ::
  "slot_point \<Rightarrow> nat \<Rightarrow> trx_buffer_identifier \<times> slot_point option \<times> tx_buffer_impl
     \<Rightarrow> trx_buffer_identifier \<times> slot_point option \<times> tx_buffer_impl" where
  "run_slot_entry slot timeout e =
     (let ident = fst e; expiration = fst (snd e); buffer = snd (snd e) in
      if ident = invalid then e
      else if is_expired expiration slot
      then (if is_locked buffer then (ident, Some (slot_add slot timeout), buffer)
            else (invalid, None, buffer\<lparr>current_state := available, codeblock_ids := 0\<rparr>))
      else if is_free buffer then (invalid, None, buffer)
      else e)"

definition pool_entry ::
  "tx_buffer_pool_impl \<Rightarrow> nat \<Rightarrow> trx_buffer_identifier \<times> slot_point option \<times> tx_buffer_impl" where
  "pool_entry p j = (identifiers p ! j, expirations p ! j, buffers p ! j)"

text \<open>
  The search order of the reservation with an identifier, in the words of the spec: the
  first buffer that carries the identifier, and when there is none and the transmission
  is new data, the first buffer with the \<open>invalid\<close> identifier.
\<close>

definition is_reserve_target :: "trx_buffer_identifier list \<Rightarrow> trx_buffer_identifier \<Rightarrow> bool \<Rightarrow> nat \<Rightarrow> bool" where
  "is_reserve_target ids ident new_data i =
     (i < length ids \<and>
      (if ident \<in> set ids then ids ! i = ident \<and> (\<forall>j<i. ids ! j \<noteq> ident)
       else new_data \<and> ids ! i = invalid \<and> (\<forall>j<i. ids ! j \<noteq> invalid)))"

text \<open>Pools used as concrete inputs: a pool in use, and a fresh pool of one buffer.\<close>

definition pool_example :: tx_buffer_pool_impl where
  "pool_example =
     \<lparr>stopped = False,
      identifiers = [tagged 0x4601 0 True, invalid, tagged 0x4602 1 True, tagged 0x4603 2 True],
      expirations = [Some \<lparr>numerology = 1, count_val = 20\<rparr>, None,
                     Some \<lparr>numerology = 1, count_val = 20\<rparr>, Some \<lparr>numerology = 1, count_val = 21\<rparr>],
      buffers = [\<lparr>current_state = reserved, codeblock_ids = 2\<rparr>,
                 \<lparr>current_state = available, codeblock_ids = 0\<rparr>,
                 \<lparr>current_state = locked, codeblock_ids = 1\<rparr>,
                 \<lparr>current_state = reserved, codeblock_ids = 1\<rparr>],
      codeblock_pool = 2,
      expire_timeout_slots = 10\<rparr>"

definition pool_fresh :: tx_buffer_pool_impl where
  "pool_fresh =
     \<lparr>stopped = False, identifiers = [invalid], expirations = [None],
      buffers = [\<lparr>current_state = available, codeblock_ids = 0\<rparr>],
      codeblock_pool = 4, expire_timeout_slots = 10\<rparr>"

definition pool_reserved :: tx_buffer_pool_impl where
  "pool_reserved =
     \<lparr>stopped = False, identifiers = [tagged 0x4601 0 True],
      expirations = [Some \<lparr>numerology = 1, count_val = 30\<rparr>],
      buffers = [\<lparr>current_state = locked, codeblock_ids = 1\<rparr>],
      codeblock_pool = 3, expire_timeout_slots = 10\<rparr>"

definition pool_after_stop :: tx_buffer_pool_impl where
  "pool_after_stop =
     \<lparr>stopped = True, identifiers = [tagged 0x4601 0 True],
      expirations = [Some \<lparr>numerology = 1, count_val = 30\<rparr>],
      buffers = [\<lparr>current_state = reserved, codeblock_ids = 1\<rparr>],
      codeblock_pool = 3, expire_timeout_slots = 10\<rparr>"

section \<open>RA scheduler: data\<close>

type_synonym rnti_t = "16 word"

text \<open>
  Intervals (\<^verbatim>\<open>interval<T>\<close>, from a header that is not among the sources) are
  half-open: a pair of start and stop. The RAR window is an interval of slots,
  \<^verbatim>\<open>contains\<close> is \<open>start \<le> x < stop\<close>.
\<close>

type_synonym crb_interval = "nat \<times> nat"

definition interval_length :: "nat \<times> nat \<Rightarrow> nat" where
  "interval_length iv = snd iv - fst iv"

definition interval_resize :: "nat \<times> nat \<Rightarrow> nat \<Rightarrow> nat \<times> nat" where
  "interval_resize iv new_length = (fst iv, fst iv + new_length)"

type_synonym slot_interval = "slot_point \<times> slot_point"

definition window_contains :: "slot_interval \<Rightarrow> slot_point \<Rightarrow> bool" where
  "window_contains w x = (slot_le (fst w) x \<and> slot_lt x (snd w))"

definition window_length :: "slot_interval \<Rightarrow> nat" where
  "window_length w = count_val (snd w) - count_val (fst w)"

definition default_slot :: slot_point where
  "default_slot = \<lparr>numerology = 0, count_val = 0\<rparr>"

text \<open>The RACH indication (spec, external interfaces) and the pending RAR and Msg3.\<close>

record prach_preamble =
  preamble_id :: nat
  tc_rnti :: rnti_t
  time_advance :: nat

record prach_occasion =
  start_symbol :: "32 word"
  occ_frequency_index :: "32 word"
  preambles :: "prach_preamble list"

record rach_indication_message =
  rach_slot_rx :: slot_point
  occasions :: "prach_occasion list"

record pending_rar_t =
  ra_rnti :: rnti_t
  prach_slot_rx :: slot_point
  rar_window :: slot_interval
  tc_rntis :: "rnti_t list"

record 'h pending_msg3 =
  preamble :: prach_preamble
  harq :: 'h

text \<open>
  What the scheduler logs.
\<close>

datatype ra_log =
  info_new_prach slot_point nat rnti_t rnti_t
| warning_prach_ignored rnti_t
| warning_rar_window_passed slot_interval slot_point slot_point
| debug_rar_postponed rnti_t string
| warning_no_space_in_output_list
| warning_pdcch_msg3_retx_failed
| warning_msg3_retx_failed
| warning_crc_inexistent_rnti rnti_t nat
| warning_crc_harq_mismatch rnti_t nat nat

text \<open>
  Modelled from the spec: the resource grid of a slot (cell_resource_allocator.h is not
  among the sources), "a bitmap per OFDM symbol over CRBs indicating used/free", here
  the set of used (symbol, CRB) cells, with \<^verbatim>\<open>fill\<close>, \<^verbatim>\<open>collides\<close> ("two grants collide
  iff symbol ranges and CRB ranges both intersect") and \<^verbatim>\<open>used_crbs\<close>.
\<close>

record grant_info =
  grant_scs :: subcarrier_spacing
  grant_symbols :: "nat \<times> nat"
  grant_crbs :: crb_interval

type_synonym res_grid = "(nat \<times> nat) set"

definition grant_cells :: "grant_info \<Rightarrow> (nat \<times> nat) set" where
  "grant_cells g = {fst (grant_symbols g)..<snd (grant_symbols g)}
                   \<times> {fst (grant_crbs g)..<snd (grant_crbs g)}"

definition grid_fill :: "grant_info \<Rightarrow> res_grid \<Rightarrow> res_grid" where
  "grid_fill g grid = grid \<union> grant_cells g"

definition grid_collides :: "grant_info \<Rightarrow> res_grid \<Rightarrow> bool" where
  "grid_collides g grid = (grid \<inter> grant_cells g \<noteq> {})"

definition grid_used_crbs :: "res_grid \<Rightarrow> crb_interval \<Rightarrow> nat \<times> nat \<Rightarrow> bool list" where
  "grid_used_crbs grid bwp_crbs symbols =
     map (\<lambda>crb. \<exists>symb \<in> {fst symbols..<snd symbols}. (symb, crb) \<in> grid)
         [fst bwp_crbs..<snd bwp_crbs]"

text \<open>Modelled from the spec: CRB to PRB and back, by the start of the bandwidth part.\<close>

definition crb_to_prb :: "crb_interval \<Rightarrow> crb_interval \<Rightarrow> nat \<times> nat" where
  "crb_to_prb bwp_crbs crbs = (fst crbs - fst bwp_crbs, snd crbs - fst bwp_crbs)"

definition prb_to_crb :: "crb_interval \<Rightarrow> nat \<times> nat \<Rightarrow> crb_interval" where
  "prb_to_crb bwp_crbs prbs = (fst prbs + fst bwp_crbs, snd prbs + fst bwp_crbs)"

text \<open>
  The scheduler results of a slot: the fields the RA scheduler writes. A PDCCH entry is
  created by the PDCCH allocator with its context; its DCI is filled in later by the RA
  scheduler, and is \<open>None\<close> until then.
\<close>

record dci_1_0_ra_rnti_configuration =
  N_rb_dl_bwp :: nat
  dl_frequency_resource :: nat
  dl_time_resource :: nat
  vrb_to_prb_mapping :: nat
  dl_modulation_coding_scheme :: nat
  tb_scaling :: nat

record pdcch_dl_information =
  dl_ctx_rnti :: rnti_t
  dl_ctx_cces :: nat
  ra_f1_0 :: "dci_1_0_ra_rnti_configuration option"

record dci_0_0_tc_rnti_configuration =
  N_rb_ul_bwp :: nat
  ul_frequency_resource :: nat
  ul_time_resource :: nat
  frequency_hopping_flag :: nat
  ul_modulation_coding_scheme :: nat
  redundancy_version :: nat
  tpc_command :: nat

record pdcch_ul_information =
  ul_ctx_rnti :: rnti_t
  ul_ctx_cces :: nat
  tc_rnti_f0_0 :: "dci_0_0_tc_rnti_configuration option"

record rar_ul_grant =
  rapid :: nat
  grant_ta :: nat
  temp_crnti :: rnti_t
  time_resource_assignment :: nat
  freq_resource_assignment :: nat
  grant_mcs :: nat
  grant_tpc :: nat
  csi_req :: bool

record rar_information =
  pdsch_rnti :: rnti_t
  pdsch_prbs :: "nat \<times> nat"
  pdsch_symbols :: "nat \<times> nat"
  cw_mcs_index :: nat
  cw_rv_index :: nat
  cw_tb_size_bytes :: nat
  grants :: "rar_ul_grant list"

record ul_sched_info =
  pusch_rnti :: rnti_t
  pusch_prbs :: "nat \<times> nat"
  pusch_cfg_symbols :: "nat \<times> nat"
  pusch_mcs_index :: nat
  pusch_rv_index :: nat
  pusch_harq_id :: nat
  pusch_new_data :: bool
  pusch_tb_size_bytes :: nat

record cell_slot_resource_allocator =
  alloc_slot :: slot_point
  dl_res_grid :: res_grid
  ul_res_grid :: res_grid
  dl_pdcchs :: "pdcch_dl_information list"
  ul_pdcchs :: "pdcch_ul_information list"
  rar_grants :: "rar_information list"
  puschs :: "ul_sched_info list"

text \<open>
  Modelled from the spec: the cell resource allocator, a ring of the allocations of the
  slots \<open>tx, tx + 1, ...\<close>; \<open>[k]\<close> with \<open>k\<close> beyond the ring is a contract violation.
\<close>

type_synonym cell_resource_allocator = "cell_slot_resource_allocator list"

definition res_alloc_at :: "cell_resource_allocator \<Rightarrow> nat \<Rightarrow> cell_slot_resource_allocator option" where
  "res_alloc_at res_alloc k = (if k < length res_alloc then Some (res_alloc ! k) else None)"


text \<open>
  What the RA scheduler takes from outside this file: the cell configuration, the values
  its constructor caches, the capacities of the result lists, and the functions of the
  repository whose code is not among the sources, each a parameter of the model. A PDCCH
  allocation that fails returns nothing and changes nothing (spec, PDCCH resource
  allocator: "all soft, return null"); one that succeeds returns the context of the new
  PDCCH, which is appended to the list of the slot, and the new state of the allocator.
  The HARQ process of a pending Msg3 is of a type \<open>'h\<close> with the operations the scheduler
  calls.
\<close>

record ('h, 'p) ra_env =
  tdd_period :: "nat option"
  is_dl_enabled :: "slot_point \<Rightarrow> bool"
  is_ul_enabled :: "slot_point \<Rightarrow> bool"
  is_ra_monitoring_active :: "slot_point \<Rightarrow> bool"
  pdsch_td_alloc_list :: "(nat \<times> (nat \<times> nat)) list"
  pusch_td_alloc_list :: "pusch_time_domain_resource_allocation list"
  dl_bwp_crbs :: crb_interval
  ul_bwp_crbs :: crb_interval
  dl_bwp_scs :: subcarrier_spacing
  ul_bwp_scs :: subcarrier_spacing
  ra_win_nof_slots :: nat
  MAX_NOF_MSG3 :: nat
  rar_data :: "(nat \<times> nat) list"
  msg3_mcs_index :: nat
  max_rar_grants :: nat
  max_dl_pdcchs :: nat
  max_ul_pdcchs :: nat
  max_puschs :: nat
  find_empty_interval_of_length :: "bool list \<Rightarrow> nat \<Rightarrow> nat \<Rightarrow> nat \<times> nat"
  alloc_pdcch_common :: "'p \<Rightarrow> cell_slot_resource_allocator \<Rightarrow> rnti_t \<Rightarrow> (nat \<times> 'p) option"
  alloc_ul_pdcch_common :: "'p \<Rightarrow> cell_slot_resource_allocator \<Rightarrow> rnti_t \<Rightarrow> (nat \<times> 'p) option"
  ra_frequency_type1_get_riv :: "nat \<Rightarrow> nat \<Rightarrow> nat \<Rightarrow> nat"
  to_Ta :: "nat \<Rightarrow> subcarrier_spacing \<Rightarrow> nat"
  msg3_retx_tbs_bytes :: "nat \<times> nat \<Rightarrow> nat \<times> nat \<Rightarrow> nat \<Rightarrow> nat"
  harq_empty :: "'h \<Rightarrow> bool"
  harq_pid :: "'h \<Rightarrow> nat"
  harq_prbs :: "'h \<Rightarrow> nat \<times> nat"
  harq_mcs :: "'h \<Rightarrow> nat"
  harq_nof_retx :: "'h \<Rightarrow> nat"
  harq_has_pending_retx :: "'h \<Rightarrow> bool"
  harq_new_tx :: "slot_point \<Rightarrow> nat \<times> nat \<Rightarrow> nat \<Rightarrow> nat \<Rightarrow> 'h \<Rightarrow> bool \<times> 'h"
  harq_new_retx :: "slot_point \<Rightarrow> nat \<times> nat \<Rightarrow> 'h \<Rightarrow> bool \<times> 'h"
  harq_reset :: "'h \<Rightarrow> 'h"
  harq_set_tbs :: "nat \<Rightarrow> 'h \<Rightarrow> 'h"
  harq_ack_info :: "nat \<Rightarrow> bool \<Rightarrow> 'h \<Rightarrow> 'h"
  harq_slot_indication :: "slot_point \<Rightarrow> 'h \<Rightarrow> 'h"

text \<open>
  The state of the RA scheduler and of what it writes to: the allocator of the cell, the
  PDCCH allocator, the queues of indications, the pending RARs and Msg3s, and the log.
\<close>

record ul_crc_pdu_indication =
  crc_ue_index_valid :: bool
  crc_rnti :: rnti_t
  crc_harq_id :: nat
  tb_crc_success :: bool

record ('h, 'p) ra_scheduler =
  res_alloc :: cell_resource_allocator
  pdcch_sch :: 'p
  pending_rachs :: "rach_indication_message list"
  pending_crcs :: "ul_crc_pdu_indication list list"
  pending_rars :: "pending_rar_t list"
  pending_msg3s :: "'h pending_msg3 list"
  logger :: "ra_log list"

section \<open>RA scheduler: RACH indications\<close>

text \<open>
  \<^verbatim>\<open>handle_rach_indication_impl\<close>, the loop over the preambles of an occasion (lines
  145 to 164): the state is the list of TC-RNTIs of the pending RAR, the pending Msg3s
  and the log.
\<close>

definition msg3_index :: "('h, 'p) ra_env \<Rightarrow> rnti_t \<Rightarrow> nat" where
  "msg3_index env rnti = unat rnti mod MAX_NOF_MSG3 env"

definition handle_preamble ::
  "('h, 'p) ra_env \<Rightarrow> slot_point \<Rightarrow> rnti_t \<Rightarrow> prach_preamble
     \<Rightarrow> rnti_t list \<times> 'h pending_msg3 list \<times> ra_log list
     \<Rightarrow> rnti_t list \<times> 'h pending_msg3 list \<times> ra_log list" where
  "handle_preamble env msg_slot_rx rar_rnti prach_preamble st =
     (let tcs = fst st; msg3s = fst (snd st);
          lg = snd (snd st) @ [info_new_prach msg_slot_rx (preamble_id prach_preamble) rar_rnti
                                 (tc_rnti prach_preamble)]
      in if \<not> harq_empty env (harq (msg3s ! msg3_index env (tc_rnti prach_preamble)))
         then (tcs, msg3s, lg @ [warning_prach_ignored (tc_rnti prach_preamble)])
         else (tcs @ [tc_rnti prach_preamble],
               msg3s[msg3_index env (tc_rnti prach_preamble) :=
                       (msg3s ! msg3_index env (tc_rnti prach_preamble))\<lparr>preamble := prach_preamble\<rparr>],
               lg))"

definition handle_preambles ::
  "('h, 'p) ra_env \<Rightarrow> slot_point \<Rightarrow> rnti_t \<Rightarrow> prach_preamble list
     \<Rightarrow> rnti_t list \<times> 'h pending_msg3 list \<times> ra_log list
     \<Rightarrow> rnti_t list \<times> 'h pending_msg3 list \<times> ra_log list" where
  "handle_preambles env msg_slot_rx rar_rnti ps st =
     fold (handle_preamble env msg_slot_rx rar_rnti) ps st"

text \<open>
  The search for the pending RAR of the occasion, the RAR window (TDD: the first slot
  with DL enabled within one period after the PRACH; FDD: the slot after the PRACH), and
  the whole of \<^verbatim>\<open>handle_rach_indication_impl\<close>. \<open>None\<close> is the failed sanity check on
  the window.
\<close>

definition prach_duration :: nat where
  "prach_duration = 1"

definition find_rar_req :: "pending_rar_t list \<Rightarrow> rnti_t \<Rightarrow> slot_point \<Rightarrow> nat" where
  "find_rar_req rars rnti msg_slot_rx =
     std_find_if (\<lambda>rar. ra_rnti rar = rnti \<and> prach_slot_rx rar = msg_slot_rx) rars"

definition tdd_rar_window ::
  "('h, 'p) ra_env \<Rightarrow> nat \<Rightarrow> pending_rar_t \<Rightarrow> slot_interval" where
  "tdd_rar_window env period rar_req =
     (let sl_idx = std_find_if
            (\<lambda>k. is_dl_enabled env (slot_add (slot_add (prach_slot_rx rar_req) prach_duration) k))
            [0..<period]
      in if sl_idx < period
         then (slot_add (slot_add (prach_slot_rx rar_req) prach_duration) sl_idx,
               slot_add (slot_add (slot_add (prach_slot_rx rar_req) prach_duration) sl_idx)
                        (ra_win_nof_slots env))
         else rar_window rar_req)"

definition handle_occasion ::
  "('h, 'p) ra_env \<Rightarrow> slot_point \<Rightarrow> prach_occasion \<Rightarrow> ('h, 'p) ra_scheduler
     \<Rightarrow> ('h, 'p) ra_scheduler option" where
  "handle_occasion env msg_slot_rx prach_occ sched =
     (let rnti = get_ra_rnti msg_slot_rx (start_symbol prach_occ) (occ_frequency_index prach_occ) False;
          found = find_rar_req (pending_rars sched) rnti msg_slot_rx;
          rars = (if found = length (pending_rars sched)
                  then pending_rars sched
                       @ [\<lparr>ra_rnti = rnti, prach_slot_rx = msg_slot_rx,
                           rar_window = (default_slot, default_slot), tc_rntis = []\<rparr>]
                  else pending_rars sched);
          rar_req = rars ! found;
          window = (case tdd_period env of
                      Some period \<Rightarrow> tdd_rar_window env period rar_req
                    | None \<Rightarrow> (slot_add (prach_slot_rx rar_req) prach_duration,
                               slot_add (slot_add (prach_slot_rx rar_req) prach_duration)
                                        (ra_win_nof_slots env)))
      in if tdd_period env \<noteq> None \<and> window_length window = 0 then None
         else
           let r = handle_preambles env msg_slot_rx rnti (preambles prach_occ)
                     (tc_rntis rar_req, pending_msg3s sched, logger sched)
           in Some (sched\<lparr>pending_rars := rars[found := rar_req\<lparr>rar_window := window, tc_rntis := fst r\<rparr>],
                          pending_msg3s := fst (snd r),
                          logger := snd (snd r)\<rparr>))"

fun handle_occasions ::
  "('h, 'p) ra_env \<Rightarrow> slot_point \<Rightarrow> prach_occasion list \<Rightarrow> ('h, 'p) ra_scheduler
     \<Rightarrow> ('h, 'p) ra_scheduler option" where
  "handle_occasions env msg_slot_rx [] sched = Some sched"
| "handle_occasions env msg_slot_rx (prach_occ # occs) sched =
     (case handle_occasion env msg_slot_rx prach_occ sched of
        None \<Rightarrow> None
      | Some sched1 \<Rightarrow> handle_occasions env msg_slot_rx occs sched1)"

definition handle_rach_indication_impl ::
  "('h, 'p) ra_env \<Rightarrow> rach_indication_message \<Rightarrow> ('h, 'p) ra_scheduler
     \<Rightarrow> ('h, 'p) ra_scheduler option" where
  "handle_rach_indication_impl env msg sched =
     handle_occasions env (rach_slot_rx msg) (occasions msg) sched"

definition handle_rach_indication ::
  "rach_indication_message \<Rightarrow> ('h, 'p) ra_scheduler \<Rightarrow> ('h, 'p) ra_scheduler" where
  "handle_rach_indication msg sched = sched\<lparr>pending_rachs := pending_rachs sched @ [msg]\<rparr>"

section \<open>RA scheduler: RAR and Msg3 grants\<close>

text \<open>
  A call that aborts on a contract violation (a failed sanity check or assertion, an
  index beyond the ring of slots or beyond a configured list, a division by zero) is
  \<open>None\<close>; a call that returns is \<open>Some\<close> of what it returns and of the state it leaves.
\<close>

definition list_at :: "'a list \<Rightarrow> nat \<Rightarrow> 'a option" where
  "list_at xs k = (if k < length xs then Some (xs ! k) else None)"

definition msg3_delay_of ::
  "('h, 'p) ra_env \<Rightarrow> pusch_time_domain_resource_allocation \<Rightarrow> nat option" where
  "msg3_delay_of env pusch_td_alloc =
     (case get_msg3_delay pusch_td_alloc (ul_bwp_scs env) of
        Inl violation \<Rightarrow> None
      | Inr delay \<Rightarrow> Some (unat delay))"

text \<open>
  The values that the constructor stores for every PUSCH time-domain resource:
  \<^verbatim>\<open>msg3_data[i].prbs_tbs.nof_prbs = 3\<close> and \<^verbatim>\<open>tbs_bytes = 11\<close>.
\<close>

definition msg3_nof_prbs :: nat where
  "msg3_nof_prbs = 3"

definition msg3_tbs_bytes :: nat where
  "msg3_tbs_bytes = 11"

definition max_msg3_retxs :: nat where
  "max_msg3_retxs = 4"

record msg3_alloc_candidate =
  cand_crbs :: crb_interval
  pusch_td_res_index :: nat

definition log_postponed_rar ::
  "pending_rar_t \<Rightarrow> string \<Rightarrow> ('h, 'p) ra_scheduler \<Rightarrow> ('h, 'p) ra_scheduler" where
  "log_postponed_rar rar cause_str sched =
     sched\<lparr>logger := logger sched @ [debug_rar_postponed (ra_rnti rar) cause_str]\<rparr>"

text \<open>
  Step 6 of \<^verbatim>\<open>schedule_rar\<close>: the candidates of one PUSCH resource, of equal length, one
  after the other from the start of the free interval.
\<close>

definition register_msg3_candidates :: "nat \<Rightarrow> nat \<Rightarrow> nat \<Rightarrow> msg3_alloc_candidate list" where
  "register_msg3_candidates first_crb nof_allocs puschidx =
     map (\<lambda>k. \<lparr>cand_crbs = (first_crb + k * msg3_nof_prbs, first_crb + k * msg3_nof_prbs + msg3_nof_prbs),
               pusch_td_res_index = puschidx\<rparr>)
         [0..<nof_allocs]"

text \<open>Steps 3 to 6 of \<^verbatim>\<open>schedule_rar\<close>, for the PUSCH resources from \<open>puschidx\<close> on.\<close>

function find_msg3_candidates ::
  "('h, 'p) ra_env \<Rightarrow> cell_resource_allocator \<Rightarrow> nat \<Rightarrow> nat \<Rightarrow> msg3_alloc_candidate list
     \<Rightarrow> msg3_alloc_candidate list option" where
  "find_msg3_candidates env ra max_nof_allocs puschidx msg3_candidates =
     (if length (pusch_td_alloc_list env) \<le> puschidx then Some msg3_candidates
      else
        case msg3_delay_of env (pusch_td_alloc_list env ! puschidx) of
          None \<Rightarrow> None
        | Some msg3_delay \<Rightarrow>
            (case res_alloc_at ra msg3_delay of
               None \<Rightarrow> None
             | Some msg3_alloc \<Rightarrow>
                 if \<not> is_ul_enabled env (alloc_slot msg3_alloc)
                 then find_msg3_candidates env ra max_nof_allocs (Suc puschidx) msg3_candidates
                 else
                   let list_space = max_puschs env - length (puschs msg3_alloc);
                       allocs1 = min (max_nof_allocs - length msg3_candidates) list_space
                   in if allocs1 = 0
                      then find_msg3_candidates env ra max_nof_allocs (Suc puschidx) msg3_candidates
                      else
                        let used_ul_crbs = grid_used_crbs (ul_res_grid msg3_alloc) (ul_bwp_crbs env)
                                             (pusch_symbols (pusch_td_alloc_list env ! puschidx));
                            msg3_crbs = find_empty_interval_of_length env used_ul_crbs
                                          (msg3_nof_prbs * allocs1) 0;
                            allocs2 = interval_length msg3_crbs div msg3_nof_prbs
                        in if allocs2 = 0
                           then find_msg3_candidates env ra max_nof_allocs (Suc puschidx) msg3_candidates
                           else find_msg3_candidates env ra max_nof_allocs (Suc puschidx)
                                  (msg3_candidates
                                   @ register_msg3_candidates (fst msg3_crbs) allocs2 puschidx)))"
  by pat_completeness auto
termination
  by (relation "measure (\<lambda>(env, ra, max_nof_allocs, puschidx, msg3_candidates).
                   length (pusch_td_alloc_list env) - puschidx)") auto

declare find_msg3_candidates.simps [simp del]

text \<open>
  \<^verbatim>\<open>fill_rar_grant\<close>: the part for one Msg3 candidate (the body of its loop), and the whole.
\<close>

definition update_slot ::
  "nat \<Rightarrow> (cell_slot_resource_allocator \<Rightarrow> cell_slot_resource_allocator)
     \<Rightarrow> ('h, 'p) ra_scheduler \<Rightarrow> ('h, 'p) ra_scheduler" where
  "update_slot k f sched = sched\<lparr>res_alloc := (res_alloc sched)[k := f (res_alloc sched ! k)]\<rparr>"

definition update_last :: "('a \<Rightarrow> 'a) \<Rightarrow> 'a list \<Rightarrow> 'a list" where
  "update_last f xs = (if xs = [] then xs else butlast xs @ [f (last xs)])"

definition fill_msg3_grant ::
  "('h, 'p) ra_env \<Rightarrow> nat \<Rightarrow> pending_rar_t \<Rightarrow> nat \<Rightarrow> msg3_alloc_candidate
     \<Rightarrow> ('h, 'p) ra_scheduler \<Rightarrow> ('h, 'p) ra_scheduler option" where
  "fill_msg3_grant env rar_slot_idx rar_request i msg3_candidate sched =
     do {
       pusch_res \<leftarrow> list_at (pusch_td_alloc_list env) (pusch_td_res_index msg3_candidate);
       msg3_delay \<leftarrow> msg3_delay_of env pusch_res;
       msg3_alloc \<leftarrow> res_alloc_at (res_alloc sched) msg3_delay;
       tc \<leftarrow> list_at (tc_rntis rar_request) i;
       pending \<leftarrow> list_at (pending_msg3s sched) (msg3_index env tc);
       if \<not> harq_empty env (harq pending) then None
       else
         let prbs = crb_to_prb (ul_bwp_crbs env) (cand_crbs msg3_candidate);
             msg3_info = \<lparr>rapid = preamble_id (preamble pending),
                          grant_ta = to_Ta env (time_advance (preamble pending)) (ul_bwp_scs env),
                          temp_crnti = tc_rnti (preamble pending),
                          time_resource_assignment = pusch_td_res_index msg3_candidate,
                          freq_resource_assignment =
                            ra_frequency_type1_get_riv env (interval_length (ul_bwp_crbs env))
                              (fst prbs) (interval_length prbs),
                          grant_mcs = msg3_mcs_index env, grant_tpc = 0, csi_req = False\<rparr>;
             sched1 = update_slot rar_slot_idx
                        (\<lambda>a. a\<lparr>rar_grants := update_last (\<lambda>rar. rar\<lparr>grants := grants rar @ [msg3_info]\<rparr>)
                                                (rar_grants a)\<rparr>) sched;
             pusch = \<lparr>pusch_rnti = tc_rnti (preamble pending), pusch_prbs = prbs,
                      pusch_cfg_symbols = pusch_symbols pusch_res,
                      pusch_mcs_index = msg3_mcs_index env, pusch_rv_index = 0,
                      pusch_harq_id = harq_pid env (harq pending), pusch_new_data = True,
                      pusch_tb_size_bytes = msg3_tbs_bytes\<rparr>;
             sched2 = update_slot msg3_delay
                        (\<lambda>a. a\<lparr>ul_res_grid := grid_fill \<lparr>grant_scs = dl_bwp_scs env,
                                                           grant_symbols = pusch_symbols pusch_res,
                                                           grant_crbs = cand_crbs msg3_candidate\<rparr>
                                                         (ul_res_grid a),
                               puschs := puschs a @ [pusch]\<rparr>) sched1;
             tx = harq_new_tx env (alloc_slot msg3_alloc) prbs (msg3_mcs_index env) max_msg3_retxs
                    (harq pending)
         in if \<not> fst tx then None
            else Some (sched2\<lparr>pending_msg3s :=
                         (pending_msg3s sched2)[msg3_index env tc := pending\<lparr>harq := snd tx\<rparr>]\<rparr>)
     }"

fun fill_msg3_grants ::
  "('h, 'p) ra_env \<Rightarrow> nat \<Rightarrow> pending_rar_t \<Rightarrow> nat \<Rightarrow> msg3_alloc_candidate list
     \<Rightarrow> ('h, 'p) ra_scheduler \<Rightarrow> ('h, 'p) ra_scheduler option" where
  "fill_msg3_grants env rar_slot_idx rar_request i [] sched = Some sched"
| "fill_msg3_grants env rar_slot_idx rar_request i (c # cands) sched =
     (case fill_msg3_grant env rar_slot_idx rar_request i c sched of
        None \<Rightarrow> None
      | Some sched1 \<Rightarrow> fill_msg3_grants env rar_slot_idx rar_request (Suc i) cands sched1)"

definition fill_rar_grant ::
  "('h, 'p) ra_env \<Rightarrow> pending_rar_t \<Rightarrow> crb_interval \<Rightarrow> msg3_alloc_candidate list
     \<Rightarrow> ('h, 'p) ra_scheduler \<Rightarrow> ('h, 'p) ra_scheduler option" where
  "fill_rar_grant env rar_request rar_crbs msg3_candidates sched =
     do {
       pdsch_td \<leftarrow> list_at (pdsch_td_alloc_list env) 0;
       rar_tbs \<leftarrow> list_at (rar_data env) 0;
       pdcch_alloc \<leftarrow> res_alloc_at (res_alloc sched) 0;
       rar_alloc \<leftarrow> res_alloc_at (res_alloc sched) (fst pdsch_td);
       if dl_pdcchs pdcch_alloc = [] then None
       else
         let rar_prbs = crb_to_prb (dl_bwp_crbs env) rar_crbs;
             dci = \<lparr>N_rb_dl_bwp = interval_length (dl_bwp_crbs env),
                    dl_frequency_resource =
                      ra_frequency_type1_get_riv env (interval_length (dl_bwp_crbs env))
                        (fst rar_prbs) (interval_length rar_prbs),
                    dl_time_resource = 0, vrb_to_prb_mapping = 0,
                    dl_modulation_coding_scheme = 0, tb_scaling = 0\<rparr>;
             sched1 = update_slot 0
                        (\<lambda>a. a\<lparr>dl_pdcchs := update_last (\<lambda>pdcch. pdcch\<lparr>ra_f1_0 := Some dci\<rparr>)
                                               (dl_pdcchs a)\<rparr>) sched;
             rar = \<lparr>pdsch_rnti = dl_ctx_rnti (last (dl_pdcchs pdcch_alloc)),
                    pdsch_prbs = rar_prbs, pdsch_symbols = snd pdsch_td,
                    cw_mcs_index = 0, cw_rv_index = 0, cw_tb_size_bytes = snd rar_tbs,
                    grants = []\<rparr>;
             sched2 = update_slot (fst pdsch_td)
                        (\<lambda>a. a\<lparr>dl_res_grid := grid_fill \<lparr>grant_scs = dl_bwp_scs env,
                                                           grant_symbols = snd pdsch_td,
                                                           grant_crbs = rar_crbs\<rparr>
                                                         (dl_res_grid a),
                               rar_grants := rar_grants a @ [rar]\<rparr>) sched1
         in fill_msg3_grants env (fst pdsch_td) rar_request 0 msg3_candidates sched2
     }"

text \<open>\<^verbatim>\<open>schedule_rar\<close>: the number of Msg3 grants allocated, and the state.\<close>

definition schedule_rar ::
  "('h, 'p) ra_env \<Rightarrow> pending_rar_t \<Rightarrow> ('h, 'p) ra_scheduler
     \<Rightarrow> (nat \<times> ('h, 'p) ra_scheduler) option" where
  "schedule_rar env rar sched =
     do {
       pdsch_td \<leftarrow> list_at (pdsch_td_alloc_list env) 0;
       rar_tbs \<leftarrow> list_at (rar_data env) 0;
       pdcch_alloc \<leftarrow> res_alloc_at (res_alloc sched) 0;
       pdsch_alloc \<leftarrow> res_alloc_at (res_alloc sched) (fst pdsch_td);
       if max_rar_grants env \<le> length (rar_grants pdsch_alloc)
          \<or> max_dl_pdcchs env \<le> length (dl_pdcchs pdcch_alloc)
       then Some (0, log_postponed_rar rar ''No PDCCH/PDSCH space for RAR.'' sched)
       else if fst rar_tbs = 0 then None
       else
         let nof_prbs_per_rar = fst rar_tbs;
             used_crbs = grid_used_crbs (dl_res_grid pdsch_alloc) (dl_bwp_crbs env) (snd pdsch_td);
             rar_crbs = find_empty_interval_of_length env used_crbs
                          (nof_prbs_per_rar * length (tc_rntis rar)) 0;
             max_nof_allocs = interval_length rar_crbs div nof_prbs_per_rar
         in if max_nof_allocs = 0
            then Some (0, log_postponed_rar rar ''Not enough PRBs for RAR.'' sched)
            else
              do {
                msg3_candidates \<leftarrow> find_msg3_candidates env (res_alloc sched) max_nof_allocs 0 [];
                let rar_crbs1 = interval_resize rar_crbs (nof_prbs_per_rar * length msg3_candidates);
                case alloc_pdcch_common env (pdcch_sch sched) pdcch_alloc (ra_rnti rar) of
                  None \<Rightarrow> Some (0, sched)
                | Some pdcch \<Rightarrow>
                    do {
                      sched2 \<leftarrow> fill_rar_grant env rar rar_crbs1 msg3_candidates
                        (update_slot 0
                           (\<lambda>a. a\<lparr>dl_pdcchs := dl_pdcchs a
                                     @ [\<lparr>dl_ctx_rnti = ra_rnti rar, dl_ctx_cces = fst pdcch,
                                         ra_f1_0 = None\<rparr>]\<rparr>)
                           (sched\<lparr>pdcch_sch := snd pdcch\<rparr>));
                      Some (length msg3_candidates, sched2)
                    }
              }
     }"

text \<open>
  \<^verbatim>\<open>schedule_msg3_retx\<close> for the pending Msg3 of index \<open>msg3_idx\<close>, with \<open>k2 = 4\<close> and the
  PUSCH time-domain resource 0 as in the source.
\<close>

definition rv_idx :: "nat list" where
  "rv_idx = [0, 2, 3, 1]"

definition schedule_msg3_retx ::
  "('h, 'p) ra_env \<Rightarrow> nat \<Rightarrow> ('h, 'p) ra_scheduler \<Rightarrow> ('h, 'p) ra_scheduler option" where
  "schedule_msg3_retx env msg3_idx sched =
     do {
       pdcch_alloc \<leftarrow> res_alloc_at (res_alloc sched) 0;
       pusch_alloc \<leftarrow> res_alloc_at (res_alloc sched) 4;
       msg3_ctx \<leftarrow> list_at (pending_msg3s sched) msg3_idx;
       if max_puschs env \<le> length (puschs pusch_alloc)
          \<or> max_ul_pdcchs env \<le> length (ul_pdcchs pdcch_alloc)
       then Some (sched\<lparr>logger := logger sched @ [warning_no_space_in_output_list]\<rparr>)
       else
         do {
           pusch_td \<leftarrow> list_at (pusch_td_alloc_list env) 0;
           let grant = \<lparr>grant_scs = ul_bwp_scs env, grant_symbols = pusch_symbols pusch_td,
                        grant_crbs = prb_to_crb (ul_bwp_crbs env) (harq_prbs env (harq msg3_ctx))\<rparr>;
           if grid_collides grant (ul_res_grid pusch_alloc) then Some sched
           else
             case alloc_ul_pdcch_common env (pdcch_sch sched) pdcch_alloc (tc_rnti (preamble msg3_ctx)) of
               None \<Rightarrow> Some (sched\<lparr>logger := logger sched @ [warning_pdcch_msg3_retx_failed]\<rparr>)
             | Some pdcch \<Rightarrow>
                 let sched1 = update_slot 0
                        (\<lambda>a. a\<lparr>ul_pdcchs := ul_pdcchs a
                                  @ [\<lparr>ul_ctx_rnti = tc_rnti (preamble msg3_ctx), ul_ctx_cces = fst pdcch,
                                      tc_rnti_f0_0 = None\<rparr>]\<rparr>)
                        (sched\<lparr>pdcch_sch := snd pdcch\<rparr>);
                     sched2 = update_slot 4 (\<lambda>a. a\<lparr>ul_res_grid := grid_fill grant (ul_res_grid a)\<rparr>) sched1;
                     prbs = crb_to_prb (ul_bwp_crbs env) (grant_crbs grant);
                     retx = harq_new_retx env (alloc_slot pusch_alloc) prbs (harq msg3_ctx)
                 in if \<not> fst retx
                    then Some (sched2\<lparr>logger := logger sched2 @ [warning_msg3_retx_failed],
                                     pending_msg3s := (pending_msg3s sched2)
                                        [msg3_idx := msg3_ctx\<lparr>harq := harq_reset env (snd retx)\<rparr>]\<rparr>)
                    else
                      let rv = rv_idx ! (harq_nof_retx env (snd retx) mod length rv_idx);
                          dci = \<lparr>N_rb_ul_bwp = interval_length (ul_bwp_crbs env),
                                 ul_frequency_resource =
                                   ra_frequency_type1_get_riv env (interval_length (ul_bwp_crbs env))
                                     (fst prbs) (interval_length prbs),
                                 ul_time_resource = 0, frequency_hopping_flag = 0,
                                 ul_modulation_coding_scheme = 0, redundancy_version = rv,
                                 tpc_command = 0\<rparr>;
                          sched3 = update_slot 0
                                     (\<lambda>a. a\<lparr>ul_pdcchs := update_last (\<lambda>u. u\<lparr>tc_rnti_f0_0 := Some dci\<rparr>)
                                                            (ul_pdcchs a)\<rparr>) sched2;
                          tbs = msg3_retx_tbs_bytes env (grant_symbols grant) (grant_crbs grant)
                                  (harq_mcs env (snd retx));
                          ul_info = \<lparr>pusch_rnti = tc_rnti (preamble msg3_ctx), pusch_prbs = prbs,
                                     pusch_cfg_symbols = grant_symbols grant,
                                     pusch_mcs_index = harq_mcs env (snd retx), pusch_rv_index = rv,
                                     pusch_harq_id = harq_pid env (snd retx), pusch_new_data = False,
                                     pusch_tb_size_bytes = tbs\<rparr>;
                          sched4 = update_slot 4 (\<lambda>a. a\<lparr>puschs := puschs a @ [ul_info]\<rparr>) sched3
                      in Some (sched4\<lparr>pending_msg3s := (pending_msg3s sched4)
                                         [msg3_idx := msg3_ctx\<lparr>harq := harq_set_tbs env tbs (snd retx)\<rparr>]\<rparr>)
         }
     }"






section \<open>RA scheduler: the slot tick\<close>

text \<open>
  The bookkeeping of a partial allocation: \<^verbatim>\<open>std::copy(begin + n, end, begin)\<close>, element
  by element, then \<^verbatim>\<open>resize\<close>.
\<close>

function std_copy :: "nat \<Rightarrow> nat \<Rightarrow> nat \<Rightarrow> 'a list \<Rightarrow> 'a list" where
  "std_copy first last_pos d_first xs =
     (if first < last_pos then std_copy (Suc first) last_pos (Suc d_first) (xs[d_first := xs ! first])
      else xs)"
  by pat_completeness auto
termination
  by (relation "measure (\<lambda>(first, last_pos, d_first, xs). last_pos - first)") auto

declare std_copy.simps [simp del]

definition remove_allocated_msg3s :: "nat \<Rightarrow> pending_rar_t \<Rightarrow> pending_rar_t" where
  "remove_allocated_msg3s nof_allocs rar_req =
     (let copied = std_copy nof_allocs (length (tc_rntis rar_req)) 0 (tc_rntis rar_req);
          new_pending_msg3s = (if nof_allocs < length (tc_rntis rar_req)
                               then length (tc_rntis rar_req) - nof_allocs else 0)
      in rar_req\<lparr>tc_rntis := take new_pending_msg3s copied\<rparr>)"

definition erase_at :: "'a list \<Rightarrow> nat \<Rightarrow> 'a list" where
  "erase_at xs k = take k xs @ drop (Suc k) xs"

text \<open>
  The loop of \<^verbatim>\<open>run_slot\<close> over the pending RARs, from the position \<open>it\<close>. The scheduling
  of one RAR is a parameter, so that what the loop does can be stated for itself;
  \<^verbatim>\<open>run_slot\<close> passes \<^verbatim>\<open>schedule_rar\<close>, which takes the RAR by a const reference: the
  list of pending RARs after the call is the list before it. Beside the state the loop
  keeps a history of what it did with each RAR it looked at (the history is not part of
  the program): the RAR was discarded, or \<^verbatim>\<open>schedule_rar\<close> was called for it and returned
  a number of allocations.
\<close>

datatype rar_event =
  rar_discarded pending_rar_t
| rar_attempted pending_rar_t nat

function rar_loop ::
  "(pending_rar_t \<Rightarrow> ('h, 'p) ra_scheduler \<Rightarrow> (nat \<times> ('h, 'p) ra_scheduler) option)
     \<Rightarrow> slot_point \<Rightarrow> nat \<Rightarrow> ('h, 'p) ra_scheduler \<times> rar_event list
     \<Rightarrow> (('h, 'p) ra_scheduler \<times> rar_event list) option" where
  "rar_loop sched_rar pdcch_slot it st =
     (let sched = fst st; history = snd st in
      if length (pending_rars sched) \<le> it then Some st
      else
        let rar_req = pending_rars sched ! it in
        if \<not> window_contains (rar_window rar_req) pdcch_slot
        then (if slot_ge pdcch_slot (snd (rar_window rar_req))
              then rar_loop sched_rar pdcch_slot it
                     (sched\<lparr>logger := logger sched
                                @ [warning_rar_window_passed (rar_window rar_req)
                                     (prach_slot_rx rar_req) pdcch_slot],
                            pending_rars := erase_at (pending_rars sched) it\<rparr>,
                      history @ [rar_discarded rar_req])
              else Some st)
        else
          case sched_rar rar_req sched of
            None \<Rightarrow> None
          | Some r \<Rightarrow>
              let nof_allocs = fst r;
                  sched1 = (snd r)\<lparr>pending_rars := pending_rars sched\<rparr>;
                  history1 = history @ [rar_attempted rar_req nof_allocs]
              in if \<not> nof_allocs \<le> length (tc_rntis rar_req) then None
                 else if 0 < nof_allocs
                 then (if nof_allocs = length (tc_rntis rar_req)
                       then rar_loop sched_rar pdcch_slot it
                              (sched1\<lparr>pending_rars := erase_at (pending_rars sched1) it\<rparr>, history1)
                       else Some (sched1\<lparr>pending_rars := (pending_rars sched1)
                                           [it := remove_allocated_msg3s nof_allocs rar_req]\<rparr>,
                                  history1))
                 else rar_loop sched_rar pdcch_slot (Suc it) (sched1, history1))"
  by pat_completeness auto
termination
  by (relation "measure (\<lambda>(sched_rar, pdcch_slot, it, st). length (pending_rars (fst st)) - it)")
     (auto simp: erase_at_def)

declare rar_loop.simps [simp del]




section \<open>RA scheduler: the spec's words, and concrete inputs\<close>

text \<open>
  A preamble is accepted when the HARQ of the pending Msg3 at its index is empty, and is
  discarded as a duplicate otherwise.
\<close>

definition preamble_accepted :: "('h, 'p) ra_env \<Rightarrow> 'h pending_msg3 list \<Rightarrow> prach_preamble \<Rightarrow> bool" where
  "preamble_accepted env msg3s q = harq_empty env (harq (msg3s ! msg3_index env (tc_rnti q)))"


text \<open>
  An instance of the parameters, for concrete inputs. Modelled from the spec: the UL HARQ
  process of a pending Msg3 (its header is not among the sources), with "pid, last PRBs,
  last MCS, retx count, tbs, pending-retx flag"; it is taken by a new transmission when
  empty, retransmits when a retransmission is pending, and is released by a positive CRC
  or when the retransmissions are used up. The search for free resource blocks returns
  the first run of free blocks of the length asked for, cut to that length, or else the
  longest run. The cell is FDD at 30 kHz with 24 resource blocks, one PDSCH and one PUSCH
  time-domain resource (\<open>k0 = 0\<close>, \<open>k2 = 4\<close>, so that Msg3 is 7 slots after the RAR),
  a RAR of 3 resource blocks, and result lists of 16 entries.
\<close>

record ul_harq_process =
  hq_pid :: nat
  hq_empty :: bool
  hq_prbs :: "nat \<times> nat"
  hq_mcs :: nat
  hq_nof_retx :: nat
  hq_max_retx :: nat
  hq_tbs :: nat
  hq_pending_retx :: bool

definition hq_new_tx :: "slot_point \<Rightarrow> nat \<times> nat \<Rightarrow> nat \<Rightarrow> nat \<Rightarrow> ul_harq_process \<Rightarrow> bool \<times> ul_harq_process" where
  "hq_new_tx sl prbs mcs max_retx h =
     (if hq_empty h
      then (True, h\<lparr>hq_empty := False, hq_prbs := prbs, hq_mcs := mcs, hq_nof_retx := 0,
                     hq_max_retx := max_retx, hq_pending_retx := False\<rparr>)
      else (False, h))"

definition hq_new_retx :: "slot_point \<Rightarrow> nat \<times> nat \<Rightarrow> ul_harq_process \<Rightarrow> bool \<times> ul_harq_process" where
  "hq_new_retx sl prbs h =
     (if \<not> hq_empty h \<and> hq_pending_retx h
      then (True, h\<lparr>hq_prbs := prbs, hq_nof_retx := Suc (hq_nof_retx h), hq_pending_retx := False\<rparr>)
      else (False, h))"

definition hq_reset :: "ul_harq_process \<Rightarrow> ul_harq_process" where
  "hq_reset h = h\<lparr>hq_empty := True, hq_nof_retx := 0, hq_pending_retx := False\<rparr>"

definition hq_ack_info :: "nat \<Rightarrow> bool \<Rightarrow> ul_harq_process \<Rightarrow> ul_harq_process" where
  "hq_ack_info tb ack h =
     (if ack \<or> hq_max_retx h \<le> hq_nof_retx h then hq_reset h else h\<lparr>hq_pending_retx := True\<rparr>)"

fun free_runs :: "bool list \<Rightarrow> nat \<Rightarrow> (nat \<times> nat) option \<Rightarrow> (nat \<times> nat) list" where
  "free_runs [] pos cur = (case cur of None \<Rightarrow> [] | Some run \<Rightarrow> [run])"
| "free_runs (used # rest) pos cur =
     (if used then (case cur of None \<Rightarrow> [] | Some run \<Rightarrow> [run]) @ free_runs rest (Suc pos) None
      else free_runs rest (Suc pos)
             (Some (case cur of None \<Rightarrow> (pos, Suc pos) | Some run \<Rightarrow> (fst run, Suc pos))))"

definition first_fit_interval :: "bool list \<Rightarrow> nat \<Rightarrow> nat \<Rightarrow> nat \<times> nat" where
  "first_fit_interval used_rbs nof_rbs start_idx =
     (let runs = free_runs (drop start_idx used_rbs) start_idx None in
      case filter (\<lambda>run. nof_rbs \<le> interval_length run) runs of
        run # _ \<Rightarrow> interval_resize run nof_rbs
      | [] \<Rightarrow> fold (\<lambda>run best. if interval_length best < interval_length run then run else best)
                runs (0, 0))"

definition riv_type1 :: "nat \<Rightarrow> nat \<Rightarrow> nat \<Rightarrow> nat" where
  "riv_type1 n_rb rb_start len =
     (if len - 1 \<le> n_rb div 2 then n_rb * (len - 1) + rb_start
      else n_rb * (n_rb - len + 1) + (n_rb - 1 - rb_start))"

definition env_example :: "(ul_harq_process, nat) ra_env" where
  "env_example =
     \<lparr>tdd_period = None,
      is_dl_enabled = (\<lambda>sl. True),
      is_ul_enabled = (\<lambda>sl. True),
      is_ra_monitoring_active = (\<lambda>sl. True),
      pdsch_td_alloc_list = [(0, (2, 14))],
      pusch_td_alloc_list = [\<lparr>k2 = 4, pusch_symbols = (0, 14)\<rparr>],
      dl_bwp_crbs = (0, 24),
      ul_bwp_crbs = (0, 24),
      dl_bwp_scs = kHz30,
      ul_bwp_scs = kHz30,
      ra_win_nof_slots = 10,
      MAX_NOF_MSG3 = 1024,
      rar_data = [(3, 9)],
      msg3_mcs_index = 0,
      max_rar_grants = 16,
      max_dl_pdcchs = 16,
      max_ul_pdcchs = 16,
      max_puschs = 16,
      find_empty_interval_of_length = first_fit_interval,
      alloc_pdcch_common = (\<lambda>nof_used a rnti. if nof_used < 4 then Some (4 * nof_used, Suc nof_used) else None),
      alloc_ul_pdcch_common = (\<lambda>nof_used a rnti. if nof_used < 4 then Some (4 * nof_used, Suc nof_used) else None),
      ra_frequency_type1_get_riv = riv_type1,
      to_Ta = (\<lambda>t scs. t),
      msg3_retx_tbs_bytes = (\<lambda>symbols crbs mcs. 11),
      harq_empty = hq_empty,
      harq_pid = hq_pid,
      harq_prbs = hq_prbs,
      harq_mcs = hq_mcs,
      harq_nof_retx = hq_nof_retx,
      harq_has_pending_retx = hq_pending_retx,
      harq_new_tx = hq_new_tx,
      harq_new_retx = hq_new_retx,
      harq_reset = hq_reset,
      harq_set_tbs = (\<lambda>tbs h. h\<lparr>hq_tbs := tbs\<rparr>),
      harq_ack_info = hq_ack_info,
      harq_slot_indication = (\<lambda>sl h. h)\<rparr>"

text \<open>
  Scheduler states at the slot 11: a ring of 8 slots; a RACH of one preamble (TC-RNTI
  0x4601, whose Msg3 index is 513) is pending as a RAR with the window \<open>[11, 21)\<close>.
\<close>

definition empty_slot :: "nat \<Rightarrow> cell_slot_resource_allocator" where
  "empty_slot n = \<lparr>alloc_slot = \<lparr>numerology = 1, count_val = n\<rparr>, dl_res_grid = {}, ul_res_grid = {},
                   dl_pdcchs = [], ul_pdcchs = [], rar_grants = [], puschs = []\<rparr>"

definition other_pusch :: ul_sched_info where
  "other_pusch = \<lparr>pusch_rnti = 0x4700, pusch_prbs = (0, 1), pusch_cfg_symbols = (0, 14),
                  pusch_mcs_index = 0, pusch_rv_index = 0, pusch_harq_id = 0, pusch_new_data = True,
                  pusch_tb_size_bytes = 11\<rparr>"

definition empty_msg3 :: "nat \<Rightarrow> ul_harq_process pending_msg3" where
  "empty_msg3 k = \<lparr>preamble = \<lparr>preamble_id = 0, tc_rnti = 0, time_advance = 0\<rparr>,
                   harq = \<lparr>hq_pid = k, hq_empty = True, hq_prbs = (0, 0), hq_mcs = 0, hq_nof_retx = 0,
                           hq_max_retx = 0, hq_tbs = 0, hq_pending_retx = False\<rparr>\<rparr>"

definition msg3s_example :: "ul_harq_process pending_msg3 list" where
  "msg3s_example =
     (map empty_msg3 [0..<1024])
       [513 := (empty_msg3 513)\<lparr>preamble := \<lparr>preamble_id = 3, tc_rnti = 0x4601, time_advance = 12\<rparr>\<rparr>]"

definition rar_example :: pending_rar_t where
  "rar_example = \<lparr>ra_rnti = 141, prach_slot_rx = \<lparr>numerology = 1, count_val = 10\<rparr>,
                  rar_window = (\<lparr>numerology = 1, count_val = 11\<rparr>, \<lparr>numerology = 1, count_val = 21\<rparr>),
                  tc_rntis = [0x4601]\<rparr>"

definition ring_example :: cell_resource_allocator where
  "ring_example = [empty_slot 11, empty_slot 12, empty_slot 13, empty_slot 14, empty_slot 15,
                   empty_slot 16, empty_slot 17, empty_slot 18]"

text \<open>The same ring when the PUSCH list of the Msg3 slot (slot 18) is full.\<close>

definition ring_pusch_full :: cell_resource_allocator where
  "ring_pusch_full = [empty_slot 11, empty_slot 12, empty_slot 13, empty_slot 14, empty_slot 15,
                      empty_slot 16, empty_slot 17,
                      (empty_slot 18)\<lparr>puschs := replicate 16 other_pusch\<rparr>]"

definition sched_example :: "(ul_harq_process, nat) ra_scheduler" where
  "sched_example =
     \<lparr>res_alloc = ring_example, pdcch_sch = 0, pending_rachs = [], pending_crcs = [],
      pending_rars = [rar_example], pending_msg3s = msg3s_example, logger = []\<rparr>"

definition sched_pusch_full :: "(ul_harq_process, nat) ra_scheduler" where
  "sched_pusch_full = sched_example\<lparr>res_alloc := ring_pusch_full\<rparr>"

text \<open>
  The state in which \<^verbatim>\<open>schedule_rar\<close> leaves \<open>sched_pusch_full\<close>: a PDCCH and a RAR
  without grants in the slot 11.
\<close>

definition sched_after_empty_rar :: "(ul_harq_process, nat) ra_scheduler" where
  "sched_after_empty_rar =
     sched_pusch_full
       \<lparr>res_alloc := ring_pusch_full
          [0 := (empty_slot 11)
             \<lparr>dl_pdcchs := [\<lparr>dl_ctx_rnti = 141, dl_ctx_cces = 0,
                              ra_f1_0 = Some \<lparr>N_rb_dl_bwp = 24, dl_frequency_resource = 0,
                                             dl_time_resource = 0, vrb_to_prb_mapping = 0,
                                             dl_modulation_coding_scheme = 0, tb_scaling = 0\<rparr>\<rparr>],
              rar_grants := [\<lparr>pdsch_rnti = 141, pdsch_prbs = (0, 0), pdsch_symbols = (2, 14),
                               cw_mcs_index = 0, cw_rv_index = 0, cw_tb_size_bytes = 9,
                               grants = []\<rparr>]\<rparr>],
        pdcch_sch := 1\<rparr>"

text \<open>
  Preambles at the slot 10 for a pool of pending Msg3s whose entry 514 has a HARQ process
  in use: the preamble with the TC-RNTI 0x4601 (index 513) is new, the one with the
  TC-RNTI 0x4602 (index 514) is a duplicate.
\<close>

definition msg3s_busy :: "ul_harq_process pending_msg3 list" where
  "msg3s_busy =
     msg3s_example
       [514 := \<lparr>preamble = \<lparr>preamble_id = 5, tc_rnti = 0x4602, time_advance = 3\<rparr>,
                 harq = \<lparr>hq_pid = 514, hq_empty = False, hq_prbs = (0, 3), hq_mcs = 0,
                         hq_nof_retx = 0, hq_max_retx = 4, hq_tbs = 11, hq_pending_retx = False\<rparr>\<rparr>]"

definition preamble_new :: prach_preamble where
  "preamble_new = \<lparr>preamble_id = 3, tc_rnti = 0x4601, time_advance = 12\<rparr>"

definition preamble_dup :: prach_preamble where
  "preamble_dup = \<lparr>preamble_id = 7, tc_rnti = 0x4602, time_advance = 4\<rparr>"

text \<open>
  The state in which \<^verbatim>\<open>schedule_rar\<close> leaves \<open>sched_example\<close>: a PDCCH, a RAR with one
  Msg3 grant in the slot 11, the PUSCH of the Msg3 in the slot 18, and the HARQ process 513
  taken.
\<close>

definition sched_after_rar :: "(ul_harq_process, nat) ra_scheduler" where
  "sched_after_rar =
     sched_example
       \<lparr>res_alloc := ring_example
          [0 := (empty_slot 11)
             \<lparr>dl_res_grid := {2..<14} \<times> {0..<3},
              dl_pdcchs := [\<lparr>dl_ctx_rnti = 141, dl_ctx_cces = 0,
                              ra_f1_0 = Some \<lparr>N_rb_dl_bwp = 24, dl_frequency_resource = 48,
                                             dl_time_resource = 0, vrb_to_prb_mapping = 0,
                                             dl_modulation_coding_scheme = 0, tb_scaling = 0\<rparr>\<rparr>],
              rar_grants := [\<lparr>pdsch_rnti = 141, pdsch_prbs = (0, 3), pdsch_symbols = (2, 14),
                               cw_mcs_index = 0, cw_rv_index = 0, cw_tb_size_bytes = 9,
                               grants = [\<lparr>rapid = 3, grant_ta = 12, temp_crnti = 0x4601,
                                           time_resource_assignment = 0,
                                           freq_resource_assignment = 48,
                                           grant_mcs = 0, grant_tpc = 0, csi_req = False\<rparr>]\<rparr>]\<rparr>,
           7 := (empty_slot 18)
             \<lparr>ul_res_grid := {0..<14} \<times> {0..<3},
              puschs := [\<lparr>pusch_rnti = 0x4601, pusch_prbs = (0, 3), pusch_cfg_symbols = (0, 14),
                           pusch_mcs_index = 0, pusch_rv_index = 0, pusch_harq_id = 513,
                           pusch_new_data = True, pusch_tb_size_bytes = 11\<rparr>]\<rparr>],
        pdcch_sch := 1,
        pending_msg3s := msg3s_example
          [513 := \<lparr>preamble = \<lparr>preamble_id = 3, tc_rnti = 0x4601, time_advance = 12\<rparr>,
                    harq = \<lparr>hq_pid = 513, hq_empty = False, hq_prbs = (0, 3), hq_mcs = 0,
                            hq_nof_retx = 0, hq_max_retx = 4, hq_tbs = 0,
                            hq_pending_retx = False\<rparr>\<rparr>]\<rparr>"




text \<open>
  A pending RAR of two TC-RNTIs, and a slot 18 whose list of PUSCHs has one place left:
  one Msg3 of the two can be allocated.
\<close>

definition rar_two :: pending_rar_t where
  "rar_two = rar_example\<lparr>tc_rntis := [0x4601, 0x4602]\<rparr>"

definition ring_one_left :: cell_resource_allocator where
  "ring_one_left = [empty_slot 11, empty_slot 12, empty_slot 13, empty_slot 14, empty_slot 15,
                    empty_slot 16, empty_slot 17,
                    (empty_slot 18)\<lparr>puschs := replicate 15 other_pusch\<rparr>]"

definition msg3s_two :: "ul_harq_process pending_msg3 list" where
  "msg3s_two =
     msg3s_example
       [514 := (empty_msg3 514)\<lparr>preamble := \<lparr>preamble_id = 7, tc_rnti = 0x4602, time_advance = 4\<rparr>\<rparr>]"

definition sched_one_left :: "(ul_harq_process, nat) ra_scheduler" where
  "sched_one_left =
     \<lparr>res_alloc = ring_one_left, pdcch_sch = 0, pending_rachs = [], pending_crcs = [],
      pending_rars = [rar_two], pending_msg3s = msg3s_two, logger = []\<rparr>"

definition sched_after_partial :: "(ul_harq_process, nat) ra_scheduler" where
  "sched_after_partial =
     sched_one_left
       \<lparr>res_alloc := ring_one_left
          [0 := (empty_slot 11)
             \<lparr>dl_res_grid := {2..<14} \<times> {0..<3},
              dl_pdcchs := [\<lparr>dl_ctx_rnti = 141, dl_ctx_cces = 0,
                              ra_f1_0 = Some \<lparr>N_rb_dl_bwp = 24, dl_frequency_resource = 48,
                                             dl_time_resource = 0, vrb_to_prb_mapping = 0,
                                             dl_modulation_coding_scheme = 0, tb_scaling = 0\<rparr>\<rparr>],
              rar_grants := [\<lparr>pdsch_rnti = 141, pdsch_prbs = (0, 3), pdsch_symbols = (2, 14),
                               cw_mcs_index = 0, cw_rv_index = 0, cw_tb_size_bytes = 9,
                               grants = [\<lparr>rapid = 3, grant_ta = 12, temp_crnti = 0x4601,
                                           time_resource_assignment = 0,
                                           freq_resource_assignment = 48,
                                           grant_mcs = 0, grant_tpc = 0, csi_req = False\<rparr>]\<rparr>]\<rparr>,
           7 := (empty_slot 18)
             \<lparr>ul_res_grid := {0..<14} \<times> {0..<3},
              puschs := replicate 15 other_pusch
                        @ [\<lparr>pusch_rnti = 0x4601, pusch_prbs = (0, 3), pusch_cfg_symbols = (0, 14),
                             pusch_mcs_index = 0, pusch_rv_index = 0, pusch_harq_id = 513,
                             pusch_new_data = True, pusch_tb_size_bytes = 11\<rparr>]\<rparr>],
        pdcch_sch := 1,
        pending_msg3s := msg3s_two
          [513 := \<lparr>preamble = \<lparr>preamble_id = 3, tc_rnti = 0x4601, time_advance = 12\<rparr>,
                    harq = \<lparr>hq_pid = 513, hq_empty = False, hq_prbs = (0, 3), hq_mcs = 0,
                            hq_nof_retx = 0, hq_max_retx = 4, hq_tbs = 0,
                            hq_pending_retx = False\<rparr>\<rparr>]\<rparr>"

text \<open>
  A RACH indication whose only preamble is a duplicate, received in a state without
  pending RARs: \<^verbatim>\<open>handle_rach_indication_impl\<close> creates the pending RAR before it looks at
  the preambles, so that the RAR is left with no TC-RNTI.
\<close>

definition rar_no_msg3 :: pending_rar_t where
  "rar_no_msg3 = rar_example\<lparr>tc_rntis := []\<rparr>"

definition rach_dup :: rach_indication_message where
  "rach_dup = \<lparr>rach_slot_rx = \<lparr>numerology = 1, count_val = 10\<rparr>,
               occasions = [\<lparr>start_symbol = 0, occ_frequency_index = 0,
                             preambles = [preamble_dup]\<rparr>]\<rparr>"

definition sched_rx :: "(ul_harq_process, nat) ra_scheduler" where
  "sched_rx =
     \<lparr>res_alloc = ring_example, pdcch_sch = 0, pending_rachs = [], pending_crcs = [],
      pending_rars = [], pending_msg3s = msg3s_busy, logger = []\<rparr>"

definition log_dup :: "ra_log list" where
  "log_dup = [info_new_prach \<lparr>numerology = 1, count_val = 10\<rparr> 7 141 0x4602,
              warning_prach_ignored 0x4602]"

definition sched_no_msg3 :: "(ul_harq_process, nat) ra_scheduler" where
  "sched_no_msg3 =
     \<lparr>res_alloc = ring_example, pdcch_sch = 0, pending_rachs = [], pending_crcs = [],
      pending_rars = [rar_no_msg3], pending_msg3s = msg3s_busy, logger = log_dup\<rparr>"










section \<open>Properties of the Msg3 delay and of the RA-RNTI\<close>

lemma slot_index_bound:
  "numerology sl \<le> m \<Longrightarrow> m \<le> 4 \<Longrightarrow> unat (slot_index sl) < 10 * 2 ^ m"
proof -
  assume le: "numerology sl \<le> m" and m4: "m \<le> 4"
  have pos: "0 < nof_slots_per_frame sl"
    by (simp add: nof_slots_per_frame_def)
  have "(2::nat) ^ numerology sl \<le> 2 ^ m"
    using le by (simp add: power_increasing)
  then have b: "nof_slots_per_frame sl \<le> 10 * 2 ^ m"
    by (simp add: nof_slots_per_frame_def)
  have "(2::nat) ^ m \<le> 2 ^ 4"
    using m4 by (intro power_increasing) simp_all
  then have c: "(10::nat) * 2 ^ m \<le> 160"
    by simp
  have lt: "count_val sl mod nof_slots_per_frame sl < nof_slots_per_frame sl"
    using pos by simp
  have "unat (slot_index sl) \<le> count_val sl mod nof_slots_per_frame sl"
    unfolding slot_index_def by (simp add: unat_of_nat)
  with lt b show ?thesis
    by linarith
qed

lemma unat_ucast_of_nat_small: "n < 65536 \<Longrightarrow> unat (ucast (of_nat n :: 32 word) :: 16 word) = n"
proof -
  assume a: "n < 65536"
  have "unat (of_nat n :: 32 word) = n"
    unfolding unat_of_nat using a by simp
  moreover have "unat (ucast (of_nat n :: 32 word) :: 16 word) = unat (of_nat n :: 32 word) mod 2 ^ 16"
    by (simp add: unsigned_ucast_eq take_bit_eq_mod)
  ultimately show ?thesis using a by simp
qed

text \<open>
  Claim C8. For every slot point of a numerology in \<open>{0..4}\<close>, every symbol index below 14,
  every frequency index below 8 and either value of the SUL flag, \<^verbatim>\<open>get_ra_rnti\<close>
  returns \<open>1 + s_id + 14 * t_id + 14 * 80 * f_id + 14 * 80 * 8 * ul_carrier_id\<close> with
  \<open>t_id\<close> the slot index of the PRACH slot and \<open>ul_carrier_id\<close> 1 for SUL and 0
  otherwise: the 16-bit result loses nothing of the 32-bit sum. For the numerologies up
  to 3 the slot index is below 80. (For \<open>s_id = 0\<close>, slot index 10, \<open>f_id = 0\<close>, no SUL,
  the value is 141: the witness below.)
\<close>

theorem get_ra_rnti_bit_exact:
  assumes "numerology sl_rx \<le> 4" and "unat symbol_index < 14" and "unat frequency_index < 8"
  shows "unat (get_ra_rnti sl_rx symbol_index frequency_index is_sul)
           = 1 + unat symbol_index + 14 * unat (slot_index sl_rx) + 14 * 80 * unat frequency_index
             + 14 * 80 * 8 * (if is_sul then 1 else 0)
         \<and> (numerology sl_rx \<le> 3 \<longrightarrow> unat (slot_index sl_rx) < 80)"
proof -
  have t: "unat (slot_index sl_rx) < 160"
    using slot_index_bound [of sl_rx 4] assms(1) by simp
  define c :: "32 word" where "c = (if is_sul then 1 else 0)"
  have cu: "unat c = (if is_sul then 1 else 0)"
    by (simp add: c_def)
  have cle: "unat c \<le> 1"
    by (simp add: cu)
  define n where "n = 1 + unat symbol_index + 14 * unat (slot_index sl_rx)
                      + 14 * 80 * unat frequency_index + 14 * 80 * 8 * unat c"
  have small: "n < 65536"
    unfolding n_def using t assms(2,3) cle by linarith
  have w: "(1 + symbol_index + 14 * slot_index sl_rx + 14 * 80 * frequency_index
            + (14 * 80 * 8 * c) :: 32 word) = of_nat n"
    unfolding n_def by simp
  have "unat (get_ra_rnti sl_rx symbol_index frequency_index is_sul) = n"
    unfolding get_ra_rnti_def c_def[symmetric] w by (rule unat_ucast_of_nat_small [OF small])
  then have formula: "unat (get_ra_rnti sl_rx symbol_index frequency_index is_sul)
           = 1 + unat symbol_index + 14 * unat (slot_index sl_rx) + 14 * 80 * unat frequency_index
             + 14 * 80 * 8 * (if is_sul then 1 else 0)"
    by (simp add: n_def cu)
  have "numerology sl_rx \<le> 3 \<longrightarrow> unat (slot_index sl_rx) < 80"
    using slot_index_bound [of sl_rx 3] by simp
  with formula show ?thesis
    by blast
qed

theorem get_ra_rnti_bit_exact_witness:
  "numerology \<lparr>numerology = 1, count_val = 10\<rparr> \<le> 4 \<and> unat (0 :: 32 word) < 14
   \<and> unat (0 :: 32 word) < 8
   \<and> unat (slot_index \<lparr>numerology = 1, count_val = 10\<rparr>) = 10
   \<and> unat (get_ra_rnti \<lparr>numerology = 1, count_val = 10\<rparr> 0 0 False) = 141"
proof -
  have h1: "numerology \<lparr>numerology = 1, count_val = 10\<rparr> \<le> 4"
    by simp
  have h2: "unat (0 :: 32 word) < 14" and h3: "unat (0 :: 32 word) < 8"
    by simp_all
  have t: "unat (slot_index \<lparr>numerology = 1, count_val = 10\<rparr>) = 10"
    by (simp add: slot_index_def nof_slots_per_frame_def)
  from get_ra_rnti_bit_exact [OF h1 h2 h3, of False] t
  have "unat (get_ra_rnti \<lparr>numerology = 1, count_val = 10\<rparr> 0 0 False) = 141"
    by simp
  with h1 h2 h3 t show ?thesis
    by blast
qed

text \<open>
  Claim C9. For every PUSCH time-domain resource allocation with value \<open>k2\<close> and every
  subcarrier spacing of numerology \<open>\<mu>\<close> in \<open>{0,1,2,3}\<close>, \<^verbatim>\<open>get_msg3_delay\<close> returns
  \<open>k2 + \<Delta>[\<mu>]\<close> with \<open>\<Delta> = [2,3,4,6]\<close> (in the 32-bit arithmetic of the source, and as
  a plain sum of naturals for every \<open>k2\<close> of the range \<open>0..32\<close>), and the index into the
  array of deltas is within its bounds; for \<open>\<mu> = 4\<close> (240 kHz) the call fails on its
  sanity check and returns no delay; no call reads the array out of bounds.
\<close>

theorem get_msg3_delay_table:
  "(to_numerology_value pusch_scs \<le> 3 \<longrightarrow>
      to_numerology_value pusch_scs < length DELTAS
      \<and> get_msg3_delay td pusch_scs
          = Inr (k2 td + [2, 3, 4, 6] ! to_numerology_value pusch_scs)
      \<and> (unat (k2 td) \<le> 32 \<longrightarrow>
           map_sum id unat (get_msg3_delay td pusch_scs)
             = Inr (unat (k2 td) + [2, 3, 4, 6] ! to_numerology_value pusch_scs)))
   \<and> (to_numerology_value pusch_scs = 4 \<longrightarrow>
        (\<exists>msg. get_msg3_delay td pusch_scs = Inl (sanity_check_failed msg)))
   \<and> get_msg3_delay td pusch_scs \<noteq> Inl array_out_of_bounds"
proof (cases pusch_scs)
  case kHz15
  then show ?thesis
    by (simp add: get_msg3_delay_def array_at_def DELTAS_def unat_word_ariths)
next
  case kHz30
  then show ?thesis
    by (simp add: get_msg3_delay_def array_at_def DELTAS_def unat_word_ariths)
next
  case kHz60
  then show ?thesis
    by (simp add: get_msg3_delay_def array_at_def DELTAS_def unat_word_ariths)
next
  case kHz120
  then show ?thesis
    by (simp add: get_msg3_delay_def array_at_def DELTAS_def unat_word_ariths)
next
  case kHz240
  then show ?thesis
    by (simp add: get_msg3_delay_def)
qed

theorem get_msg3_delay_table_witness:
  "to_numerology_value kHz30 \<le> 3
   \<and> get_msg3_delay \<lparr>k2 = 4, pusch_symbols = (0, 14)\<rparr> kHz30 = Inr 7
   \<and> to_numerology_value kHz240 = 4
   \<and> (\<exists>msg. get_msg3_delay \<lparr>k2 = 4, pusch_symbols = (0, 14)\<rparr> kHz240 = Inl (sanity_check_failed msg))"
  using get_msg3_delay_table [of kHz30 "\<lparr>k2 = 4, pusch_symbols = (0, 14)\<rparr>"]
        get_msg3_delay_table [of kHz240 "\<lparr>k2 = 4, pusch_symbols = (0, 14)\<rparr>"]
  by simp

section \<open>Properties of the transmit buffer pool\<close>

subsection \<open>Searching\<close>

lemma std_find_if_le: "std_find_if P xs \<le> length xs"
  by (induction xs) auto

lemma std_find_if_lt_iff: "std_find_if P xs < length xs \<longleftrightarrow> (\<exists>x \<in> set xs. P x)"
  by (induction xs) auto

lemma std_find_if_hit: "std_find_if P xs < length xs \<Longrightarrow> P (xs ! std_find_if P xs)"
  by (induction xs) (auto split: if_splits)

lemma std_find_if_first: "j < std_find_if P xs \<Longrightarrow> \<not> P (xs ! j)"
proof (induction xs arbitrary: j)
  case Nil
  then show ?case by simp
next
  case (Cons x xs)
  then show ?case
    by (cases j) (auto split: if_splits)
qed

lemma std_find_le: "std_find xs v \<le> length xs"
  by (simp add: std_find_def std_find_if_le)

lemma std_find_end_iff: "std_find xs v = length xs \<longleftrightarrow> v \<notin> set xs"
  using std_find_if_lt_iff [of "\<lambda>x. x = v" xs] std_find_if_le [of "\<lambda>x. x = v" xs]
  by (auto simp: std_find_def)

lemma std_find_hit: "v \<in> set xs \<Longrightarrow> std_find xs v < length xs \<and> xs ! std_find xs v = v"
  using std_find_if_hit [of "\<lambda>x. x = v" xs] std_find_if_lt_iff [of "\<lambda>x. x = v" xs]
  by (auto simp: std_find_def)

lemma std_find_first: "j < std_find xs v \<Longrightarrow> xs ! j \<noteq> v"
  using std_find_if_first [of j "\<lambda>x. x = v" xs] by (simp add: std_find_def)

lemma std_find_if_from_le: "first \<le> length xs \<Longrightarrow> std_find_if_from P xs first \<le> length xs"
  using std_find_if_le [of P "drop first xs"] by (simp add: std_find_if_from_def)

lemma std_find_if_from_hit:
  "std_find_if_from P xs first < length xs \<Longrightarrow> P (xs ! std_find_if_from P xs first)"
proof -
  assume a: "std_find_if_from P xs first < length xs"
  then have "std_find_if P (drop first xs) < length (drop first xs)"
    by (simp add: std_find_if_from_def)
  from std_find_if_hit [OF this] a show ?thesis
    by (simp add: std_find_if_from_def)
qed

lemma std_find_if_from_skip:
  "first \<le> j \<Longrightarrow> j < std_find_if_from P xs first \<Longrightarrow> j < length xs \<Longrightarrow> \<not> P (xs ! j)"
proof -
  assume a: "first \<le> j" and b: "j < std_find_if_from P xs first" and c: "j < length xs"
  then have "j - first < std_find_if P (drop first xs)"
    by (simp add: std_find_if_from_def)
  from std_find_if_first [OF this] a c show ?thesis
    by simp
qed

lemma std_find_target:
  "v \<in> set xs \<Longrightarrow> std_find xs v < length xs \<and> xs ! std_find xs v = v \<and> (\<forall>j < std_find xs v. xs ! j \<noteq> v)"
  using std_find_hit [of v xs] std_find_first [of _ xs v] by blast

subsection \<open>The slot tick, entry by entry\<close>

lemma run_slot_body_frame:
  "pool_wf (run_slot_body slot i p) = pool_wf p"
  "expire_timeout_slots (run_slot_body slot i p) = expire_timeout_slots p"
  "stopped (run_slot_body slot i p) = stopped p"
  "j \<noteq> i \<Longrightarrow> pool_entry (run_slot_body slot i p) j = pool_entry p j"
  by (simp_all add: run_slot_body_def Let_def pool_wf_def pool_entry_def)

lemma run_slot_body_at:
  assumes "pool_wf p" "i < length (identifiers p)" "identifiers p ! i \<noteq> invalid"
  shows "pool_entry (run_slot_body slot i p) i
           = run_slot_entry slot (expire_timeout_slots p) (pool_entry p i)"
  using assms
  by (simp add: run_slot_body_def Let_def pool_wf_def pool_entry_def run_slot_entry_def
                buffer_expire_def is_locked_def)

lemma run_slot_entry_invalid:
  "fst e = invalid \<Longrightarrow> run_slot_entry slot timeout e = e"
  by (simp add: run_slot_entry_def)

lemma run_slot_loop_done: "length (identifiers p) \<le> it \<Longrightarrow> run_slot_loop slot it p = p"
  by (subst run_slot_loop.simps) simp

lemma run_slot_loop_step:
  "\<not> length (identifiers p) \<le> it \<Longrightarrow>
   run_slot_loop slot it p
     = run_slot_loop slot
         (std_find_if_from is_reserved_id (identifiers (run_slot_body slot it p)) (Suc it))
         (run_slot_body slot it p)"
  by (subst run_slot_loop.simps) simp

lemma run_slot_loop_entries:
  "pool_wf p \<Longrightarrow> it \<le> length (identifiers p)
   \<Longrightarrow> (it < length (identifiers p) \<longrightarrow> identifiers p ! it \<noteq> invalid)
   \<Longrightarrow> j < length (identifiers p)
   \<Longrightarrow> pool_entry (run_slot_loop slot it p) j
        = (if j < it then pool_entry p j
           else run_slot_entry slot (expire_timeout_slots p) (pool_entry p j))"
proof (induction slot it p arbitrary: j rule: run_slot_loop.induct)
  case (1 slot it p)
  let ?n = "length (identifiers p)"
  show ?case
  proof (cases "?n \<le> it")
    case True
    with "1.prems" show ?thesis
      by (simp add: run_slot_loop_done)
  next
    case False
    define p' where "p' = run_slot_body slot it p"
    define it' where "it' = std_find_if_from is_reserved_id (identifiers p') (Suc it)"
    have len: "length (identifiers p') = ?n"
      by (simp add: p'_def length_identifiers_run_slot_body)
    have wf': "pool_wf p'"
      using "1.prems"(1) by (simp add: p'_def run_slot_body_frame)
    have it_lt: "it < ?n"
      using False by simp
    have res: "identifiers p ! it \<noteq> invalid"
      using "1.prems"(3) it_lt by simp
    have ge: "Suc it \<le> it'"
      by (simp add: it'_def std_find_if_from_ge)
    have le': "it' \<le> length (identifiers p')"
      unfolding it'_def using it_lt len by (intro std_find_if_from_le) simp
    have hit': "it' < length (identifiers p') \<longrightarrow> identifiers p' ! it' \<noteq> invalid"
      using std_find_if_from_hit [of is_reserved_id "identifiers p'" "Suc it"]
      by (auto simp: it'_def is_reserved_id_def)
    have step: "run_slot_loop slot it p = run_slot_loop slot it' p'"
      using run_slot_loop_step [OF False] by (simp add: p'_def it'_def)
    have jlen: "j < length (identifiers p')"
      using "1.prems"(4) len by simp
    have IH: "pool_entry (run_slot_loop slot it' p') j
        = (if j < it' then pool_entry p' j
           else run_slot_entry slot (expire_timeout_slots p') (pool_entry p' j))"
      using "1.IH" [OF False wf' [unfolded p'_def] le' [unfolded it'_def p'_def]
                       hit' [unfolded it'_def p'_def] jlen [unfolded p'_def]]
      by (simp add: p'_def it'_def)
    have to: "expire_timeout_slots p' = expire_timeout_slots p"
      by (simp add: p'_def run_slot_body_frame)
    consider (before) "j < it" | (at) "j = it" | (skipped) "it < j" "j < it'" | (after) "it' \<le> j"
      by linarith
    then show ?thesis
    proof cases
      case before
      then have "pool_entry p' j = pool_entry p j"
        by (simp add: p'_def run_slot_body_frame)
      with before ge IH step show ?thesis
        by simp
    next
      case at
      have "pool_entry p' it = run_slot_entry slot (expire_timeout_slots p) (pool_entry p it)"
        unfolding p'_def using "1.prems"(1) it_lt res by (rule run_slot_body_at)
      with at ge IH step show ?thesis
        by simp
    next
      case skipped
      have same: "pool_entry p' j = pool_entry p j"
        using skipped by (simp add: p'_def run_slot_body_frame)
      have "\<not> is_reserved_id (identifiers p' ! j)"
        using std_find_if_from_skip [of "Suc it" j is_reserved_id "identifiers p'"] skipped jlen
        by (simp add: it'_def)
      then have "fst (pool_entry p j) = invalid"
        using same by (simp add: is_reserved_id_def pool_entry_def)
      then have "run_slot_entry slot (expire_timeout_slots p) (pool_entry p j) = pool_entry p j"
        by (rule run_slot_entry_invalid)
      with skipped same IH step show ?thesis
        by simp
    next
      case after
      then have "pool_entry p' j = pool_entry p j"
        using ge by (simp add: p'_def run_slot_body_frame)
      with after ge IH step to show ?thesis
        by simp
    qed
  qed
qed

lemma run_slot_loop_frame:
  "pool_wf p \<Longrightarrow> pool_wf (run_slot_loop slot it p)
   \<and> length (identifiers (run_slot_loop slot it p)) = length (identifiers p)
   \<and> stopped (run_slot_loop slot it p) = stopped p
   \<and> expire_timeout_slots (run_slot_loop slot it p) = expire_timeout_slots p"
proof (induction slot it p rule: run_slot_loop.induct)
  case (1 slot it p)
  show ?case
  proof (cases "length (identifiers p) \<le> it")
    case True
    with "1.prems" show ?thesis by (simp add: run_slot_loop_done)
  next
    case False
    have wf': "pool_wf (run_slot_body slot it p)"
      using "1.prems" by (simp add: run_slot_body_frame)
    from "1.IH" [OF False wf'] show ?thesis
      by (simp add: run_slot_body_frame length_identifiers_run_slot_body run_slot_loop_step [OF False])
  qed
qed

lemma run_slot_entries:
  assumes "pool_wf p" "j < length (identifiers p)"
  shows "pool_entry (run_slot slot p) j = run_slot_entry slot (expire_timeout_slots p) (pool_entry p j)"
proof -
  define it where "it = std_find_if_from is_reserved_id (identifiers p) 0"
  have le: "it \<le> length (identifiers p)"
    unfolding it_def by (intro std_find_if_from_le) simp
  have hit: "it < length (identifiers p) \<longrightarrow> identifiers p ! it \<noteq> invalid"
    using std_find_if_from_hit [of is_reserved_id "identifiers p" 0]
    by (auto simp: it_def is_reserved_id_def)
  have e: "pool_entry (run_slot_loop slot it p) j
        = (if j < it then pool_entry p j
           else run_slot_entry slot (expire_timeout_slots p) (pool_entry p j))"
    using assms(1) le hit assms(2) by (rule run_slot_loop_entries)
  show ?thesis
  proof (cases "j < it")
    case True
    have "\<not> is_reserved_id (identifiers p ! j)"
      using std_find_if_from_skip [of 0 j is_reserved_id "identifiers p"] True assms(2)
      by (simp add: it_def)
    then have "fst (pool_entry p j) = invalid"
      by (simp add: is_reserved_id_def pool_entry_def)
    then have "run_slot_entry slot (expire_timeout_slots p) (pool_entry p j) = pool_entry p j"
      by (rule run_slot_entry_invalid)
    with True e show ?thesis
      by (simp add: run_slot_def it_def)
  next
    case False
    with e show ?thesis
      by (simp add: run_slot_def it_def)
  qed
qed

lemma run_slot_body_stopped: "stopped (run_slot_body slot i p) = stopped p"
  by (simp add: run_slot_body_def Let_def)

lemma run_slot_loop_stopped: "stopped (run_slot_loop slot it p) = stopped p"
proof (induction slot it p rule: run_slot_loop.induct)
  case (1 slot it p)
  show ?case
  proof (cases "length (identifiers p) \<le> it")
    case True
    then show ?thesis by (simp add: run_slot_loop_done)
  next
    case False
    from "1.IH" [OF False] show ?thesis
      by (simp add: run_slot_loop_step [OF False] run_slot_body_stopped)
  qed
qed

lemma run_slot_stopped: "stopped (run_slot slot p) = stopped p"
  by (simp add: run_slot_def run_slot_loop_stopped)

subsection \<open>Reservations, case by case\<close>

lemma reserve_unfold:
  "reserve slot ident n nd p =
     (if stopped p then (Inl pool_stopped, p)
      else if ident \<notin> set (identifiers p) \<and> \<not> nd then (Inl retx_identifier_not_found, p)
      else if ident \<notin> set (identifiers p) \<and> invalid \<notin> set (identifiers p) then (Inl insufficient_buffers, p)
      else let i = (if ident \<in> set (identifiers p) then std_find (identifiers p) ident
                    else std_find (identifiers p) invalid) in
        if \<not> nd \<and> n \<noteq> get_nof_codeblocks (buffers p ! i) then (Inl codeblocks_do_not_match, p)
        else if is_locked (buffers p ! i)
        then (Inl harq_already_in_use, p\<lparr>buffers := (buffers p)[i := buffers p ! i], codeblock_pool := codeblock_pool p\<rparr>)
        else if fst (buffer_reserve n (buffers p ! i, codeblock_pool p)) \<noteq> successful
        then (Inl insufficient_cbs,
              p\<lparr>buffers := (buffers p)[i := fst (snd (buffer_reserve n (buffers p ! i, codeblock_pool p)))],
                codeblock_pool := snd (snd (buffer_reserve n (buffers p ! i, codeblock_pool p)))\<rparr>)
        else (Inr i,
              p\<lparr>buffers := (buffers p)[i := fst (snd (buffer_reserve n (buffers p ! i, codeblock_pool p))),
                                       i := buffer_lock ((buffers p)[i := fst (snd (buffer_reserve n (buffers p ! i, codeblock_pool p)))] ! i)],
                codeblock_pool := snd (snd (buffer_reserve n (buffers p ! i, codeblock_pool p))),
                identifiers := (identifiers p)[i := ident],
                expirations := (expirations p)[i := Some (slot_add slot (expire_timeout_slots p))]\<rparr>))"
  by (auto simp: reserve_def Let_def std_find_end_iff failure_of_status_def buffer_reserve_def is_locked_def)

lemma reserve_cases:
  "reserve slot ident n nd p =
     (if stopped p then (Inl pool_stopped, p)
      else if ident \<notin> set (identifiers p) \<and> \<not> nd then (Inl retx_identifier_not_found, p)
      else if ident \<notin> set (identifiers p) \<and> invalid \<notin> set (identifiers p) then (Inl insufficient_buffers, p)
      else let i = (if ident \<in> set (identifiers p) then std_find (identifiers p) ident
                    else std_find (identifiers p) invalid) in
        if \<not> nd \<and> n \<noteq> get_nof_codeblocks (buffers p ! i) then (Inl codeblocks_do_not_match, p)
        else if is_locked (buffers p ! i)
        then (Inl harq_already_in_use, p)
        else if fst (buffer_reserve n (buffers p ! i, codeblock_pool p)) \<noteq> successful
        then (Inl insufficient_cbs,
              p\<lparr>buffers := (buffers p)[i := fst (snd (buffer_reserve n (buffers p ! i, codeblock_pool p)))],
                codeblock_pool := snd (snd (buffer_reserve n (buffers p ! i, codeblock_pool p)))\<rparr>)
        else (Inr i,
              p\<lparr>buffers := (buffers p)[i := buffer_lock ((buffers p)[i := fst (snd (buffer_reserve n (buffers p ! i, codeblock_pool p)))] ! i)],
                codeblock_pool := snd (snd (buffer_reserve n (buffers p ! i, codeblock_pool p))),
                identifiers := (identifiers p)[i := ident],
                expirations := (expirations p)[i := Some (slot_add slot (expire_timeout_slots p))]\<rparr>))"
  by (simp add: reserve_unfold Let_def)

lemma reserve_si_cases:
  "reserve_si slot n p =
     (if stopped p then (Inl pool_stopped, p)
      else if invalid \<notin> set (identifiers p) then (Inl insufficient_buffers, p)
      else let i = std_find (identifiers p) invalid in
        if is_locked (buffers p ! i)
        then (Inl harq_already_in_use, p)
        else if fst (buffer_reserve n (buffers p ! i, codeblock_pool p)) \<noteq> successful
        then (Inl insufficient_cbs,
              p\<lparr>buffers := (buffers p)[i := fst (snd (buffer_reserve n (buffers p ! i, codeblock_pool p)))],
                codeblock_pool := snd (snd (buffer_reserve n (buffers p ! i, codeblock_pool p)))\<rparr>)
        else (Inr i,
              p\<lparr>buffers := (buffers p)[i := buffer_lock ((buffers p)[i := fst (snd (buffer_reserve n (buffers p ! i, codeblock_pool p)))] ! i)],
                codeblock_pool := snd (snd (buffer_reserve n (buffers p ! i, codeblock_pool p))),
                identifiers := (identifiers p)[i := unknown],
                expirations := (expirations p)[i := Some (slot_add slot (expire_timeout_slots p))]\<rparr>))"
  by (auto simp: reserve_si_def Let_def std_find_end_iff failure_of_status_def buffer_reserve_def is_locked_def)

lemma reserve_at_target:
  assumes "\<not> stopped p" and "ident \<in> set (identifiers p) \<or> (nd \<and> invalid \<in> set (identifiers p))"
    and "i = (if ident \<in> set (identifiers p) then std_find (identifiers p) ident else std_find (identifiers p) invalid)"
  shows "reserve slot ident n nd p =
    (if \<not> nd \<and> n \<noteq> get_nof_codeblocks (buffers p ! i) then (Inl codeblocks_do_not_match, p)
        else if is_locked (buffers p ! i)
        then (Inl harq_already_in_use, p)
        else if fst (buffer_reserve n (buffers p ! i, codeblock_pool p)) \<noteq> successful
        then (Inl insufficient_cbs,
              p\<lparr>buffers := (buffers p)[i := fst (snd (buffer_reserve n (buffers p ! i, codeblock_pool p)))],
                codeblock_pool := snd (snd (buffer_reserve n (buffers p ! i, codeblock_pool p)))\<rparr>)
        else (Inr i,
              p\<lparr>buffers := (buffers p)[i := buffer_lock ((buffers p)[i := fst (snd (buffer_reserve n (buffers p ! i, codeblock_pool p)))] ! i)],
                codeblock_pool := snd (snd (buffer_reserve n (buffers p ! i, codeblock_pool p))),
                identifiers := (identifiers p)[i := ident],
                expirations := (expirations p)[i := Some (slot_add slot (expire_timeout_slots p))]\<rparr>))"
proof (cases "ident \<in> set (identifiers p)")
  case True
  with assms(3) have i: "std_find (identifiers p) ident = i"
    by simp
  show ?thesis
    using assms(1) True by (simp add: reserve_cases Let_def i)
next
  case False
  with assms(2,3) have i: "std_find (identifiers p) invalid = i" and nd: "nd"
    and inv: "invalid \<in> set (identifiers p)"
    by simp_all
  show ?thesis
    using assms(1) False nd inv by (simp add: reserve_cases Let_def i)
qed

subsection \<open>Waiting for the locks\<close>

lemma buffer_unlock_not_locked: "\<not> is_locked (buffer_unlock b)"
  by (simp add: buffer_unlock_def is_locked_def)

lemma apply_unlocks_length: "length (apply_unlocks e bufs) = length bufs"
  unfolding apply_unlocks_def by (induction e arbitrary: bufs) simp_all

lemma apply_unlocks_keeps_unlocked:
  "j < length bufs \<Longrightarrow> \<not> is_locked (bufs ! j) \<Longrightarrow> \<not> is_locked (apply_unlocks e bufs ! j)"
  unfolding apply_unlocks_def
proof (induction e arbitrary: bufs)
  case Nil
  then show ?case by simp
next
  case (Cons i e)
  have "\<not> is_locked (bufs[i := buffer_unlock (bufs ! i)] ! j)"
    using Cons.prems by (cases "i = j") (simp_all add: buffer_unlock_not_locked)
  with Cons.IH [of "bufs[i := buffer_unlock (bufs ! i)]"] Cons.prems(1) show ?case
    by simp
qed

lemma wait_unlocked_Some:
  "wait_unlocked i sleeps bufs = Some r \<Longrightarrow>
     \<not> is_locked (snd r ! i) \<and> length (snd r) = length bufs
     \<and> (\<forall>j < length bufs. \<not> is_locked (bufs ! j) \<longrightarrow> \<not> is_locked (snd r ! j))"
proof (induction sleeps arbitrary: bufs)
  case Nil
  then show ?case by (auto split: if_splits)
next
  case (Cons e sleeps)
  show ?case
  proof (cases "is_locked (bufs ! i)")
    case True
    with Cons.prems have w: "wait_unlocked i sleeps (apply_unlocks e bufs) = Some r"
      by simp
    from Cons.IH [OF w] show ?thesis
      by (simp add: apply_unlocks_length apply_unlocks_keeps_unlocked)
  next
    case False
    with Cons.prems show ?thesis by auto
  qed
qed

lemma stop_loop_Some:
  "stop_loop idxs sleeps bufs = Some r \<Longrightarrow>
     length (snd r) = length bufs
     \<and> (\<forall>j < length bufs. (j \<in> set idxs \<or> \<not> is_locked (bufs ! j)) \<longrightarrow> \<not> is_locked (snd r ! j))"
proof (induction idxs arbitrary: sleeps bufs)
  case Nil
  then show ?case by auto
next
  case (Cons i idxs)
  from Cons.prems obtain r1 where w: "wait_unlocked i sleeps bufs = Some r1"
    and l: "stop_loop idxs (fst r1) (snd r1) = Some r"
    by (auto split: option.splits)
  note W = wait_unlocked_Some [OF w]
  note L = Cons.IH [OF l]
  show ?case
  proof (intro conjI allI impI)
    show "length (snd r) = length bufs"
      using W L by simp
  next
    fix j
    assume j: "j < length bufs" and h: "j \<in> set (i # idxs) \<or> \<not> is_locked (bufs ! j)"
    have "j \<in> set idxs \<or> \<not> is_locked (snd r1 ! j)"
      using h W j by auto
    with L W j show "\<not> is_locked (snd r ! j)"
      by auto
  qed
qed

lemma run_calls_stopped:
  "stopped p \<Longrightarrow> stopped (snd (run_calls cs p)) \<and> (\<forall>u \<in> set (fst (run_calls cs p)). u = Inl pool_stopped)"
proof (induction cs p rule: run_calls.induct)
  case (1 p)
  then show ?case by simp
next
  case (2 slot ident n new_data cs p)
  have r: "reserve slot ident n new_data p = (Inl pool_stopped, p)"
    using "2.prems" by (simp add: reserve_def)
  with "2.IH" [OF refl] "2.prems" show ?case
    by (simp add: Let_def)
next
  case (3 slot n cs p)
  have r: "reserve_si slot n p = (Inl pool_stopped, p)"
    using "3.prems" by (simp add: reserve_si_def)
  with "3.IH" [OF refl] "3.prems" show ?case
    by (simp add: Let_def)
next
  case (4 slot cs p)
  then show ?case
    by (simp add: run_slot_stopped)
next
  case (5 i cs p)
  then show ?case
    by simp
qed

subsection \<open>Claims on the pool\<close>

text \<open>
  Claim C4. On \<^verbatim>\<open>run_slot(slot)\<close>, for every reserved buffer \<open>j\<close> of a pool (identifier
  other than \<open>invalid\<close>): if its expiration is at or before the slot (\<open>is_expired\<close>: the
  expiration is set and \<open>expiration \<le> slot\<close>, the tick \<open>expiration = slot\<close> included) and
  the buffer is not locked, the tick sets its identifier to \<open>invalid\<close> and clears its
  expiration; if it is expired and still locked, its expiration becomes
  \<open>slot + expire_timeout_slots\<close> and its identifier and buffer are kept; if it is not
  expired and its buffer is not free, identifier, expiration and buffer are untouched.
\<close>

theorem run_slot_expiration:
  assumes "pool_wf p" and "j < length (identifiers p)" and "identifiers p ! j \<noteq> invalid"
  shows "(is_expired (expirations p ! j) slot \<and> \<not> is_locked (buffers p ! j) \<longrightarrow>
            identifiers (run_slot slot p) ! j = invalid
          \<and> expirations (run_slot slot p) ! j = None)
       \<and> (is_expired (expirations p ! j) slot \<and> is_locked (buffers p ! j) \<longrightarrow>
            identifiers (run_slot slot p) ! j = identifiers p ! j
          \<and> expirations (run_slot slot p) ! j = Some (slot_add slot (expire_timeout_slots p))
          \<and> buffers (run_slot slot p) ! j = buffers p ! j)
       \<and> (\<not> is_expired (expirations p ! j) slot \<and> \<not> is_free (buffers p ! j) \<longrightarrow>
            identifiers (run_slot slot p) ! j = identifiers p ! j
          \<and> expirations (run_slot slot p) ! j = expirations p ! j
          \<and> buffers (run_slot slot p) ! j = buffers p ! j)
       \<and> (is_expired (expirations p ! j) slot
            \<longleftrightarrow> (\<exists>e. expirations p ! j = Some e \<and> (e = slot \<or> count_val e < count_val slot)))"
proof -
  have e: "pool_entry (run_slot slot p) j
             = run_slot_entry slot (expire_timeout_slots p) (pool_entry p j)"
    using assms(1,2) by (rule run_slot_entries)
  have a: "is_expired (expirations p ! j) slot \<and> \<not> is_locked (buffers p ! j) \<longrightarrow>
            identifiers (run_slot slot p) ! j = invalid
          \<and> expirations (run_slot slot p) ! j = None"
    using e assms(3) by (auto simp: pool_entry_def run_slot_entry_def Let_def)
  have b: "is_expired (expirations p ! j) slot \<and> is_locked (buffers p ! j) \<longrightarrow>
            identifiers (run_slot slot p) ! j = identifiers p ! j
          \<and> expirations (run_slot slot p) ! j = Some (slot_add slot (expire_timeout_slots p))
          \<and> buffers (run_slot slot p) ! j = buffers p ! j"
    using e assms(3) by (auto simp: pool_entry_def run_slot_entry_def Let_def)
  have c: "\<not> is_expired (expirations p ! j) slot \<and> \<not> is_free (buffers p ! j) \<longrightarrow>
            identifiers (run_slot slot p) ! j = identifiers p ! j
          \<and> expirations (run_slot slot p) ! j = expirations p ! j
          \<and> buffers (run_slot slot p) ! j = buffers p ! j"
    using e assms(3) by (auto simp: pool_entry_def run_slot_entry_def Let_def)
  have d: "is_expired (expirations p ! j) slot
            \<longleftrightarrow> (\<exists>e. expirations p ! j = Some e \<and> (e = slot \<or> count_val e < count_val slot))"
    by (simp add: is_expired_def slot_le_def slot_lt_def split: option.splits)
  from a b c d show ?thesis
    by blast
qed


lemma pool_example_wf: "pool_wf pool_example"
  by (simp add: pool_wf_def pool_example_def)

theorem run_slot_expiration_witness:
  "pool_wf pool_example
   \<and> identifiers pool_example ! 0 \<noteq> invalid
   \<and> is_expired (expirations pool_example ! 0) \<lparr>numerology = 1, count_val = 20\<rparr>
   \<and> \<not> is_locked (buffers pool_example ! 0)
   \<and> identifiers (run_slot \<lparr>numerology = 1, count_val = 20\<rparr> pool_example) ! 0 = invalid
   \<and> expirations (run_slot \<lparr>numerology = 1, count_val = 20\<rparr> pool_example) ! 0 = None
   \<and> identifiers pool_example ! 2 \<noteq> invalid
   \<and> is_expired (expirations pool_example ! 2) \<lparr>numerology = 1, count_val = 20\<rparr>
   \<and> is_locked (buffers pool_example ! 2)
   \<and> identifiers (run_slot \<lparr>numerology = 1, count_val = 20\<rparr> pool_example) ! 2 = tagged 0x4602 1 True
   \<and> expirations (run_slot \<lparr>numerology = 1, count_val = 20\<rparr> pool_example) ! 2 = Some \<lparr>numerology = 1, count_val = 30\<rparr>
   \<and> identifiers pool_example ! 3 \<noteq> invalid
   \<and> \<not> is_expired (expirations pool_example ! 3) \<lparr>numerology = 1, count_val = 20\<rparr>
   \<and> \<not> is_free (buffers pool_example ! 3)
   \<and> identifiers (run_slot \<lparr>numerology = 1, count_val = 20\<rparr> pool_example) ! 3 = tagged 0x4603 2 True
   \<and> expirations (run_slot \<lparr>numerology = 1, count_val = 20\<rparr> pool_example) ! 3 = Some \<lparr>numerology = 1, count_val = 21\<rparr>"
proof -
  have wf: "pool_wf pool_example"
    by (rule pool_example_wf)
  have l0: "0 < length (identifiers pool_example)" and l2: "2 < length (identifiers pool_example)"
    and l3: "3 < length (identifiers pool_example)"
    by (simp_all add: pool_example_def)
  have r0: "identifiers pool_example ! 0 \<noteq> invalid" and r2: "identifiers pool_example ! 2 \<noteq> invalid"
    and r3: "identifiers pool_example ! 3 \<noteq> invalid"
    by (simp_all add: pool_example_def)
  have h0: "is_expired (expirations pool_example ! 0) \<lparr>numerology = 1, count_val = 20\<rparr> \<and> \<not> is_locked (buffers pool_example ! 0)"
    by (simp add: pool_example_def is_expired_def slot_le_def is_locked_def)
  have h2: "is_expired (expirations pool_example ! 2) \<lparr>numerology = 1, count_val = 20\<rparr> \<and> is_locked (buffers pool_example ! 2)"
    by (simp add: pool_example_def is_expired_def slot_le_def is_locked_def)
  have h3: "\<not> is_expired (expirations pool_example ! 3) \<lparr>numerology = 1, count_val = 20\<rparr> \<and> \<not> is_free (buffers pool_example ! 3)"
    by (simp add: pool_example_def is_expired_def slot_le_def slot_lt_def is_free_def)
  from run_slot_expiration [OF wf l0 r0, of "\<lparr>numerology = 1, count_val = 20\<rparr>"] h0
  have c0: "identifiers (run_slot \<lparr>numerology = 1, count_val = 20\<rparr> pool_example) ! 0 = invalid
            \<and> expirations (run_slot \<lparr>numerology = 1, count_val = 20\<rparr> pool_example) ! 0 = None"
    by blast
  from run_slot_expiration [OF wf l2 r2, of "\<lparr>numerology = 1, count_val = 20\<rparr>"] h2
  have "identifiers (run_slot \<lparr>numerology = 1, count_val = 20\<rparr> pool_example) ! 2 = identifiers pool_example ! 2
            \<and> expirations (run_slot \<lparr>numerology = 1, count_val = 20\<rparr> pool_example) ! 2
                = Some (slot_add \<lparr>numerology = 1, count_val = 20\<rparr> (expire_timeout_slots pool_example))"
    by blast
  then have c2: "identifiers (run_slot \<lparr>numerology = 1, count_val = 20\<rparr> pool_example) ! 2 = tagged 0x4602 1 True
            \<and> expirations (run_slot \<lparr>numerology = 1, count_val = 20\<rparr> pool_example) ! 2 = Some \<lparr>numerology = 1, count_val = 30\<rparr>"
    by (simp add: pool_example_def slot_add_def)
  from run_slot_expiration [OF wf l3 r3, of "\<lparr>numerology = 1, count_val = 20\<rparr>"] h3
  have "identifiers (run_slot \<lparr>numerology = 1, count_val = 20\<rparr> pool_example) ! 3 = identifiers pool_example ! 3
            \<and> expirations (run_slot \<lparr>numerology = 1, count_val = 20\<rparr> pool_example) ! 3 = expirations pool_example ! 3"
    by blast
  then have c3: "identifiers (run_slot \<lparr>numerology = 1, count_val = 20\<rparr> pool_example) ! 3 = tagged 0x4603 2 True
            \<and> expirations (run_slot \<lparr>numerology = 1, count_val = 20\<rparr> pool_example) ! 3 = Some \<lparr>numerology = 1, count_val = 21\<rparr>"
    by (simp add: pool_example_def)
  from wf r0 r2 r3 h0 h2 h3 c0 c2 c3 show ?thesis
    by blast
qed

text \<open>
  Claim C6. The reservation with an identifier returns an invalid buffer from a stopped
  pool. Otherwise its target is the first buffer whose identifier equals the identifier
  asked for, and when there is none, the first buffer with the \<open>invalid\<close> identifier if
  the transmission is new data (\<open>is_reserve_target\<close>); with no buffer of that identifier
  and no new data it fails with "identifier for retransmissions not found", and with no
  buffer of that identifier, new data and no \<open>invalid\<close> buffer it fails for want of
  buffers. At its target a retransmission fails unless the number of codeblocks equals the
  number the buffer holds from its previous reservation, and a locked target fails with
  "HARQ already in use"; each of these failures leaves the pool as it was. A valid unique
  buffer is only ever returned for the target, unlocked, and for a retransmission with
  the same number of codeblocks.
\<close>

theorem reserve_search_order:
  "(stopped p \<longrightarrow> reserve slot ident n nd p = (Inl pool_stopped, p))
   \<and> (\<not> stopped p \<and> ident \<notin> set (identifiers p) \<and> \<not> nd \<longrightarrow>
        reserve slot ident n nd p = (Inl retx_identifier_not_found, p))
   \<and> (\<not> stopped p \<and> ident \<notin> set (identifiers p) \<and> nd \<and> invalid \<notin> set (identifiers p) \<longrightarrow>
        reserve slot ident n nd p = (Inl insufficient_buffers, p))
   \<and> (\<forall>i. \<not> stopped p \<and> is_reserve_target (identifiers p) ident nd i \<longrightarrow>
        (if \<not> nd \<and> n \<noteq> get_nof_codeblocks (buffers p ! i)
         then reserve slot ident n nd p = (Inl codeblocks_do_not_match, p)
         else if is_locked (buffers p ! i)
         then reserve slot ident n nd p = (Inl harq_already_in_use, p)
         else fst (reserve slot ident n nd p) = Inr i
              \<or> fst (reserve slot ident n nd p) = Inl insufficient_cbs))
   \<and> (\<forall>i. fst (reserve slot ident n nd p) = Inr i \<longrightarrow>
        \<not> stopped p \<and> is_reserve_target (identifiers p) ident nd i
        \<and> (\<not> nd \<longrightarrow> n = get_nof_codeblocks (buffers p ! i))
        \<and> \<not> is_locked (buffers p ! i))"
proof -
  have tgt: "is_reserve_target (identifiers p) ident nd i \<Longrightarrow>
      i = (if ident \<in> set (identifiers p) then std_find (identifiers p) ident
           else std_find (identifiers p) invalid)
      \<and> (ident \<in> set (identifiers p) \<or> (nd \<and> invalid \<in> set (identifiers p)))" for i
  proof -
    assume t: "is_reserve_target (identifiers p) ident nd i"
    show ?thesis
    proof (cases "ident \<in> set (identifiers p)")
      case True
      from True t have i: "i < length (identifiers p)" "identifiers p ! i = ident"
        "\<forall>j<i. identifiers p ! j \<noteq> ident"
        by (simp_all add: is_reserve_target_def)
      from std_find_target [OF True] i have "i = std_find (identifiers p) ident"
        by (metis linorder_neqE_nat)
      with True show ?thesis by simp
    next
      case False
      from False t have i: "i < length (identifiers p)" "identifiers p ! i = invalid"
        "\<forall>j<i. identifiers p ! j \<noteq> invalid" "nd"
        by (simp_all add: is_reserve_target_def)
      from i have inv: "invalid \<in> set (identifiers p)"
        by (metis nth_mem)
      from std_find_target [OF inv] i have "i = std_find (identifiers p) invalid"
        by (metis linorder_neqE_nat)
      with False inv i show ?thesis by simp
    qed
  qed
  have tgt': "ident \<in> set (identifiers p) \<or> (nd \<and> invalid \<in> set (identifiers p)) \<Longrightarrow>
      is_reserve_target (identifiers p) ident nd
        (if ident \<in> set (identifiers p) then std_find (identifiers p) ident
         else std_find (identifiers p) invalid)"
    using std_find_target [of ident "identifiers p"] std_find_target [of invalid "identifiers p"]
    by (auto simp: is_reserve_target_def)
  have 1: "stopped p \<longrightarrow> reserve slot ident n nd p = (Inl pool_stopped, p)"
    by (simp add: reserve_cases)
  have 2: "\<not> stopped p \<and> ident \<notin> set (identifiers p) \<and> \<not> nd \<longrightarrow>
        reserve slot ident n nd p = (Inl retx_identifier_not_found, p)"
    by (simp add: reserve_cases)
  have 3: "\<not> stopped p \<and> ident \<notin> set (identifiers p) \<and> nd \<and> invalid \<notin> set (identifiers p) \<longrightarrow>
        reserve slot ident n nd p = (Inl insufficient_buffers, p)"
    by (simp add: reserve_cases)
  have 4: "\<not> stopped p \<and> is_reserve_target (identifiers p) ident nd i \<longrightarrow>
        (if \<not> nd \<and> n \<noteq> get_nof_codeblocks (buffers p ! i)
         then reserve slot ident n nd p = (Inl codeblocks_do_not_match, p)
         else if is_locked (buffers p ! i)
         then reserve slot ident n nd p = (Inl harq_already_in_use, p)
         else fst (reserve slot ident n nd p) = Inr i
              \<or> fst (reserve slot ident n nd p) = Inl insufficient_cbs)" for i
  proof (intro impI, elim conjE)
    assume ns: "\<not> stopped p" and t: "is_reserve_target (identifiers p) ident nd i"
    from tgt [OF t] have i: "i = (if ident \<in> set (identifiers p) then std_find (identifiers p) ident
           else std_find (identifiers p) invalid)"
      and ex: "ident \<in> set (identifiers p) \<or> (nd \<and> invalid \<in> set (identifiers p))"
      by simp_all
    show "(if \<not> nd \<and> n \<noteq> get_nof_codeblocks (buffers p ! i)
         then reserve slot ident n nd p = (Inl codeblocks_do_not_match, p)
         else if is_locked (buffers p ! i)
         then reserve slot ident n nd p = (Inl harq_already_in_use, p)
         else fst (reserve slot ident n nd p) = Inr i
              \<or> fst (reserve slot ident n nd p) = Inl insufficient_cbs)"
      unfolding reserve_at_target [OF ns ex i] by simp
  qed
  have 5: "fst (reserve slot ident n nd p) = Inr i \<longrightarrow>
        \<not> stopped p \<and> is_reserve_target (identifiers p) ident nd i
        \<and> (\<not> nd \<longrightarrow> n = get_nof_codeblocks (buffers p ! i))
        \<and> \<not> is_locked (buffers p ! i)" for i
  proof (intro impI)
    assume r: "fst (reserve slot ident n nd p) = Inr i"
    have ns: "\<not> stopped p"
      using r 1 by auto
    have ex: "ident \<in> set (identifiers p) \<or> (nd \<and> invalid \<in> set (identifiers p))"
    proof (rule ccontr)
      assume "\<not> (ident \<in> set (identifiers p) \<or> (nd \<and> invalid \<in> set (identifiers p)))"
      then have "reserve slot ident n nd p = (Inl retx_identifier_not_found, p)
                 \<or> reserve slot ident n nd p = (Inl insufficient_buffers, p)"
        using 2 3 ns by blast
      with r show False
        by auto
    qed
    define k where "k = (if ident \<in> set (identifiers p) then std_find (identifiers p) ident
           else std_find (identifiers p) invalid)"
    note at = reserve_at_target [OF ns ex k_def, of slot n]
    have ik: "i = k"
      using r unfolding at by (simp split: if_splits)
    have "is_reserve_target (identifiers p) ident nd k"
      unfolding k_def using ex by (rule tgt')
    moreover have "(\<not> nd \<longrightarrow> n = get_nof_codeblocks (buffers p ! k)) \<and> \<not> is_locked (buffers p ! k)"
      using r unfolding at by (auto split: if_splits)
    ultimately show "\<not> stopped p \<and> is_reserve_target (identifiers p) ident nd i
        \<and> (\<not> nd \<longrightarrow> n = get_nof_codeblocks (buffers p ! i))
        \<and> \<not> is_locked (buffers p ! i)"
      using ns ik by simp
  qed
  from 1 2 3 4 5 show ?thesis
    by blast
qed

theorem reserve_search_order_witness:
  "\<not> stopped pool_example
   \<and> tagged 0x4609 0 True \<notin> set (identifiers pool_example)
   \<and> reserve \<lparr>numerology = 1, count_val = 20\<rparr> (tagged 0x4609 0 True) 1 False pool_example
       = (Inl retx_identifier_not_found, pool_example)
   \<and> is_reserve_target (identifiers pool_example) (tagged 0x4609 0 True) True 1
   \<and> fst (reserve \<lparr>numerology = 1, count_val = 20\<rparr> (tagged 0x4609 0 True) 2 True pool_example) = Inr 1
   \<and> is_reserve_target (identifiers pool_example) (tagged 0x4602 1 True) False 2
   \<and> is_locked (buffers pool_example ! 2)
   \<and> reserve \<lparr>numerology = 1, count_val = 20\<rparr> (tagged 0x4602 1 True) 1 False pool_example
       = (Inl harq_already_in_use, pool_example)
   \<and> is_reserve_target (identifiers pool_example) (tagged 0x4601 0 True) False 0
   \<and> reserve \<lparr>numerology = 1, count_val = 20\<rparr> (tagged 0x4601 0 True) 3 False pool_example
       = (Inl codeblocks_do_not_match, pool_example)"
proof -
  have ns: "\<not> stopped pool_example"
    by (simp add: pool_example_def)
  have nin: "tagged 0x4609 0 True \<notin> set (identifiers pool_example)"
    by (simp add: pool_example_def)
  have t1: "is_reserve_target (identifiers pool_example) (tagged 0x4609 0 True) True 1"
    by (simp add: is_reserve_target_def pool_example_def)
  have t2: "is_reserve_target (identifiers pool_example) (tagged 0x4602 1 True) False 2"
    by (simp add: is_reserve_target_def pool_example_def less_Suc_eq numeral_2_eq_2)
  have t0: "is_reserve_target (identifiers pool_example) (tagged 0x4601 0 True) False 0"
    by (simp add: is_reserve_target_def pool_example_def)
  have lk: "is_locked (buffers pool_example ! 2)"
    by (simp add: pool_example_def is_locked_def)
  have nl1: "\<not> is_locked (buffers pool_example ! 1)"
    by (simp add: pool_example_def is_locked_def)
  have cb0: "3 \<noteq> get_nof_codeblocks (buffers pool_example ! 0)"
    and cb2: "1 = get_nof_codeblocks (buffers pool_example ! 2)"
    by (simp_all add: pool_example_def get_nof_codeblocks_def)
  have ok: "fst (reserve \<lparr>numerology = 1, count_val = 20\<rparr> (tagged 0x4609 0 True) 2 True pool_example) \<noteq> Inl insufficient_cbs"
    by (simp add: reserve_cases pool_example_def buffer_reserve_def std_find_def is_locked_def)
  note A = reserve_search_order [of pool_example "\<lparr>numerology = 1, count_val = 20\<rparr>" "tagged 0x4609 0 True" 1 False]
  note B = reserve_search_order [of pool_example "\<lparr>numerology = 1, count_val = 20\<rparr>" "tagged 0x4609 0 True" 2 True,
      THEN conjunct2, THEN conjunct2, THEN conjunct2, THEN conjunct1, rule_format, of 1]
  note C = reserve_search_order [of pool_example "\<lparr>numerology = 1, count_val = 20\<rparr>" "tagged 0x4602 1 True" 1 False,
      THEN conjunct2, THEN conjunct2, THEN conjunct2, THEN conjunct1, rule_format, of 2]
  note D = reserve_search_order [of pool_example "\<lparr>numerology = 1, count_val = 20\<rparr>" "tagged 0x4601 0 True" 3 False,
      THEN conjunct2, THEN conjunct2, THEN conjunct2, THEN conjunct1, rule_format, of 0]
  have a: "reserve \<lparr>numerology = 1, count_val = 20\<rparr> (tagged 0x4609 0 True) 1 False pool_example
            = (Inl retx_identifier_not_found, pool_example)"
    using A [THEN conjunct2, THEN conjunct1] ns nin by simp
  have b: "fst (reserve \<lparr>numerology = 1, count_val = 20\<rparr> (tagged 0x4609 0 True) 2 True pool_example) = Inr 1"
    using B [OF conjI [OF ns t1]] nl1 ok by simp
  have c: "reserve \<lparr>numerology = 1, count_val = 20\<rparr> (tagged 0x4602 1 True) 1 False pool_example
            = (Inl harq_already_in_use, pool_example)"
    using C [OF conjI [OF ns t2]] lk cb2 by simp
  have d: "reserve \<lparr>numerology = 1, count_val = 20\<rparr> (tagged 0x4601 0 True) 3 False pool_example
            = (Inl codeblocks_do_not_match, pool_example)"
    using D [OF conjI [OF ns t0]] cb0 by simp
  from ns nin a t1 b t2 lk c t0 d show ?thesis
    by simp
qed

text \<open>
  Claim C10. A reservation (with or without identifier) that returns an invalid unique
  buffer leaves the identifiers and the expirations of the pool exactly as they were; a
  reservation that returns a valid unique buffer for the buffer \<open>i\<close> has passed the
  codeblock reservation of that buffer, and has written the identifier and the expiration
  \<open>slot + expire_timeout_slots\<close> of that buffer and of no other.
\<close>

theorem failed_reserve_keeps_arrays:
  "(\<not> is_valid (fst (reserve slot ident n nd p)) \<longrightarrow>
       identifiers (snd (reserve slot ident n nd p)) = identifiers p
     \<and> expirations (snd (reserve slot ident n nd p)) = expirations p)
   \<and> (\<not> is_valid (fst (reserve_si slot n p)) \<longrightarrow>
       identifiers (snd (reserve_si slot n p)) = identifiers p
     \<and> expirations (snd (reserve_si slot n p)) = expirations p)
   \<and> (\<forall>i. fst (reserve slot ident n nd p) = Inr i \<longrightarrow>
         fst (buffer_reserve n (buffers p ! i, codeblock_pool p)) = successful
       \<and> identifiers (snd (reserve slot ident n nd p)) = (identifiers p)[i := ident]
       \<and> expirations (snd (reserve slot ident n nd p))
           = (expirations p)[i := Some (slot_add slot (expire_timeout_slots p))])
   \<and> (\<forall>i. fst (reserve_si slot n p) = Inr i \<longrightarrow>
         fst (buffer_reserve n (buffers p ! i, codeblock_pool p)) = successful
       \<and> identifiers (snd (reserve_si slot n p)) = (identifiers p)[i := unknown]
       \<and> expirations (snd (reserve_si slot n p))
           = (expirations p)[i := Some (slot_add slot (expire_timeout_slots p))])"
proof -
  have a: "\<not> is_valid (fst (reserve slot ident n nd p)) \<longrightarrow>
       identifiers (snd (reserve slot ident n nd p)) = identifiers p
     \<and> expirations (snd (reserve slot ident n nd p)) = expirations p"
    by (simp add: reserve_cases Let_def is_valid_def)
  have b: "\<not> is_valid (fst (reserve_si slot n p)) \<longrightarrow>
       identifiers (snd (reserve_si slot n p)) = identifiers p
     \<and> expirations (snd (reserve_si slot n p)) = expirations p"
    by (simp add: reserve_si_cases Let_def is_valid_def)
  have c: "\<forall>i. fst (reserve slot ident n nd p) = Inr i \<longrightarrow>
         fst (buffer_reserve n (buffers p ! i, codeblock_pool p)) = successful
       \<and> identifiers (snd (reserve slot ident n nd p)) = (identifiers p)[i := ident]
       \<and> expirations (snd (reserve slot ident n nd p))
           = (expirations p)[i := Some (slot_add slot (expire_timeout_slots p))]"
    by (simp add: reserve_cases Let_def)
  have d: "\<forall>i. fst (reserve_si slot n p) = Inr i \<longrightarrow>
         fst (buffer_reserve n (buffers p ! i, codeblock_pool p)) = successful
       \<and> identifiers (snd (reserve_si slot n p)) = (identifiers p)[i := unknown]
       \<and> expirations (snd (reserve_si slot n p))
           = (expirations p)[i := Some (slot_add slot (expire_timeout_slots p))]"
    by (simp add: reserve_si_cases Let_def)
  from a b c d show ?thesis
    by blast
qed


theorem failed_reserve_keeps_arrays_witness:
  "\<not> is_valid (fst (reserve \<lparr>numerology = 1, count_val = 20\<rparr> (tagged 0x4601 0 True) 5 True pool_example))
   \<and> fst (reserve \<lparr>numerology = 1, count_val = 20\<rparr> (tagged 0x4601 0 True) 5 True pool_example) = Inl insufficient_cbs
   \<and> identifiers (snd (reserve \<lparr>numerology = 1, count_val = 20\<rparr> (tagged 0x4601 0 True) 5 True pool_example))
       = identifiers pool_example
   \<and> expirations (snd (reserve \<lparr>numerology = 1, count_val = 20\<rparr> (tagged 0x4601 0 True) 5 True pool_example))
       = expirations pool_example
   \<and> \<not> is_valid (fst (reserve_si \<lparr>numerology = 1, count_val = 20\<rparr> 3 pool_example))
   \<and> identifiers (snd (reserve_si \<lparr>numerology = 1, count_val = 20\<rparr> 3 pool_example)) = identifiers pool_example
   \<and> expirations (snd (reserve_si \<lparr>numerology = 1, count_val = 20\<rparr> 3 pool_example)) = expirations pool_example
   \<and> fst (reserve \<lparr>numerology = 1, count_val = 20\<rparr> (tagged 0x4609 0 True) 2 True pool_example) = Inr 1
   \<and> identifiers (snd (reserve \<lparr>numerology = 1, count_val = 20\<rparr> (tagged 0x4609 0 True) 2 True pool_example))
       = [tagged 0x4601 0 True, tagged 0x4609 0 True, tagged 0x4602 1 True, tagged 0x4603 2 True]
   \<and> expirations (snd (reserve \<lparr>numerology = 1, count_val = 20\<rparr> (tagged 0x4609 0 True) 2 True pool_example)) ! 1
       = Some \<lparr>numerology = 1, count_val = 30\<rparr>"
proof -
  have f1: "fst (reserve \<lparr>numerology = 1, count_val = 20\<rparr> (tagged 0x4601 0 True) 5 True pool_example) = Inl insufficient_cbs"
    by (simp add: reserve_cases pool_example_def buffer_reserve_def std_find_def is_locked_def)
  have f2: "fst (reserve_si \<lparr>numerology = 1, count_val = 20\<rparr> 3 pool_example) = Inl insufficient_cbs"
    by (simp add: reserve_si_cases pool_example_def buffer_reserve_def std_find_def is_locked_def)
  have f3: "fst (reserve \<lparr>numerology = 1, count_val = 20\<rparr> (tagged 0x4609 0 True) 2 True pool_example) = Inr 1"
    by (simp add: reserve_cases pool_example_def buffer_reserve_def std_find_def is_locked_def)
  have v1: "\<not> is_valid (fst (reserve \<lparr>numerology = 1, count_val = 20\<rparr> (tagged 0x4601 0 True) 5 True pool_example))"
    using f1 by (simp add: is_valid_def)
  have v2: "\<not> is_valid (fst (reserve_si \<lparr>numerology = 1, count_val = 20\<rparr> 3 pool_example))"
    using f2 by (simp add: is_valid_def)
  note A = failed_reserve_keeps_arrays [of "\<lparr>numerology = 1, count_val = 20\<rparr>" "tagged 0x4601 0 True" 5 True pool_example]
  note A2 = failed_reserve_keeps_arrays [of "\<lparr>numerology = 1, count_val = 20\<rparr>" "tagged 0x4601 0 True" 3 True pool_example]
  note B = failed_reserve_keeps_arrays [of "\<lparr>numerology = 1, count_val = 20\<rparr>" "tagged 0x4609 0 True" 2 True pool_example]
  have a: "identifiers (snd (reserve \<lparr>numerology = 1, count_val = 20\<rparr> (tagged 0x4601 0 True) 5 True pool_example))
       = identifiers pool_example
   \<and> expirations (snd (reserve \<lparr>numerology = 1, count_val = 20\<rparr> (tagged 0x4601 0 True) 5 True pool_example))
       = expirations pool_example"
    using A v1 by blast
  have b: "identifiers (snd (reserve_si \<lparr>numerology = 1, count_val = 20\<rparr> 3 pool_example)) = identifiers pool_example
   \<and> expirations (snd (reserve_si \<lparr>numerology = 1, count_val = 20\<rparr> 3 pool_example)) = expirations pool_example"
    using A2 v2 by blast
  have "identifiers (snd (reserve \<lparr>numerology = 1, count_val = 20\<rparr> (tagged 0x4609 0 True) 2 True pool_example))
          = (identifiers pool_example)[1 := tagged 0x4609 0 True]
        \<and> expirations (snd (reserve \<lparr>numerology = 1, count_val = 20\<rparr> (tagged 0x4609 0 True) 2 True pool_example))
          = (expirations pool_example)[1 := Some (slot_add \<lparr>numerology = 1, count_val = 20\<rparr> (expire_timeout_slots pool_example))]"
    using B f3 by blast
  then have c: "identifiers (snd (reserve \<lparr>numerology = 1, count_val = 20\<rparr> (tagged 0x4609 0 True) 2 True pool_example))
       = [tagged 0x4601 0 True, tagged 0x4609 0 True, tagged 0x4602 1 True, tagged 0x4603 2 True]
   \<and> expirations (snd (reserve \<lparr>numerology = 1, count_val = 20\<rparr> (tagged 0x4609 0 True) 2 True pool_example)) ! 1
       = Some \<lparr>numerology = 1, count_val = 30\<rparr>"
    by (simp add: pool_example_def slot_add_def)
  from v1 f1 a v2 b f3 c show ?thesis
    by blast
qed

lemma reserve_example_fresh:
  "reserve \<lparr>numerology = 1, count_val = 20\<rparr> (tagged 0x4601 0 True) 1 True pool_fresh = (Inr 0, pool_reserved)"
  by (simp add: reserve_cases pool_fresh_def pool_reserved_def
        buffer_reserve_def buffer_lock_def std_find_def is_locked_def slot_add_def)

lemma stop_example_unlocked: "stop [[0]] pool_reserved = Some ([], pool_after_stop)"
  by (simp add: pool_reserved_def pool_after_stop_def is_locked_def
        stop_def apply_unlocks_def buffer_unlock_def)

lemma stop_example_never_unlocked: "stop [] pool_reserved = None"
  by (simp add: pool_reserved_def is_locked_def stop_def)

text \<open>
  Claim C2 does not hold as stated: \<^verbatim>\<open>stop\<close> writes no identifier. A buffer is reserved
  from a fresh pool, the pool is stopped while the buffer is locked, the holder drops its
  unique buffer during the first sleep of \<^verbatim>\<open>stop\<close>; the call returns and the buffer still
  carries its identifier.
\<close>

theorem stop_identifiers_counterexample:
  "reserve \<lparr>numerology = 1, count_val = 20\<rparr> (tagged 0x4601 0 True) 1 True pool_fresh = (Inr 0, pool_reserved)
   \<and> stop [[0]] pool_reserved = Some ([], pool_after_stop)
   \<and> identifiers pool_after_stop = [tagged 0x4601 0 True]
   \<and> tagged 0x4601 0 True \<noteq> invalid"
  using reserve_example_fresh stop_example_unlocked by (simp add: pool_after_stop_def)

text \<open>
  Claim C2, amended. When \<^verbatim>\<open>stop\<close> returns, the pool is stopped, its identifiers and
  expirations are those it had before the call, no buffer is locked (the call has waited
  for each lock to be dropped), and from then on every reservation, with or without
  identifier, returns an invalid unique buffer and leaves the pool as it is, whatever
  calls come in between.
\<close>

theorem stop_postcondition:
  assumes "stop sleeps p = Some (sleeps', p')"
  shows "stopped p'
       \<and> identifiers p' = identifiers p \<and> expirations p' = expirations p
       \<and> (\<forall>j < length (buffers p'). \<not> is_locked (buffers p' ! j))
       \<and> reserve slot ident n nd p' = (Inl pool_stopped, p')
       \<and> reserve_si slot n p' = (Inl pool_stopped, p')
       \<and> (\<forall>u \<in> set (fst (run_calls cs p')). u = Inl pool_stopped \<and> \<not> is_valid u)"
proof -
  from assms obtain r where l: "stop_loop [0..<length (buffers p)] sleeps (buffers p) = Some r"
    and p': "p' = p\<lparr>stopped := True, buffers := snd r\<rparr>"
    by (auto simp: stop_def Let_def split: option.splits)
  note L = stop_loop_Some [OF l]
  have st: "stopped p'"
    by (simp add: p')
  have unl: "\<forall>j < length (buffers p'). \<not> is_locked (buffers p' ! j)"
    using L by (simp add: p')
  have r1: "reserve slot ident n nd p' = (Inl pool_stopped, p')"
    using st by (simp add: reserve_def)
  have r2: "reserve_si slot n p' = (Inl pool_stopped, p')"
    using st by (simp add: reserve_si_def)
  have r3: "\<forall>u \<in> set (fst (run_calls cs p')). u = Inl pool_stopped \<and> \<not> is_valid u"
    using run_calls_stopped [OF st, of cs] by (auto simp: is_valid_def)
  from st unl r1 r2 r3 show ?thesis
    by (simp add: p')
qed

theorem stop_postcondition_witness:
  "stop [[0]] pool_reserved = Some ([], pool_after_stop)
   \<and> is_locked (buffers pool_reserved ! 0)
   \<and> stopped pool_after_stop
   \<and> identifiers pool_after_stop = identifiers pool_reserved
   \<and> \<not> is_locked (buffers pool_after_stop ! 0)
   \<and> reserve \<lparr>numerology = 1, count_val = 20\<rparr> (tagged 0x4601 0 True) 1 False pool_after_stop = (Inl pool_stopped, pool_after_stop)
   \<and> reserve_si \<lparr>numerology = 1, count_val = 20\<rparr> 1 pool_after_stop = (Inl pool_stopped, pool_after_stop)
   \<and> fst (run_calls [call_run_slot \<lparr>numerology = 1, count_val = 20\<rparr>, call_reserve \<lparr>numerology = 1, count_val = 20\<rparr> (tagged 0x4602 0 True) 1 True,
                      call_reserve_si \<lparr>numerology = 1, count_val = 20\<rparr> 1] pool_after_stop)
       = [Inl pool_stopped, Inl pool_stopped]"
proof -
  have s: "stop [[0]] pool_reserved = Some ([], pool_after_stop)"
    by (rule stop_example_unlocked)
  have lk: "is_locked (buffers pool_reserved ! 0)"
    by (simp add: pool_reserved_def is_locked_def)
  have len: "0 < length (buffers pool_after_stop)"
    by (simp add: pool_after_stop_def)
  note P = stop_postcondition [OF s, of "\<lparr>numerology = 1, count_val = 20\<rparr>" "tagged 0x4601 0 True" 1 False
      "[call_run_slot \<lparr>numerology = 1, count_val = 20\<rparr>, call_reserve \<lparr>numerology = 1, count_val = 20\<rparr> (tagged 0x4602 0 True) 1 True, call_reserve_si \<lparr>numerology = 1, count_val = 20\<rparr> 1]"]
  have two: "length (fst (run_calls [call_run_slot \<lparr>numerology = 1, count_val = 20\<rparr>, call_reserve \<lparr>numerology = 1, count_val = 20\<rparr> (tagged 0x4602 0 True) 1 True,
                      call_reserve_si \<lparr>numerology = 1, count_val = 20\<rparr> 1] pool_after_stop)) = 2"
    by (simp add: Let_def)
  have all: "\<forall>u \<in> set (fst (run_calls [call_run_slot \<lparr>numerology = 1, count_val = 20\<rparr>, call_reserve \<lparr>numerology = 1, count_val = 20\<rparr> (tagged 0x4602 0 True) 1 True,
                      call_reserve_si \<lparr>numerology = 1, count_val = 20\<rparr> 1] pool_after_stop)). u = Inl pool_stopped"
    using P by blast
  have calls: "fst (run_calls [call_run_slot \<lparr>numerology = 1, count_val = 20\<rparr>, call_reserve \<lparr>numerology = 1, count_val = 20\<rparr> (tagged 0x4602 0 True) 1 True,
                      call_reserve_si \<lparr>numerology = 1, count_val = 20\<rparr> 1] pool_after_stop) = [Inl pool_stopped, Inl pool_stopped]"
    using two all by (simp add: Let_def)
  from s lk P len calls show ?thesis
    by blast
qed

section \<open>Properties of the RA scheduler\<close>

subsection \<open>The preambles of an occasion\<close>

lemma handle_preamble_cases:
  "handle_preamble env sl rnti q (tcs, m, lg) =
     (if preamble_accepted env m q
      then (tcs @ [tc_rnti q],
            m[msg3_index env (tc_rnti q) := (m ! msg3_index env (tc_rnti q))\<lparr>preamble := q\<rparr>],
            lg @ [info_new_prach sl (preamble_id q) rnti (tc_rnti q)])
      else (tcs, m, lg @ [info_new_prach sl (preamble_id q) rnti (tc_rnti q),
                          warning_prach_ignored (tc_rnti q)]))"
  by (simp add: handle_preamble_def preamble_accepted_def Let_def)

lemma harq_store_preamble:
  "harq (m[k := (m ! k)\<lparr>preamble := q\<rparr>] ! k') = harq (m ! k')"
  by (cases "k < length m"; cases "k' = k") (simp_all add: list_update_beyond)

lemma preamble_accepted_store:
  "preamble_accepted env (m[k := (m ! k)\<lparr>preamble := q\<rparr>]) q' = preamble_accepted env m q'"
  by (simp add: preamble_accepted_def harq_store_preamble)

lemma handle_preambles_snoc:
  "handle_preambles env sl rnti (qs @ [q]) st
     = handle_preamble env sl rnti q (handle_preambles env sl rnti qs st)"
  by (simp add: handle_preambles_def)

lemma handle_preambles_result:
  "fst (handle_preambles env sl rnti qs (tcs, m, lg))
       = tcs @ map tc_rnti (filter (preamble_accepted env m) qs)
   \<and> length (fst (snd (handle_preambles env sl rnti qs (tcs, m, lg)))) = length m
   \<and> (\<forall>k. harq (fst (snd (handle_preambles env sl rnti qs (tcs, m, lg))) ! k) = harq (m ! k))
   \<and> (\<forall>k < length m. fst (snd (handle_preambles env sl rnti qs (tcs, m, lg))) ! k
        = (if filter (\<lambda>q. msg3_index env (tc_rnti q) = k \<and> preamble_accepted env m q) qs = []
           then m ! k
           else (m ! k)\<lparr>preamble := last (filter (\<lambda>q. msg3_index env (tc_rnti q) = k
                                                      \<and> preamble_accepted env m q) qs)\<rparr>))"
proof (induction qs rule: rev_induct)
  case Nil
  show ?case
    by (simp add: handle_preambles_def)
next
  case (snoc q qs)
  obtain tcs1 m1 lg1 where st: "handle_preambles env sl rnti qs (tcs, m, lg) = (tcs1, m1, lg1)"
    by (cases "handle_preambles env sl rnti qs (tcs, m, lg)") auto
  from snoc.IH st have t1: "tcs1 = tcs @ map tc_rnti (filter (preamble_accepted env m) qs)"
    and l1: "length m1 = length m"
    and h1: "\<And>k. harq (m1 ! k) = harq (m ! k)"
    and c1: "\<And>k. k < length m \<Longrightarrow> m1 ! k
        = (if filter (\<lambda>q. msg3_index env (tc_rnti q) = k \<and> preamble_accepted env m q) qs = []
           then m ! k
           else (m ! k)\<lparr>preamble := last (filter (\<lambda>q. msg3_index env (tc_rnti q) = k
                                                      \<and> preamble_accepted env m q) qs)\<rparr>)"
    by simp_all
  have acc: "preamble_accepted env m1 q = preamble_accepted env m q"
    by (simp add: preamble_accepted_def h1)
  let ?i = "msg3_index env (tc_rnti q)"
  show ?case
  proof (cases "preamble_accepted env m q")
    case False
    then have r: "handle_preambles env sl rnti (qs @ [q]) (tcs, m, lg)
        = (tcs1, m1, lg1 @ [info_new_prach sl (preamble_id q) rnti (tc_rnti q),
                            warning_prach_ignored (tc_rnti q)])"
      by (simp add: handle_preambles_snoc st handle_preamble_cases acc)
    show ?thesis
      unfolding r using False t1 l1 h1 c1 by simp
  next
    case True
    then have r: "handle_preambles env sl rnti (qs @ [q]) (tcs, m, lg)
        = (tcs1 @ [tc_rnti q], m1[?i := (m1 ! ?i)\<lparr>preamble := q\<rparr>],
           lg1 @ [info_new_prach sl (preamble_id q) rnti (tc_rnti q)])"
      by (simp add: handle_preambles_snoc st handle_preamble_cases acc)
    have a: "tcs1 @ [tc_rnti q] = tcs @ map tc_rnti (filter (preamble_accepted env m) (qs @ [q]))"
      using True t1 by simp
    have b: "\<And>k. harq (m1[?i := (m1 ! ?i)\<lparr>preamble := q\<rparr>] ! k) = harq (m ! k)"
      by (simp add: harq_store_preamble h1)
    have c: "m1[?i := (m1 ! ?i)\<lparr>preamble := q\<rparr>] ! k
        = (if filter (\<lambda>q. msg3_index env (tc_rnti q) = k \<and> preamble_accepted env m q) (qs @ [q]) = []
           then m ! k
           else (m ! k)\<lparr>preamble := last (filter (\<lambda>q. msg3_index env (tc_rnti q) = k
                                                      \<and> preamble_accepted env m q) (qs @ [q]))\<rparr>)"
      if k: "k < length m" for k
    proof (cases "k = ?i")
      case True
      have "m1[?i := (m1 ! ?i)\<lparr>preamble := q\<rparr>] ! k = (m1 ! k)\<lparr>preamble := q\<rparr>"
        using True k l1 by simp
      also have "\<dots> = (m ! k)\<lparr>preamble := q\<rparr>"
        using c1 [OF k] by simp
      finally show ?thesis
        using True \<open>preamble_accepted env m q\<close> by simp
    next
      case False
      then have "m1[?i := (m1 ! ?i)\<lparr>preamble := q\<rparr>] ! k = m1 ! k"
        by simp
      with c1 [OF k] False show ?thesis
        by simp
    qed
    show ?thesis
      unfolding r using a b c l1 by simp
  qed
qed

subsection \<open>Copying and erasing\<close>

lemma std_copy_done: "\<not> first < last_pos \<Longrightarrow> std_copy first last_pos d_first xs = xs"
  by (subst std_copy.simps) simp

lemma std_copy_step:
  "first < last_pos \<Longrightarrow>
   std_copy first last_pos d_first xs
     = std_copy (Suc first) last_pos (Suc d_first) (xs[d_first := xs ! first])"
  by (subst std_copy.simps) simp

lemma std_copy_nth:
  "first \<le> last_pos \<Longrightarrow> last_pos \<le> length xs \<Longrightarrow> d_first \<le> first \<Longrightarrow>
   length (std_copy first last_pos d_first xs) = length xs
   \<and> (\<forall>k < length xs. std_copy first last_pos d_first xs ! k
         = (if d_first \<le> k \<and> k < d_first + (last_pos - first) then xs ! (k - d_first + first)
            else xs ! k))"
proof (induction first last_pos d_first xs rule: std_copy.induct)
  case (1 first last_pos d_first xs)
  show ?case
  proof (cases "first < last_pos")
    case False
    with "1.prems" show ?thesis
      by (auto simp: std_copy_done)
  next
    case True
    let ?xs' = "xs[d_first := xs ! first]"
    let ?r = "std_copy (Suc first) last_pos (Suc d_first) ?xs'"
    have IH: "length ?r = length ?xs'
      \<and> (\<forall>k < length ?xs'. ?r ! k
         = (if Suc d_first \<le> k \<and> k < Suc d_first + (last_pos - Suc first)
            then ?xs' ! (k - Suc d_first + Suc first) else ?xs' ! k))"
      using "1.IH" [OF True] True "1.prems" by simp
    have len: "length ?r = length xs"
      using IH by simp
    have H: "?r ! k = (if Suc d_first \<le> k \<and> k < Suc d_first + (last_pos - Suc first)
            then ?xs' ! (k - Suc d_first + Suc first) else ?xs' ! k)" if "k < length xs" for k
      using IH that by simp
    have st: "std_copy first last_pos d_first xs = ?r"
      using True by (rule std_copy_step)
    have dlt: "d_first < length xs"
      using "1.prems" True by linarith
    have nth: "?r ! k = (if d_first \<le> k \<and> k < d_first + (last_pos - first)
                         then xs ! (k - d_first + first) else xs ! k)" if k: "k < length xs" for k
    proof -
      consider (lo) "k < d_first" | (eq) "k = d_first"
        | (mid) "Suc d_first \<le> k \<and> k < Suc d_first + (last_pos - Suc first)"
        | (hi) "Suc d_first + (last_pos - Suc first) \<le> k"
        by linarith
      then show ?thesis
      proof cases
        case lo
        have nc: "\<not> (Suc d_first \<le> k \<and> k < Suc d_first + (last_pos - Suc first))"
          using lo by linarith
        have nr: "\<not> (d_first \<le> k \<and> k < d_first + (last_pos - first))"
          using lo by linarith
        have "?r ! k = ?xs' ! k"
          using H [OF k] nc by presburger
        also have "\<dots> = xs ! k"
          using lo by simp
        finally show ?thesis
          using nr by presburger
      next
        case eq
        have nc: "\<not> (Suc d_first \<le> k \<and> k < Suc d_first + (last_pos - Suc first))"
          using eq by linarith
        have r: "d_first \<le> k \<and> k < d_first + (last_pos - first)"
          using eq True by linarith
        have "?r ! k = ?xs' ! k"
          using H [OF k] nc by presburger
        also have "\<dots> = xs ! first"
          using eq dlt by simp
        also have "\<dots> = xs ! (k - d_first + first)"
          using eq by simp
        finally show ?thesis
          using r by presburger
      next
        case mid
        have idx: "k - Suc d_first + Suc first = k - d_first + first"
          using mid by linarith
        have ne: "k - d_first + first \<noteq> d_first"
          using mid "1.prems" by linarith
        have r: "d_first \<le> k \<and> k < d_first + (last_pos - first)"
          using mid True by linarith
        have "?r ! k = ?xs' ! (k - Suc d_first + Suc first)"
          using H [OF k] mid by presburger
        also have "\<dots> = ?xs' ! (k - d_first + first)"
          by (simp only: idx)
        also have "\<dots> = xs ! (k - d_first + first)"
          using ne by simp
        finally show ?thesis
          using r by presburger
      next
        case hi
        have nc: "\<not> (Suc d_first \<le> k \<and> k < Suc d_first + (last_pos - Suc first))"
          using hi by linarith
        have nr: "\<not> (d_first \<le> k \<and> k < d_first + (last_pos - first))"
          using hi True by linarith
        have kd: "k \<noteq> d_first"
          using hi by linarith
        have "?r ! k = ?xs' ! k"
          using H [OF k] nc by presburger
        also have "\<dots> = xs ! k"
          using kd by simp
        finally show ?thesis
          using nr by presburger
      qed
    qed
    show ?thesis
      unfolding st using len nth by blast
  qed
qed

lemma remove_allocated_msg3s_drop:
  assumes "nof_allocs \<le> length (tc_rntis rar_req)"
  shows "remove_allocated_msg3s nof_allocs rar_req
           = rar_req\<lparr>tc_rntis := drop nof_allocs (tc_rntis rar_req)\<rparr>"
proof -
  let ?xs = "tc_rntis rar_req"
  let ?c = "std_copy nof_allocs (length ?xs) 0 ?xs"
  have C: "length ?c = length ?xs"
    "\<And>k. k < length ?xs \<Longrightarrow> ?c ! k
         = (if k < length ?xs - nof_allocs then ?xs ! (k + nof_allocs) else ?xs ! k)"
    using std_copy_nth [of nof_allocs "length ?xs" ?xs 0] assms by simp_all
  have new: "(if nof_allocs < length ?xs then length ?xs - nof_allocs else 0) = length ?xs - nof_allocs"
    using assms by simp
  have "take (length ?xs - nof_allocs) ?c = drop nof_allocs ?xs"
  proof (rule nth_equalityI)
    show "length (take (length ?xs - nof_allocs) ?c) = length (drop nof_allocs ?xs)"
      using C(1) by simp
  next
    fix k
    assume "k < length (take (length ?xs - nof_allocs) ?c)"
    then have k: "k < length ?xs - nof_allocs"
      using C(1) by simp
    then have "take (length ?xs - nof_allocs) ?c ! k = ?c ! k"
      by simp
    also have "\<dots> = ?xs ! (k + nof_allocs)"
      using C(2) [of k] k by simp
    also have "\<dots> = drop nof_allocs ?xs ! k"
      using k assms by (simp add: add.commute)
    finally show "take (length ?xs - nof_allocs) ?c ! k = drop nof_allocs ?xs ! k" .
  qed
  then show ?thesis
    unfolding remove_allocated_msg3s_def Let_def new by simp
qed

lemma erase_at_length: "k < length xs \<Longrightarrow> length (erase_at xs k) = length xs - 1"
  by (simp add: erase_at_def)

lemma erase_at_nth:
  "k < length xs \<Longrightarrow> j < length xs - 1 \<Longrightarrow>
   erase_at xs k ! j = (if j < k then xs ! j else xs ! Suc j)"
  by (auto simp: erase_at_def nth_append min_def)

subsection \<open>The loop over the pending RARs, step by step\<close>

lemma rar_loop_done:
  "length (pending_rars (fst st)) \<le> it \<Longrightarrow> rar_loop sched_rar pdcch_slot it st = Some st"
  by (subst rar_loop.simps) (simp add: Let_def)




lemma rar_loop_attempt:
  "it < length (pending_rars sched) \<Longrightarrow>
   window_contains (rar_window (pending_rars sched ! it)) pdcch_slot \<Longrightarrow>
   sched_rar (pending_rars sched ! it) sched = Some (n, sched') \<Longrightarrow>
   rar_loop sched_rar pdcch_slot it (sched, history)
     = (if \<not> n \<le> length (tc_rntis (pending_rars sched ! it)) then None
        else if 0 < n
        then (if n = length (tc_rntis (pending_rars sched ! it))
              then rar_loop sched_rar pdcch_slot it
                     (sched'\<lparr>pending_rars := erase_at (pending_rars sched) it\<rparr>,
                      history @ [rar_attempted (pending_rars sched ! it) n])
              else Some (sched'\<lparr>pending_rars := (pending_rars sched)
                                  [it := remove_allocated_msg3s n (pending_rars sched ! it)]\<rparr>,
                         history @ [rar_attempted (pending_rars sched ! it) n]))
        else rar_loop sched_rar pdcch_slot (Suc it)
               (sched'\<lparr>pending_rars := pending_rars sched\<rparr>,
                history @ [rar_attempted (pending_rars sched ! it) n]))"
  by (subst rar_loop.simps) (simp add: Let_def)



subsection \<open>The concrete inputs, evaluated\<close>

lemma env_example_cfg:
  "tdd_period env_example = None"
  "pdsch_td_alloc_list env_example = [(0, (2, 14))]"
  "pusch_td_alloc_list env_example = [\<lparr>k2 = 4, pusch_symbols = (0, 14)\<rparr>]"
  "dl_bwp_crbs env_example = (0, 24)"
  "ul_bwp_crbs env_example = (0, 24)"
  "dl_bwp_scs env_example = kHz30"
  "ul_bwp_scs env_example = kHz30"
  "ra_win_nof_slots env_example = 10"
  "MAX_NOF_MSG3 env_example = 1024"
  "rar_data env_example = [(3, 9)]"
  "msg3_mcs_index env_example = 0"
  "max_rar_grants env_example = 16"
  "max_dl_pdcchs env_example = 16"
  "max_ul_pdcchs env_example = 16"
  "max_puschs env_example = 16"
  by (simp_all add: env_example_def)

lemma env_example_fun:
  "is_dl_enabled env_example sl = True"
  "is_ul_enabled env_example sl = True"
  "is_ra_monitoring_active env_example sl = True"
  "find_empty_interval_of_length env_example = first_fit_interval"
  "alloc_pdcch_common env_example nof_used a rnti
     = (if nof_used < 4 then Some (4 * nof_used, Suc nof_used) else None)"
  "alloc_ul_pdcch_common env_example nof_used a rnti
     = (if nof_used < 4 then Some (4 * nof_used, Suc nof_used) else None)"
  "ra_frequency_type1_get_riv env_example = riv_type1"
  "to_Ta env_example t scs = t"
  "harq_empty env_example = hq_empty"
  "harq_pid env_example = hq_pid"
  "harq_prbs env_example = hq_prbs"
  "harq_new_tx env_example = hq_new_tx"
  "harq_new_retx env_example = hq_new_retx"
  "harq_reset env_example = hq_reset"
  by (simp_all add: env_example_def)

lemma free_runs_all_free:
  "free_runs (replicate m False) pos (Some (a, pos)) = [(a, pos + m)]"
  by (induction m arbitrary: pos) simp_all

lemma free_runs_all_free_start:
  "0 < m \<Longrightarrow> free_runs (replicate m False) pos None = [(pos, pos + m)]"
  by (cases m) (simp_all add: free_runs_all_free)

lemma first_fit_all_free:
  "0 < m \<Longrightarrow> nof_rbs \<le> m \<Longrightarrow> first_fit_interval (replicate m False) nof_rbs 0 = (0, nof_rbs)"
  by (simp add: first_fit_interval_def free_runs_all_free_start interval_length_def interval_resize_def)

lemma used_crbs_empty_grid:
  "grid_used_crbs {} bwp symbols = replicate (snd bwp - fst bwp) False"
  by (simp add: grid_used_crbs_def map_replicate_const)

lemma msg3_delay_example: "msg3_delay_of env_example \<lparr>k2 = 4, pusch_symbols = (0, 14)\<rparr> = Some 7"
  by (simp add: msg3_delay_of_def env_example_cfg get_msg3_delay_def array_at_def DELTAS_def)

lemma ring_pusch_full_at:
  "res_alloc_at ring_pusch_full 0 = Some (empty_slot 11)"
  "res_alloc_at ring_pusch_full 7 = Some ((empty_slot 18)\<lparr>puschs := replicate 16 other_pusch\<rparr>)"
  "length ring_pusch_full = 8"
  by (simp_all add: res_alloc_at_def ring_pusch_full_def)

lemma find_msg3_candidates_pusch_full:
  "find_msg3_candidates env_example ring_pusch_full max_nof_allocs 0 [] = Some []"
  apply (subst find_msg3_candidates.simps)
  apply (simp add: env_example_cfg env_example_fun msg3_delay_example ring_pusch_full_at)
  apply (subst find_msg3_candidates.simps)
  apply (simp add: env_example_cfg)
  done

lemma sched_pusch_full_fields:
  "res_alloc sched_pusch_full = ring_pusch_full"
  "pdcch_sch sched_pusch_full = 0"
  "pending_rars sched_pusch_full = [rar_example]"
  "pending_msg3s sched_pusch_full = msg3s_example"
  "logger sched_pusch_full = []"
  by (simp_all add: sched_pusch_full_def sched_example_def)

lemma rar_example_fields:
  "ra_rnti rar_example = 141"
  "tc_rntis rar_example = [0x4601]"
  "rar_window rar_example = (\<lparr>numerology = 1, count_val = 11\<rparr>, \<lparr>numerology = 1, count_val = 21\<rparr>)"
  by (simp_all add: rar_example_def)

lemma empty_slot_fields:
  "alloc_slot (empty_slot n) = \<lparr>numerology = 1, count_val = n\<rparr>"
  "dl_res_grid (empty_slot n) = {}"
  "ul_res_grid (empty_slot n) = {}"
  "dl_pdcchs (empty_slot n) = []"
  "ul_pdcchs (empty_slot n) = []"
  "rar_grants (empty_slot n) = []"
  "puschs (empty_slot n) = []"
  by (simp_all add: empty_slot_def)

lemma fill_rar_grant_no_candidates:
  "fill_rar_grant env_example rar_example (0, 0) []
     (update_slot 0
        (\<lambda>a. a\<lparr>dl_pdcchs := dl_pdcchs a @ [\<lparr>dl_ctx_rnti = 141, dl_ctx_cces = 0, ra_f1_0 = None\<rparr>]\<rparr>)
        (sched_pusch_full\<lparr>pdcch_sch := Suc 0\<rparr>))
   = Some sched_after_empty_rar"
  by (simp add: fill_rar_grant_def list_at_def res_alloc_at_def update_slot_def update_last_def
        env_example_cfg env_example_fun sched_pusch_full_fields ring_pusch_full_def
        empty_slot_fields crb_to_prb_def interval_length_def riv_type1_def grid_fill_def
        grant_cells_def sched_after_empty_rar_def)

lemma schedule_rar_pusch_full:
  "schedule_rar env_example rar_example sched_pusch_full = Some (0, sched_after_empty_rar)"
proof -
  have crbs: "first_fit_interval (replicate 24 False) 3 0 = (0, 3)"
    by (rule first_fit_all_free) simp_all
  show ?thesis
    by (simp add: schedule_rar_def list_at_def ring_pusch_full_at env_example_cfg env_example_fun
          sched_pusch_full_fields rar_example_fields empty_slot_fields used_crbs_empty_grid crbs
          interval_length_def interval_resize_def find_msg3_candidates_pusch_full
          fill_rar_grant_no_candidates)
qed

subsection \<open>Claims on the RACH indications\<close>

lemma handle_preambles_warnings:
  "q \<in> set qs \<Longrightarrow> \<not> preamble_accepted env m q \<Longrightarrow>
   warning_prach_ignored (tc_rnti q) \<in> set (snd (snd (handle_preambles env sl rnti qs (tcs, m, lg))))"
proof (induction qs rule: rev_induct)
  case Nil
  then show ?case by simp
next
  case (snoc q' qs)
  obtain tcs1 m1 lg1 where st: "handle_preambles env sl rnti qs (tcs, m, lg) = (tcs1, m1, lg1)"
    by (cases "handle_preambles env sl rnti qs (tcs, m, lg)") auto
  have h1: "\<And>k. harq (m1 ! k) = harq (m ! k)"
    using handle_preambles_result [of env sl rnti qs tcs m lg] st by simp
  have acc: "preamble_accepted env m1 q' = preamble_accepted env m q'"
    by (simp add: preamble_accepted_def h1)
  have lg: "set lg1 \<subseteq> set (snd (snd (handle_preambles env sl rnti (qs @ [q']) (tcs, m, lg))))"
    by (auto simp: handle_preambles_snoc st handle_preamble_cases)
  show ?case
  proof (cases "q \<in> set qs")
    case True
    with snoc.IH snoc.prems(2) st lg show ?thesis
      by auto
  next
    case False
    with snoc.prems have "q = q'"
      by simp
    with snoc.prems(2) acc show ?thesis
      by (simp add: handle_preambles_snoc st handle_preamble_cases)
  qed
qed

lemma msg3s_example_nth:
  "length msg3s_example = 1024"
  "msg3s_example ! 513 = (empty_msg3 513)\<lparr>preamble := \<lparr>preamble_id = 3, tc_rnti = 0x4601, time_advance = 12\<rparr>\<rparr>"
  "msg3s_example ! 514 = empty_msg3 514"
  by (simp_all add: msg3s_example_def del: upt_rec_numeral)

lemma msg3s_busy_nth:
  "length msg3s_busy = 1024"
  "harq (msg3s_busy ! 513) = harq (empty_msg3 513)"
  "hq_empty (harq (msg3s_busy ! 514)) = False"
  by (simp_all add: msg3s_busy_def msg3s_example_nth)

lemma msg3_index_example:
  "msg3_index env_example 0x4601 = 513"
  "msg3_index env_example 0x4602 = 514"
  by (simp_all add: msg3_index_def env_example_cfg)

lemma preamble_accepted_example:
  "preamble_accepted env_example msg3s_busy preamble_new"
  "\<not> preamble_accepted env_example msg3s_busy preamble_dup"
  by (simp_all add: preamble_accepted_def preamble_new_def preamble_dup_def msg3_index_example
        msg3s_busy_nth env_example_fun empty_msg3_def)

text \<open>
  Claim C7. While the preambles of an occasion are drained, a preamble whose entry
  \<open>pending_msg3s[tc_rnti mod MAX_NOF_MSG3]\<close> holds a HARQ process that is not empty is
  discarded with a warning: its TC-RNTI is not appended to the pending RAR and the stored
  preamble is not overwritten. Every other preamble is recorded in its entry and its
  TC-RNTI is appended to the pending RAR. The loop does not touch the HARQ processes, so
  that the TC-RNTIs appended are those of the preambles whose entry was empty before the
  loop, in their order.
\<close>

theorem duplicate_preamble_suppression:
  assumes "length msg3s = MAX_NOF_MSG3 env" and "0 < MAX_NOF_MSG3 env"
  shows "handle_preamble env sl rnti q (tcs, msg3s, lg)
           = (if harq_empty env (harq (msg3s ! (unat (tc_rnti q) mod MAX_NOF_MSG3 env)))
              then (tcs @ [tc_rnti q],
                    msg3s[unat (tc_rnti q) mod MAX_NOF_MSG3 env :=
                            (msg3s ! (unat (tc_rnti q) mod MAX_NOF_MSG3 env))\<lparr>preamble := q\<rparr>],
                    lg @ [info_new_prach sl (preamble_id q) rnti (tc_rnti q)])
              else (tcs, msg3s, lg @ [info_new_prach sl (preamble_id q) rnti (tc_rnti q),
                                      warning_prach_ignored (tc_rnti q)]))
       \<and> fst (handle_preambles env sl rnti qs (tcs, msg3s, lg))
           = tcs @ map tc_rnti (filter (preamble_accepted env msg3s) qs)
       \<and> (\<forall>d \<in> set qs. \<not> preamble_accepted env msg3s d \<longrightarrow>
             fst (snd (handle_preambles env sl rnti qs (tcs, msg3s, lg))) ! msg3_index env (tc_rnti d)
               = msg3s ! msg3_index env (tc_rnti d)
           \<and> warning_prach_ignored (tc_rnti d)
               \<in> set (snd (snd (handle_preambles env sl rnti qs (tcs, msg3s, lg)))))
       \<and> (\<forall>a \<in> set qs. preamble_accepted env msg3s a \<longrightarrow>
             tc_rnti a \<in> set (fst (handle_preambles env sl rnti qs (tcs, msg3s, lg)))
           \<and> preamble (fst (snd (handle_preambles env sl rnti qs (tcs, msg3s, lg)))
                          ! msg3_index env (tc_rnti a))
               = last (filter (\<lambda>b. msg3_index env (tc_rnti b) = msg3_index env (tc_rnti a)) qs))
       \<and> (\<forall>k. harq (fst (snd (handle_preambles env sl rnti qs (tcs, msg3s, lg))) ! k)
                = harq (msg3s ! k))"
proof -
  note R = handle_preambles_result [of env sl rnti qs tcs msg3s lg]
  let ?res = "handle_preambles env sl rnti qs (tcs, msg3s, lg)"
  have idx: "msg3_index env r < length msg3s" for r
    using assms by (simp add: msg3_index_def)
  have 1: "handle_preamble env sl rnti q (tcs, msg3s, lg)
           = (if harq_empty env (harq (msg3s ! (unat (tc_rnti q) mod MAX_NOF_MSG3 env)))
              then (tcs @ [tc_rnti q],
                    msg3s[unat (tc_rnti q) mod MAX_NOF_MSG3 env :=
                            (msg3s ! (unat (tc_rnti q) mod MAX_NOF_MSG3 env))\<lparr>preamble := q\<rparr>],
                    lg @ [info_new_prach sl (preamble_id q) rnti (tc_rnti q)])
              else (tcs, msg3s, lg @ [info_new_prach sl (preamble_id q) rnti (tc_rnti q),
                                      warning_prach_ignored (tc_rnti q)]))"
    by (simp add: handle_preamble_cases preamble_accepted_def msg3_index_def)
  have 2: "fst ?res = tcs @ map tc_rnti (filter (preamble_accepted env msg3s) qs)"
    using R by simp
  have 3: "fst (snd ?res) ! msg3_index env (tc_rnti d) = msg3s ! msg3_index env (tc_rnti d)
           \<and> warning_prach_ignored (tc_rnti d) \<in> set (snd (snd ?res))"
    if d: "d \<in> set qs" "\<not> preamble_accepted env msg3s d" for d
  proof -
    have "filter (\<lambda>b. msg3_index env (tc_rnti b) = msg3_index env (tc_rnti d)
                       \<and> preamble_accepted env msg3s b) qs = []"
      using d(2) by (auto simp: filter_empty_conv preamble_accepted_def)
    then have "fst (snd ?res) ! msg3_index env (tc_rnti d) = msg3s ! msg3_index env (tc_rnti d)"
      using R idx [of "tc_rnti d"] by simp
    with handle_preambles_warnings [OF d, of sl rnti tcs lg] show ?thesis
      by simp
  qed
  have 4: "tc_rnti a \<in> set (fst ?res)
           \<and> preamble (fst (snd ?res) ! msg3_index env (tc_rnti a))
               = last (filter (\<lambda>b. msg3_index env (tc_rnti b) = msg3_index env (tc_rnti a)) qs)"
    if a: "a \<in> set qs" "preamble_accepted env msg3s a" for a
  proof -
    have f: "filter (\<lambda>b. msg3_index env (tc_rnti b) = msg3_index env (tc_rnti a)
                       \<and> preamble_accepted env msg3s b) qs
             = filter (\<lambda>b. msg3_index env (tc_rnti b) = msg3_index env (tc_rnti a)) qs"
      using a(2) by (intro filter_cong) (auto simp: preamble_accepted_def)
    have ne: "filter (\<lambda>b. msg3_index env (tc_rnti b) = msg3_index env (tc_rnti a)) qs \<noteq> []"
      using a(1) by (auto simp: filter_empty_conv)
    have "preamble (fst (snd ?res) ! msg3_index env (tc_rnti a))
               = last (filter (\<lambda>b. msg3_index env (tc_rnti b) = msg3_index env (tc_rnti a)) qs)"
      using R idx [of "tc_rnti a"] f ne by simp
    moreover have "tc_rnti a \<in> set (fst ?res)"
      using a 2 by auto
    ultimately show ?thesis
      by simp
  qed
  have 5: "\<forall>k. harq (fst (snd ?res) ! k) = harq (msg3s ! k)"
    using R by simp
  from 1 2 3 4 5 show ?thesis
    by blast
qed

theorem duplicate_preamble_suppression_witness:
  "length msg3s_busy = MAX_NOF_MSG3 env_example
   \<and> 0 < MAX_NOF_MSG3 env_example
   \<and> preamble_accepted env_example msg3s_busy preamble_new
   \<and> \<not> preamble_accepted env_example msg3s_busy preamble_dup
   \<and> fst (handle_preambles env_example \<lparr>numerology = 1, count_val = 10\<rparr> 141
             [preamble_new, preamble_dup] ([], msg3s_busy, [])) = [0x4601]
   \<and> fst (snd (handle_preambles env_example \<lparr>numerology = 1, count_val = 10\<rparr> 141
             [preamble_new, preamble_dup] ([], msg3s_busy, []))) ! 514 = msg3s_busy ! 514
   \<and> warning_prach_ignored 0x4602
       \<in> set (snd (snd (handle_preambles env_example \<lparr>numerology = 1, count_val = 10\<rparr> 141
             [preamble_new, preamble_dup] ([], msg3s_busy, []))))
   \<and> preamble (fst (snd (handle_preambles env_example \<lparr>numerology = 1, count_val = 10\<rparr> 141
             [preamble_new, preamble_dup] ([], msg3s_busy, []))) ! 513) = preamble_new"
proof -
  have len: "length msg3s_busy = MAX_NOF_MSG3 env_example"
    by (simp add: msg3s_busy_nth env_example_cfg)
  have pos: "0 < MAX_NOF_MSG3 env_example"
    by (simp add: env_example_cfg)
  let ?res = "handle_preambles env_example \<lparr>numerology = 1, count_val = 10\<rparr> 141
             [preamble_new, preamble_dup] ([], msg3s_busy, [])"
  note T = duplicate_preamble_suppression [OF len pos, of "\<lparr>numerology = 1, count_val = 10\<rparr>" 141
      preamble_new "[]" "[]" "[preamble_new, preamble_dup]"]
  have a: "fst ?res = [] @ map tc_rnti (filter (preamble_accepted env_example msg3s_busy)
                                          [preamble_new, preamble_dup])"
    using T by blast
  have b: "\<forall>d \<in> set [preamble_new, preamble_dup]. \<not> preamble_accepted env_example msg3s_busy d \<longrightarrow>
             fst (snd ?res) ! msg3_index env_example (tc_rnti d)
               = msg3s_busy ! msg3_index env_example (tc_rnti d)
           \<and> warning_prach_ignored (tc_rnti d) \<in> set (snd (snd ?res))"
    using T by blast
  have c: "\<forall>a \<in> set [preamble_new, preamble_dup]. preamble_accepted env_example msg3s_busy a \<longrightarrow>
             tc_rnti a \<in> set (fst ?res)
           \<and> preamble (fst (snd ?res) ! msg3_index env_example (tc_rnti a))
               = last (filter (\<lambda>b. msg3_index env_example (tc_rnti b)
                                      = msg3_index env_example (tc_rnti a))
                         [preamble_new, preamble_dup])"
    using T by blast
  have a': "fst ?res = [0x4601]"
    using a preamble_accepted_example by (simp add: preamble_new_def)
  have b': "fst (snd ?res) ! 514 = msg3s_busy ! 514
            \<and> warning_prach_ignored 0x4602 \<in> set (snd (snd ?res))"
    using b preamble_accepted_example(2) by (simp add: preamble_dup_def msg3_index_example)
  have c': "preamble (fst (snd ?res) ! 513) = preamble_new"
    using c preamble_accepted_example(1)
    by (simp add: preamble_dup_def preamble_new_def msg3_index_example)
  from len pos preamble_accepted_example a' b' c' show ?thesis
    by simp
qed

subsection \<open>Claims on the loop over the pending RARs\<close>



text \<open>
  Claim C5. In the loop of \<^verbatim>\<open>run_slot\<close>, for a pending RAR in its window for which
  \<^verbatim>\<open>schedule_rar\<close> returns \<open>n\<close>: if \<open>0 < n = |tc_rntis|\<close> the RAR is removed and the loop
  goes on with the one that follows it; if \<open>0 < n < |tc_rntis|\<close> the first \<open>n\<close> TC-RNTIs
  are removed, the others keep their order, and the loop stops; if \<open>n = 0\<close> the RAR is
  kept as it is and the loop goes on with the next one, also when the RAR has no TC-RNTI.
\<close>

theorem partial_rar_bookkeeping:
  assumes "it < length (pending_rars sched)"
    and "window_contains (rar_window (pending_rars sched ! it)) pdcch_slot"
    and "sched_rar (pending_rars sched ! it) sched = Some (n, sched')"
    and "n \<le> length (tc_rntis (pending_rars sched ! it))"
  shows "(0 < n \<and> n = length (tc_rntis (pending_rars sched ! it)) \<longrightarrow>
            rar_loop sched_rar pdcch_slot it (sched, history)
              = rar_loop sched_rar pdcch_slot it
                  (sched'\<lparr>pending_rars := erase_at (pending_rars sched) it\<rparr>,
                   history @ [rar_attempted (pending_rars sched ! it) n])
          \<and> length (erase_at (pending_rars sched) it) = length (pending_rars sched) - 1
          \<and> (\<forall>j < length (pending_rars sched) - 1.
                erase_at (pending_rars sched) it ! j
                  = (if j < it then pending_rars sched ! j else pending_rars sched ! Suc j)))
       \<and> (0 < n \<and> n < length (tc_rntis (pending_rars sched ! it)) \<longrightarrow>
            rar_loop sched_rar pdcch_slot it (sched, history)
              = Some (sched'\<lparr>pending_rars := (pending_rars sched)
                                [it := (pending_rars sched ! it)
                                         \<lparr>tc_rntis := drop n (tc_rntis (pending_rars sched ! it))\<rparr>]\<rparr>,
                      history @ [rar_attempted (pending_rars sched ! it) n]))
       \<and> (n = 0 \<longrightarrow>
            rar_loop sched_rar pdcch_slot it (sched, history)
              = rar_loop sched_rar pdcch_slot (Suc it)
                  (sched'\<lparr>pending_rars := pending_rars sched\<rparr>,
                   history @ [rar_attempted (pending_rars sched ! it) n]))"
proof -
  note A = rar_loop_attempt [where sched_rar = sched_rar and history = history, OF assms(1,2,3)]
  have a: "0 < n \<and> n = length (tc_rntis (pending_rars sched ! it)) \<longrightarrow>
            rar_loop sched_rar pdcch_slot it (sched, history)
              = rar_loop sched_rar pdcch_slot it
                  (sched'\<lparr>pending_rars := erase_at (pending_rars sched) it\<rparr>,
                   history @ [rar_attempted (pending_rars sched ! it) n])"
  proof (intro impI)
    assume h: "0 < n \<and> n = length (tc_rntis (pending_rars sched ! it))"
    then have c1: "\<not> \<not> n \<le> length (tc_rntis (pending_rars sched ! it))" and c2: "0 < n"
      and c3: "n = length (tc_rntis (pending_rars sched ! it))"
      by blast+
    show "rar_loop sched_rar pdcch_slot it (sched, history)
              = rar_loop sched_rar pdcch_slot it
                  (sched'\<lparr>pending_rars := erase_at (pending_rars sched) it\<rparr>,
                   history @ [rar_attempted (pending_rars sched ! it) n])"
      unfolding A if_not_P [OF c1] if_P [OF c2] using c3 by (rule if_P)
  qed
  have a2: "length (erase_at (pending_rars sched) it) = length (pending_rars sched) - 1"
    using assms(1) by (rule erase_at_length)
  have a3: "\<forall>j < length (pending_rars sched) - 1.
                erase_at (pending_rars sched) it ! j
                  = (if j < it then pending_rars sched ! j else pending_rars sched ! Suc j)"
    using erase_at_nth [OF assms(1)] by blast
  have b: "0 < n \<and> n < length (tc_rntis (pending_rars sched ! it)) \<longrightarrow>
            rar_loop sched_rar pdcch_slot it (sched, history)
              = Some (sched'\<lparr>pending_rars := (pending_rars sched)
                                [it := (pending_rars sched ! it)
                                         \<lparr>tc_rntis := drop n (tc_rntis (pending_rars sched ! it))\<rparr>]\<rparr>,
                      history @ [rar_attempted (pending_rars sched ! it) n])"
  proof (intro impI)
    assume h: "0 < n \<and> n < length (tc_rntis (pending_rars sched ! it))"
    then have c1: "\<not> \<not> n \<le> length (tc_rntis (pending_rars sched ! it))" and c2: "0 < n"
      and c3: "\<not> n = length (tc_rntis (pending_rars sched ! it))"
      using assms(4) by auto
    show "rar_loop sched_rar pdcch_slot it (sched, history)
              = Some (sched'\<lparr>pending_rars := (pending_rars sched)
                                [it := (pending_rars sched ! it)
                                         \<lparr>tc_rntis := drop n (tc_rntis (pending_rars sched ! it))\<rparr>]\<rparr>,
                      history @ [rar_attempted (pending_rars sched ! it) n])"
      unfolding A if_not_P [OF c1] if_P [OF c2] if_not_P [OF c3]
        remove_allocated_msg3s_drop [OF assms(4)] by (rule refl)
  qed
  have c: "n = 0 \<longrightarrow>
            rar_loop sched_rar pdcch_slot it (sched, history)
              = rar_loop sched_rar pdcch_slot (Suc it)
                  (sched'\<lparr>pending_rars := pending_rars sched\<rparr>,
                   history @ [rar_attempted (pending_rars sched ! it) n])"
  proof (intro impI)
    assume h: "n = 0"
    then have c1: "\<not> \<not> n \<le> length (tc_rntis (pending_rars sched ! it))" and c2: "\<not> 0 < n"
      by simp_all
    show "rar_loop sched_rar pdcch_slot it (sched, history)
              = rar_loop sched_rar pdcch_slot (Suc it)
                  (sched'\<lparr>pending_rars := pending_rars sched\<rparr>,
                   history @ [rar_attempted (pending_rars sched ! it) n])"
      unfolding A if_not_P [OF c1] if_not_P [OF c2] by (rule refl)
  qed
  from a a2 a3 b c show ?thesis
    by blast
qed

subsection \<open>Further concrete inputs, evaluated\<close>

lemma sched_example_fields:
  "res_alloc (sched_example\<lparr>pending_rars := ps, logger := lg\<rparr>) = ring_example"
  "pdcch_sch (sched_example\<lparr>pending_rars := ps, logger := lg\<rparr>) = 0"
  "pending_msg3s (sched_example\<lparr>pending_rars := ps, logger := lg\<rparr>) = msg3s_example"
  by (simp_all add: sched_example_def)

lemma ring_example_at:
  "res_alloc_at ring_example 0 = Some (empty_slot 11)"
  "res_alloc_at ring_example 7 = Some (empty_slot 18)"
  "length ring_example = 8"
  by (simp_all add: res_alloc_at_def ring_example_def)

lemma find_msg3_candidates_example:
  "find_msg3_candidates env_example ring_example 1 0 []
     = Some [\<lparr>cand_crbs = (0, 3), pusch_td_res_index = 0\<rparr>]"
proof -
  have crbs: "first_fit_interval (replicate 24 False) 3 0 = (0, 3)"
    by (rule first_fit_all_free) simp_all
  show ?thesis
    apply (subst find_msg3_candidates.simps)
    apply (simp add: env_example_cfg env_example_fun msg3_delay_example ring_example_at
             empty_slot_fields used_crbs_empty_grid msg3_nof_prbs_def crbs interval_length_def
             register_msg3_candidates_def)
    apply (subst find_msg3_candidates.simps)
    apply (simp add: env_example_cfg)
    done
qed

lemma fill_rar_grant_example:
  assumes "ra_rnti rar = 141" and "tc_rntis rar = [0x4601]"
  shows "fill_rar_grant env_example rar (0, 3) [\<lparr>cand_crbs = (0, 3), pusch_td_res_index = 0\<rparr>]
     (update_slot 0
        (\<lambda>a. a\<lparr>dl_pdcchs := dl_pdcchs a @ [\<lparr>dl_ctx_rnti = 141, dl_ctx_cces = 0, ra_f1_0 = None\<rparr>]\<rparr>)
        (sched_example\<lparr>pending_rars := ps, logger := lg, pdcch_sch := Suc 0\<rparr>))
   = Some (sched_after_rar\<lparr>pending_rars := ps, logger := lg\<rparr>)"
  by (simp add: Let_def fill_rar_grant_def fill_msg3_grant_def list_at_def res_alloc_at_def
        update_slot_def update_last_def
        env_example_cfg env_example_fun msg3_delay_example sched_example_def
        assms msg3_index_example msg3s_example_nth empty_msg3_def
        ring_example_def empty_slot_fields crb_to_prb_def interval_length_def riv_type1_def
        grid_fill_def grant_cells_def hq_new_tx_def max_msg3_retxs_def msg3_tbs_bytes_def
        sched_after_rar_def)

lemma schedule_rar_one_grant:
  assumes "ra_rnti rar = 141" and "tc_rntis rar = [0x4601]"
  shows "schedule_rar env_example rar (sched_example\<lparr>pending_rars := ps, logger := lg\<rparr>)
           = Some (1, sched_after_rar\<lparr>pending_rars := ps, logger := lg\<rparr>)"
proof -
  have crbs: "first_fit_interval (replicate 24 False) 3 0 = (0, 3)"
    by (rule first_fit_all_free) simp_all
  show ?thesis
    using find_msg3_candidates_example fill_rar_grant_example [OF assms, where ps = ps and lg = lg]
    by (simp add: schedule_rar_def list_at_def ring_example_at env_example_cfg env_example_fun
          sched_example_fields assms empty_slot_fields used_crbs_empty_grid crbs
          interval_length_def interval_resize_def)
qed

lemma ring_one_left_at:
  "res_alloc_at ring_one_left 0 = Some (empty_slot 11)"
  "res_alloc_at ring_one_left 7 = Some ((empty_slot 18)\<lparr>puschs := replicate 15 other_pusch\<rparr>)"
  "length ring_one_left = 8"
  by (simp_all add: res_alloc_at_def ring_one_left_def)

lemma msg3s_two_nth:
  "length msg3s_two = 1024"
  "msg3s_two ! 513 = (empty_msg3 513)\<lparr>preamble := \<lparr>preamble_id = 3, tc_rnti = 0x4601, time_advance = 12\<rparr>\<rparr>"
  by (simp_all add: msg3s_two_def msg3s_example_nth)

lemma rar_two_fields:
  "ra_rnti rar_two = 141"
  "tc_rntis rar_two = [0x4601, 0x4602]"
  "rar_window rar_two = (\<lparr>numerology = 1, count_val = 11\<rparr>, \<lparr>numerology = 1, count_val = 21\<rparr>)"
  by (simp_all add: rar_two_def rar_example_def)

lemma find_msg3_candidates_one_left:
  "find_msg3_candidates env_example ring_one_left 2 0 []
     = Some [\<lparr>cand_crbs = (0, 3), pusch_td_res_index = 0\<rparr>]"
proof -
  have crbs: "first_fit_interval (replicate 24 False) 3 0 = (0, 3)"
    by (rule first_fit_all_free) simp_all
  show ?thesis
    apply (subst find_msg3_candidates.simps)
    apply (simp add: env_example_cfg env_example_fun msg3_delay_example ring_one_left_at
             empty_slot_fields used_crbs_empty_grid msg3_nof_prbs_def crbs interval_length_def
             register_msg3_candidates_def)
    apply (subst find_msg3_candidates.simps)
    apply (simp add: env_example_cfg)
    done
qed

lemma fill_rar_grant_one_left:
  "fill_rar_grant env_example rar_two (0, 3) [\<lparr>cand_crbs = (0, 3), pusch_td_res_index = 0\<rparr>]
     (update_slot 0
        (\<lambda>a. a\<lparr>dl_pdcchs := dl_pdcchs a @ [\<lparr>dl_ctx_rnti = 141, dl_ctx_cces = 0, ra_f1_0 = None\<rparr>]\<rparr>)
        (sched_one_left\<lparr>pdcch_sch := Suc 0\<rparr>))
   = Some sched_after_partial"
  by (simp add: Let_def fill_rar_grant_def fill_msg3_grant_def list_at_def res_alloc_at_def
        update_slot_def update_last_def
        env_example_cfg env_example_fun msg3_delay_example sched_one_left_def
        rar_two_fields msg3_index_example msg3s_two_nth empty_msg3_def
        ring_one_left_def empty_slot_fields crb_to_prb_def interval_length_def riv_type1_def
        grid_fill_def grant_cells_def hq_new_tx_def max_msg3_retxs_def msg3_tbs_bytes_def
        sched_after_partial_def)

lemma schedule_rar_one_left:
  "schedule_rar env_example rar_two sched_one_left = Some (1, sched_after_partial)"
proof -
  have crbs: "first_fit_interval (replicate 24 False) 6 0 = (0, 6)"
    by (rule first_fit_all_free) simp_all
  have fields: "res_alloc sched_one_left = ring_one_left" "pdcch_sch sched_one_left = 0"
    by (simp_all add: sched_one_left_def)
  show ?thesis
    using find_msg3_candidates_one_left fill_rar_grant_one_left
    by (simp add: schedule_rar_def list_at_def ring_one_left_at env_example_cfg env_example_fun
          fields rar_two_fields empty_slot_fields used_crbs_empty_grid crbs
          interval_length_def interval_resize_def)
qed

lemma schedule_rar_example:
  "schedule_rar env_example rar_example sched_example = Some (1, sched_after_rar)"
proof -
  have a: "sched_example\<lparr>pending_rars := [rar_example], logger := []\<rparr> = sched_example"
    by (simp add: sched_example_def)
  have b: "sched_after_rar\<lparr>pending_rars := [rar_example], logger := []\<rparr> = sched_after_rar"
    by (simp add: sched_after_rar_def sched_example_def)
  show ?thesis
    using schedule_rar_one_grant [where rar = rar_example and ps = "[rar_example]" and lg = "[]"]
    unfolding a b by (simp add: rar_example_fields)
qed

lemma get_ra_rnti_example:
  "get_ra_rnti \<lparr>numerology = 1, count_val = 10\<rparr> 0 0 False = 141"
  by (simp add: get_ra_rnti_def slot_index_def nof_slots_per_frame_def)

lemma handle_rach_dup:
  "handle_rach_indication_impl env_example rach_dup sched_rx = Some sched_no_msg3"
  using get_ra_rnti_example
  by (simp add: handle_rach_indication_impl_def rach_dup_def handle_occasion_def Let_def
        sched_rx_def find_rar_req_def env_example_cfg
        slot_add_def prach_duration_def handle_preambles_def handle_preamble_def
        preamble_dup_def msg3_index_example msg3s_busy_nth env_example_fun
        sched_no_msg3_def rar_no_msg3_def rar_example_def log_dup_def)

lemma schedule_rar_no_msg3:
  "schedule_rar env_example rar_no_msg3 sched_no_msg3
     = Some (0, sched_no_msg3\<lparr>logger := log_dup @ [debug_rar_postponed 141 ''Not enough PRBs for RAR.'']\<rparr>)"
proof -
  have crbs: "first_fit_interval (replicate 24 False) 0 0 = (0, 0)"
    by (rule first_fit_all_free) simp_all
  show ?thesis
    by (simp add: schedule_rar_def list_at_def ring_example_at env_example_cfg env_example_fun
          sched_no_msg3_def rar_no_msg3_def rar_example_def
          empty_slot_fields used_crbs_empty_grid crbs
          interval_length_def log_postponed_rar_def)
qed


lemma rar_loop_last_kept:
  assumes "pending_rars sched = [rar]"
    and "window_contains (rar_window rar) pdcch_slot"
    and "sched_rar rar sched = Some (0, sched')"
  shows "rar_loop sched_rar pdcch_slot 0 (sched, history)
           = Some (sched'\<lparr>pending_rars := [rar]\<rparr>, history @ [rar_attempted rar 0])"
proof -
  have "rar_loop sched_rar pdcch_slot 0 (sched, history)
          = rar_loop sched_rar pdcch_slot (Suc 0)
              (sched'\<lparr>pending_rars := pending_rars sched\<rparr>,
               history @ [rar_attempted (pending_rars sched ! 0) 0])"
    using rar_loop_attempt [where sched_rar = sched_rar and history = history and it = 0
                              and sched = sched and pdcch_slot = pdcch_slot and n = 0
                              and sched' = sched'] assms
    by simp
  also have "\<dots> = Some (sched'\<lparr>pending_rars := [rar]\<rparr>, history @ [rar_attempted rar 0])"
    using assms(1) by (simp add: rar_loop_done)
  finally show ?thesis .
qed

lemma rar_loop_no_msg3:
  "rar_loop (schedule_rar env_example) \<lparr>numerology = 1, count_val = 11\<rparr> 0 (sched_no_msg3, [])
     = Some (sched_no_msg3\<lparr>logger := log_dup @ [debug_rar_postponed 141 ''Not enough PRBs for RAR.'']\<rparr>,
             [rar_attempted rar_no_msg3 0])"
proof -
  have p: "pending_rars sched_no_msg3 = [rar_no_msg3]"
    by (simp add: sched_no_msg3_def)
  have w: "window_contains (rar_window rar_no_msg3) \<lparr>numerology = 1, count_val = 11\<rparr>"
    by (simp add: rar_no_msg3_def rar_example_def window_contains_def slot_le_def slot_lt_def)
  have e: "sched_no_msg3\<lparr>logger := log_dup @ [debug_rar_postponed 141 ''Not enough PRBs for RAR.''],
                         pending_rars := [rar_no_msg3]\<rparr>
             = sched_no_msg3\<lparr>logger := log_dup @ [debug_rar_postponed 141 ''Not enough PRBs for RAR.'']\<rparr>"
    by (simp add: sched_no_msg3_def)
  show ?thesis
    using rar_loop_last_kept [where sched_rar = "schedule_rar env_example" and history = "[]",
                                OF p w schedule_rar_no_msg3]
    unfolding e by simp
qed


lemma example_windows:
  "window_contains (rar_window rar_example) \<lparr>numerology = 1, count_val = 11\<rparr>"
  "window_contains (rar_window rar_two) \<lparr>numerology = 1, count_val = 11\<rparr>"
  "window_contains (rar_window rar_no_msg3) \<lparr>numerology = 1, count_val = 11\<rparr>"
  by (simp_all add: rar_example_def rar_two_def rar_no_msg3_def window_contains_def slot_le_def
        slot_lt_def)

subsection \<open>Claims on the commits of the RA scheduler\<close>

text \<open>
  Claim C1, which says that a call of \<^verbatim>\<open>schedule_rar\<close> that returns 0 leaves no partial
  state behind. The source does not do so on one path: when the search of step 3 to 6
  finds no Msg3 candidate (the lists of PUSCHs or the UL grids of the Msg3 slots are
  full) and the PDCCH allocation of step 7 succeeds, \<^verbatim>\<open>schedule_rar\<close> calls
  \<^verbatim>\<open>fill_rar_grant\<close> with no candidate and returns 0, the number of candidates, after
  one PDCCH was allocated and appended to the list of the slot and one RAR without
  grants was appended to the list of RARs.
\<close>

theorem schedule_rar_zero_commits:
  assumes "list_at (pdsch_td_alloc_list env) 0 = Some pdsch_td"
    and "list_at (rar_data env) 0 = Some rar_tbs"
    and "res_alloc_at (res_alloc sched) 0 = Some pdcch_alloc"
    and "res_alloc_at (res_alloc sched) (fst pdsch_td) = Some pdsch_alloc"
    and "length (rar_grants pdsch_alloc) < max_rar_grants env"
    and "length (dl_pdcchs pdcch_alloc) < max_dl_pdcchs env"
    and "0 < fst rar_tbs"
    and "rar_crbs = find_empty_interval_of_length env
                      (grid_used_crbs (dl_res_grid pdsch_alloc) (dl_bwp_crbs env) (snd pdsch_td))
                      (fst rar_tbs * length (tc_rntis rar)) 0"
    and "0 < interval_length rar_crbs div fst rar_tbs"
    and "find_msg3_candidates env (res_alloc sched) (interval_length rar_crbs div fst rar_tbs) 0 []
           = Some []"
    and "alloc_pdcch_common env (pdcch_sch sched) pdcch_alloc (ra_rnti rar) = Some pdcch"
  shows "\<exists>sched'. schedule_rar env rar sched = Some (0, sched')
           \<and> map_option (length \<circ> dl_pdcchs) (res_alloc_at (res_alloc sched') 0)
               = Some (Suc (length (dl_pdcchs pdcch_alloc)))
           \<and> map_option (length \<circ> rar_grants) (res_alloc_at (res_alloc sched') (fst pdsch_td))
               = Some (Suc (length (rar_grants pdsch_alloc)))
           \<and> map_option (grants \<circ> last \<circ> rar_grants) (res_alloc_at (res_alloc sched') (fst pdsch_td))
               = Some []
           \<and> pdcch_sch sched' = snd pdcch"
proof -
  have k0: "0 < length (res_alloc sched)" "fst pdsch_td < length (res_alloc sched)"
    and a0: "res_alloc sched ! 0 = pdcch_alloc"
    and a1: "res_alloc sched ! fst pdsch_td = pdsch_alloc"
    using assms(3,4) by (auto simp: res_alloc_at_def split: if_splits)
  have full: "\<not> (max_rar_grants env \<le> length (rar_grants pdsch_alloc)
                 \<or> max_dl_pdcchs env \<le> length (dl_pdcchs pdcch_alloc))"
    using assms(5,6) by simp
  have tbs: "fst rar_tbs \<noteq> 0"
    using assms(7) by simp
  note allocs = assms(9) [unfolded assms(8)]
  note cands = assms(10) [unfolded assms(8)]
  have step: "schedule_rar env rar sched
                = (case fill_rar_grant env rar
                          (interval_resize
                             (find_empty_interval_of_length env
                                (grid_used_crbs (dl_res_grid pdsch_alloc) (dl_bwp_crbs env) (snd pdsch_td))
                                (fst rar_tbs * length (tc_rntis rar)) 0) 0) []
                          (update_slot 0
                             (\<lambda>a. a\<lparr>dl_pdcchs := dl_pdcchs a
                                       @ [\<lparr>dl_ctx_rnti = ra_rnti rar, dl_ctx_cces = fst pdcch,
                                           ra_f1_0 = None\<rparr>]\<rparr>)
                             (sched\<lparr>pdcch_sch := snd pdcch\<rparr>)) of
                     None \<Rightarrow> None
                   | Some sched2 \<Rightarrow> Some (0, sched2))"
    using full tbs allocs
    by (simp add: schedule_rar_def assms(1,2,3,4) Let_def cands assms(11) split: option.splits)
  show ?thesis
  proof (cases "fst pdsch_td = 0")
    case True
    then have same: "pdsch_alloc = pdcch_alloc"
      using a0 a1 by simp
    show ?thesis
      unfolding step using k0 a0 True
      by (simp add: Let_def fill_rar_grant_def assms(1,2) res_alloc_at_def update_slot_def
            update_last_def same)
  next
    case False
    show ?thesis
      unfolding step using k0 a0 a1 False
      by (simp add: Let_def fill_rar_grant_def assms(1,2) res_alloc_at_def update_slot_def
            update_last_def)
  qed
qed

theorem schedule_rar_zero_commits_witness:
  "list_at (pdsch_td_alloc_list env_example) 0 = Some (0, (2, 14))
   \<and> list_at (rar_data env_example) 0 = Some (3, 9)
   \<and> res_alloc_at (res_alloc sched_pusch_full) 0 = Some (empty_slot 11)
   \<and> length (rar_grants (empty_slot 11)) < max_rar_grants env_example
   \<and> length (dl_pdcchs (empty_slot 11)) < max_dl_pdcchs env_example
   \<and> find_empty_interval_of_length env_example
         (grid_used_crbs (dl_res_grid (empty_slot 11)) (dl_bwp_crbs env_example) (2, 14))
         (3 * length (tc_rntis rar_example)) 0 = (0, 3)
   \<and> find_msg3_candidates env_example (res_alloc sched_pusch_full) 1 0 [] = Some []
   \<and> alloc_pdcch_common env_example (pdcch_sch sched_pusch_full) (empty_slot 11)
         (ra_rnti rar_example) = Some (0, 1)
   \<and> schedule_rar env_example rar_example sched_pusch_full = Some (0, sched_after_empty_rar)
   \<and> map_option (length \<circ> dl_pdcchs) (res_alloc_at (res_alloc sched_after_empty_rar) 0) = Some 1
   \<and> map_option (length \<circ> rar_grants) (res_alloc_at (res_alloc sched_after_empty_rar) 0) = Some 1
   \<and> map_option (grants \<circ> last \<circ> rar_grants) (res_alloc_at (res_alloc sched_after_empty_rar) 0)
       = Some []
   \<and> pdcch_sch sched_after_empty_rar = 1"
proof -
  have crbs: "first_fit_interval (replicate 24 False) 3 0 = (0, 3)"
    by (rule first_fit_all_free) simp_all
  have h1: "list_at (pdsch_td_alloc_list env_example) 0 = Some (0, (2, 14))"
    and h2: "list_at (rar_data env_example) 0 = Some (3, 9)"
    by (simp_all add: list_at_def env_example_cfg)
  have h3: "res_alloc_at (res_alloc sched_pusch_full) 0 = Some (empty_slot 11)"
    and h4: "res_alloc_at (res_alloc sched_pusch_full) (fst (0::nat, (2::nat, 14::nat))) = Some (empty_slot 11)"
    by (simp_all add: sched_pusch_full_fields ring_pusch_full_at)
  have h5: "length (rar_grants (empty_slot 11)) < max_rar_grants env_example"
    and h6: "length (dl_pdcchs (empty_slot 11)) < max_dl_pdcchs env_example"
    by (simp_all add: empty_slot_fields env_example_cfg)
  have h7: "0 < fst (3::nat, 9::nat)"
    by simp
  have h8: "(0, 3) = find_empty_interval_of_length env_example
                       (grid_used_crbs (dl_res_grid (empty_slot 11)) (dl_bwp_crbs env_example)
                          (snd (0::nat, (2::nat, 14::nat))))
                       (fst (3::nat, 9::nat) * length (tc_rntis rar_example)) 0"
    by (simp add: env_example_fun env_example_cfg empty_slot_fields used_crbs_empty_grid
          rar_example_fields crbs)
  have h9: "0 < interval_length (0::nat, 3::nat) div fst (3::nat, 9::nat)"
    by (simp add: interval_length_def)
  have h10: "find_msg3_candidates env_example (res_alloc sched_pusch_full)
               (interval_length (0::nat, 3::nat) div fst (3::nat, 9::nat)) 0 [] = Some []"
    by (simp add: sched_pusch_full_fields find_msg3_candidates_pusch_full)
  have h11: "alloc_pdcch_common env_example (pdcch_sch sched_pusch_full) (empty_slot 11)
               (ra_rnti rar_example) = Some (0, 1)"
    by (simp add: env_example_fun sched_pusch_full_fields)
  obtain sched' where
    r: "schedule_rar env_example rar_example sched_pusch_full = Some (0, sched')"
    and r1: "map_option (length \<circ> dl_pdcchs) (res_alloc_at (res_alloc sched') 0)
               = Some (Suc (length (dl_pdcchs (empty_slot 11))))"
    and r2: "map_option (length \<circ> rar_grants) (res_alloc_at (res_alloc sched') (fst (0::nat, (2::nat, 14::nat))))
               = Some (Suc (length (rar_grants (empty_slot 11))))"
    and r3: "map_option (grants \<circ> last \<circ> rar_grants)
               (res_alloc_at (res_alloc sched') (fst (0::nat, (2::nat, 14::nat)))) = Some []"
    and r4: "pdcch_sch sched' = snd (0::nat, 1::nat)"
    using schedule_rar_zero_commits [where env = env_example and rar = rar_example
            and sched = sched_pusch_full, OF h1 h2 h3 h4 h5 h6 h7 h8 h9 h10 h11]
    by blast
  have eq: "sched' = sched_after_empty_rar"
    using r schedule_rar_pusch_full by simp
  have h8': "find_empty_interval_of_length env_example
         (grid_used_crbs (dl_res_grid (empty_slot 11)) (dl_bwp_crbs env_example) (2, 14))
         (3 * length (tc_rntis rar_example)) 0 = (0, 3)"
    using h8 by simp
  have h10': "find_msg3_candidates env_example (res_alloc sched_pusch_full) 1 0 [] = Some []"
    using h10 by (simp add: interval_length_def)
  from h1 h2 h3 h5 h6 h8' h10' h11 r r1 r2 r3 r4 show ?thesis
    unfolding eq by (simp add: empty_slot_fields)
qed

text \<open>
  \<^verbatim>\<open>schedule_msg3_retx\<close> allocates the PDCCH and fills the UL grid before it asks the
  HARQ process for the retransmission: when \<^verbatim>\<open>harq.new_retx\<close> fails, the PDCCH entry
  (without DCI) and the cells of the grid stay, and no PUSCH is appended.
\<close>

lemma schedule_msg3_retx_failed_new_retx:
  assumes "res_alloc_at (res_alloc sched) 0 = Some pdcch_alloc"
    and "res_alloc_at (res_alloc sched) 4 = Some pusch_alloc"
    and "list_at (pending_msg3s sched) msg3_idx = Some msg3_ctx"
    and "length (puschs pusch_alloc) < max_puschs env"
    and "length (ul_pdcchs pdcch_alloc) < max_ul_pdcchs env"
    and "list_at (pusch_td_alloc_list env) 0 = Some pusch_td"
    and "grant = \<lparr>grant_scs = ul_bwp_scs env, grant_symbols = pusch_symbols pusch_td,
                   grant_crbs = prb_to_crb (ul_bwp_crbs env) (harq_prbs env (harq msg3_ctx))\<rparr>"
    and "\<not> grid_collides grant (ul_res_grid pusch_alloc)"
    and "alloc_ul_pdcch_common env (pdcch_sch sched) pdcch_alloc (tc_rnti (preamble msg3_ctx))
           = Some pdcch"
    and "\<not> fst (harq_new_retx env (alloc_slot pusch_alloc)
                   (crb_to_prb (ul_bwp_crbs env) (grant_crbs grant)) (harq msg3_ctx))"
  shows "\<exists>sched'. schedule_msg3_retx env msg3_idx sched = Some sched'
           \<and> map_option ul_res_grid (res_alloc_at (res_alloc sched') 4)
               = Some (grid_fill grant (ul_res_grid pusch_alloc))
           \<and> map_option ul_pdcchs (res_alloc_at (res_alloc sched') 0)
               = Some (ul_pdcchs pdcch_alloc
                       @ [\<lparr>ul_ctx_rnti = tc_rnti (preamble msg3_ctx), ul_ctx_cces = fst pdcch,
                           tc_rnti_f0_0 = None\<rparr>])
           \<and> map_option puschs (res_alloc_at (res_alloc sched') 4) = Some (puschs pusch_alloc)"
proof -
  have k: "0 < length (res_alloc sched)" "4 < length (res_alloc sched)"
    and a0: "res_alloc sched ! 0 = pdcch_alloc"
    and a4: "res_alloc sched ! 4 = pusch_alloc"
    using assms(1,2) by (auto simp: res_alloc_at_def split: if_splits)
  have full: "\<not> (max_puschs env \<le> length (puschs pusch_alloc)
                 \<or> max_ul_pdcchs env \<le> length (ul_pdcchs pdcch_alloc))"
    using assms(4,5) by simp
  note coll = assms(8) [unfolded assms(7)]
  note retx = assms(10) [unfolded assms(7), simplified]
  show ?thesis
    using k a0 a4 full coll retx
    by (simp add: schedule_msg3_retx_def assms(1,2,3,6,7,9) Let_def res_alloc_at_def
          update_slot_def)
qed

subsection \<open>The claims on the loop, at the concrete inputs\<close>


theorem partial_rar_counterexample:
  "handle_rach_indication_impl env_example rach_dup sched_rx = Some sched_no_msg3
   \<and> pending_rars sched_no_msg3 = [rar_no_msg3]
   \<and> window_contains (rar_window rar_no_msg3) \<lparr>numerology = 1, count_val = 11\<rparr>
   \<and> schedule_rar env_example rar_no_msg3 sched_no_msg3
       = Some (length (tc_rntis rar_no_msg3),
               sched_no_msg3\<lparr>logger := log_dup @ [debug_rar_postponed 141 ''Not enough PRBs for RAR.'']\<rparr>)
   \<and> rar_loop (schedule_rar env_example) \<lparr>numerology = 1, count_val = 11\<rparr> 0 (sched_no_msg3, [])
       = Some (sched_no_msg3\<lparr>logger := log_dup @ [debug_rar_postponed 141 ''Not enough PRBs for RAR.'']\<rparr>,
               [rar_attempted rar_no_msg3 0])
   \<and> pending_rars (sched_no_msg3\<lparr>logger := log_dup @ [debug_rar_postponed 141 ''Not enough PRBs for RAR.'']\<rparr>)
       = [rar_no_msg3]"
proof -
  have p: "pending_rars sched_no_msg3 = [rar_no_msg3]"
    by (simp add: sched_no_msg3_def)
  have n: "length (tc_rntis rar_no_msg3) = 0"
    by (simp add: rar_no_msg3_def)
  from p example_windows(3) rar_loop_no_msg3 schedule_rar_no_msg3 handle_rach_dup show ?thesis
    unfolding n by simp
qed

theorem partial_rar_bookkeeping_witness:
  "0 < length (pending_rars sched_example)
   \<and> window_contains (rar_window (pending_rars sched_example ! 0)) \<lparr>numerology = 1, count_val = 11\<rparr>
   \<and> schedule_rar env_example (pending_rars sched_example ! 0) sched_example = Some (1, sched_after_rar)
   \<and> 1 = length (tc_rntis (pending_rars sched_example ! 0))
   \<and> rar_loop (schedule_rar env_example) \<lparr>numerology = 1, count_val = 11\<rparr> 0 (sched_example, [])
       = Some (sched_after_rar\<lparr>pending_rars := []\<rparr>, [rar_attempted rar_example 1])
   \<and> 0 < length (pending_rars sched_one_left)
   \<and> window_contains (rar_window (pending_rars sched_one_left ! 0)) \<lparr>numerology = 1, count_val = 11\<rparr>
   \<and> schedule_rar env_example (pending_rars sched_one_left ! 0) sched_one_left
       = Some (1, sched_after_partial)
   \<and> 1 < length (tc_rntis (pending_rars sched_one_left ! 0))
   \<and> rar_loop (schedule_rar env_example) \<lparr>numerology = 1, count_val = 11\<rparr> 0 (sched_one_left, [])
       = Some (sched_after_partial\<lparr>pending_rars := [rar_two\<lparr>tc_rntis := [0x4602]\<rparr>]\<rparr>,
               [rar_attempted rar_two 1])
   \<and> 0 < length (pending_rars sched_pusch_full)
   \<and> window_contains (rar_window (pending_rars sched_pusch_full ! 0)) \<lparr>numerology = 1, count_val = 11\<rparr>
   \<and> schedule_rar env_example (pending_rars sched_pusch_full ! 0) sched_pusch_full
       = Some (0, sched_after_empty_rar)
   \<and> rar_loop (schedule_rar env_example) \<lparr>numerology = 1, count_val = 11\<rparr> 0 (sched_pusch_full, [])
       = Some (sched_after_empty_rar\<lparr>pending_rars := [rar_example]\<rparr>, [rar_attempted rar_example 0])"
proof -
  let ?sl = "\<lparr>numerology = 1, count_val = 11\<rparr>"
  have p1: "pending_rars sched_example = [rar_example]"
    by (simp add: sched_example_def)
  have a1: "0 < length (pending_rars sched_example)"
    and a2: "window_contains (rar_window (pending_rars sched_example ! 0)) ?sl"
    and a3: "schedule_rar env_example (pending_rars sched_example ! 0) sched_example
               = Some (1, sched_after_rar)"
    and a4: "1 \<le> length (tc_rntis (pending_rars sched_example ! 0))"
    and a5: "1 = length (tc_rntis (pending_rars sched_example ! 0))"
    using example_windows schedule_rar_example by (simp_all add: p1 rar_example_fields)
  note A = partial_rar_bookkeeping [where sched_rar = "schedule_rar env_example" and history = "[]"
             and pdcch_slot = ?sl, OF a1 a2 a3 a4]
  have "rar_loop (schedule_rar env_example) ?sl 0 (sched_example, [])
          = rar_loop (schedule_rar env_example) ?sl 0
              (sched_after_rar\<lparr>pending_rars := erase_at (pending_rars sched_example) 0\<rparr>,
               [] @ [rar_attempted (pending_rars sched_example ! 0) 1])"
    using A a5 by simp
  then have full: "rar_loop (schedule_rar env_example) ?sl 0 (sched_example, [])
          = Some (sched_after_rar\<lparr>pending_rars := []\<rparr>, [rar_attempted rar_example 1])"
    by (simp add: p1 erase_at_def rar_loop_done)
  have p2: "pending_rars sched_one_left = [rar_two]"
    by (simp add: sched_one_left_def)
  have b1: "0 < length (pending_rars sched_one_left)"
    and b2: "window_contains (rar_window (pending_rars sched_one_left ! 0)) ?sl"
    and b3: "schedule_rar env_example (pending_rars sched_one_left ! 0) sched_one_left
               = Some (1, sched_after_partial)"
    and b4: "1 \<le> length (tc_rntis (pending_rars sched_one_left ! 0))"
    and b5: "1 < length (tc_rntis (pending_rars sched_one_left ! 0))"
    using example_windows schedule_rar_one_left by (simp_all add: p2 rar_two_fields)
  note B = partial_rar_bookkeeping [where sched_rar = "schedule_rar env_example" and history = "[]"
             and pdcch_slot = ?sl, OF b1 b2 b3 b4]
  have "rar_loop (schedule_rar env_example) ?sl 0 (sched_one_left, [])
          = Some (sched_after_partial
                    \<lparr>pending_rars := (pending_rars sched_one_left)
                       [0 := (pending_rars sched_one_left ! 0)
                               \<lparr>tc_rntis := drop 1 (tc_rntis (pending_rars sched_one_left ! 0))\<rparr>]\<rparr>,
                  [] @ [rar_attempted (pending_rars sched_one_left ! 0) 1])"
    using B b5 by simp
  then have part: "rar_loop (schedule_rar env_example) ?sl 0 (sched_one_left, [])
          = Some (sched_after_partial\<lparr>pending_rars := [rar_two\<lparr>tc_rntis := [0x4602]\<rparr>]\<rparr>,
                  [rar_attempted rar_two 1])"
    by (simp add: p2 rar_two_fields)
  have p3: "pending_rars sched_pusch_full = [rar_example]"
    by (simp add: sched_pusch_full_fields)
  have c1: "0 < length (pending_rars sched_pusch_full)"
    and c2: "window_contains (rar_window (pending_rars sched_pusch_full ! 0)) ?sl"
    and c3: "schedule_rar env_example (pending_rars sched_pusch_full ! 0) sched_pusch_full
               = Some (0, sched_after_empty_rar)"
    and c4: "0 \<le> length (tc_rntis (pending_rars sched_pusch_full ! 0))"
    using example_windows schedule_rar_pusch_full by (simp_all add: p3)
  note C = partial_rar_bookkeeping [where sched_rar = "schedule_rar env_example" and history = "[]"
             and pdcch_slot = ?sl, OF c1 c2 c3 c4]
  have "rar_loop (schedule_rar env_example) ?sl 0 (sched_pusch_full, [])
          = rar_loop (schedule_rar env_example) ?sl (Suc 0)
              (sched_after_empty_rar\<lparr>pending_rars := pending_rars sched_pusch_full\<rparr>,
               [] @ [rar_attempted (pending_rars sched_pusch_full ! 0) 0])"
    using C by simp
  then have zero: "rar_loop (schedule_rar env_example) ?sl 0 (sched_pusch_full, [])
          = Some (sched_after_empty_rar\<lparr>pending_rars := [rar_example]\<rparr>,
                  [rar_attempted rar_example 0])"
    by (simp add: p3 rar_loop_done)
  from a1 a2 a3 a5 full b1 b2 b3 b5 part c1 c2 c3 zero show ?thesis
    by simp
qed

subsection \<open>The loop from its start, and the slot tick\<close>
















subsection \<open>The slot tick at the concrete inputs\<close>
















end
